theory Spec2Isabelle
  imports Complex_Main "HOL-Library.AList"
begin

section \<open>Concordia: values, objects and the two backing stores\<close>

text \<open>
  The embedding follows \<^verbatim>\<open>concordia/Concordia_logic.py\<close>. Python values that the
  code inspects are a datatype; the two kinds of payload object the code accepts (a
  \<^verbatim>\<open>dict\<close> and a pandas \<^verbatim>\<open>DataFrame\<close>) live in an explicit heap, because the
  code copies and then mutates them in place. The Redis cache and the MongoDB database
  are fields of the state, which every operation takes and returns; an exception is a
  value of type \<open>error\<close>, returned together with the state reached when it was raised.
\<close>

datatype pyval =
    PNone
  | PNaN
  | PStr string
  | PInt int
  | PFloat rat
  | PNpInt int
  | PTime nat
  | PObjectId nat
  | PList "pyval list"
  | PSeries "pyval list"
  | PNdarray "pyval list"

text \<open>
  \<open>PFloat\<close> is a float other than \<open>PNaN\<close> (by its exact value),
  \<open>PNpInt\<close> is a numpy scalar (an instance of \<^verbatim>\<open>np.generic\<close>), \<open>PTime\<close> a
  \<^verbatim>\<open>datetime\<close>, \<open>PObjectId\<close> the identifier MongoDB gives a document, \<open>PSeries\<close> a
  pandas column and \<open>PNdarray\<close> a numpy array. A \<^verbatim>\<open>dict\<close> with string keys is an
  association list in insertion order.
\<close>

type_synonym doc = "(string \<times> pyval) list"

record dataframe =
  df_columns :: "string list"
  df_rows :: "doc list"

datatype pyobj = Dict doc | DataFrame dataframe

datatype verr =
    Missing_row_id_field
  | Missing_model_id_field
  | Missing_row_id
  | No_model "string option"
  | Length_mismatch
  | All_scalar_values

datatype error =
    ValueError verr
  | AttributeError
  | KeyError "string option"
  | TypeError
  | IndexError
  | AssertionError
  | UnboundLocalError string
  | DataError
  | InvalidDocument
  | OverflowError
  | UnpicklingError
  | ModelError
  | InvalidRef

text \<open>
  \<open>ValueError\<close> carries which of the code's messages it was raised with. \<open>DataError\<close>
  is what the Redis client raises for a value it cannot store, \<open>InvalidDocument\<close> and
  \<open>OverflowError\<close> what the MongoDB driver raises for one, \<open>UnpicklingError\<close> stands
  for every failure of \<^verbatim>\<open>dill.loads(codecs.decode(_, 'base64'))\<close>, \<open>ModelError\<close> for an
  exception inside the model's own \<^verbatim>\<open>predict\<close>. \<open>InvalidRef\<close> is the model's answer to
  a reference that is not an allocated object; Python has no such reference.
\<close>

record state =
  default_row_id_field :: "string option"
  rdb :: "string \<Rightarrow> string option"
  mdb :: "string \<Rightarrow> doc list"
  next_oid :: nat
  clock :: nat
  heap :: "pyobj list"

text \<open>
  \<open>rdb\<close> is the Redis database (key to value), \<open>mdb\<close> the MongoDB database: each
  collection is the list of its documents in insertion order, which is the order in
  which \<^verbatim>\<open>find\<close> without a sort returns them. \<open>next_oid\<close> numbers the \<^verbatim>\<open>_id\<close> values
  MongoDB's driver generates, \<open>clock\<close> is what \<^verbatim>\<open>datetime.utcnow()\<close> reads. A reference
  to an object is its index in \<open>heap\<close>; allocation appends.
\<close>

record 'm env =
  dumps_b64 :: "'m \<Rightarrow> string"
  loads_b64 :: "string \<Rightarrow> 'm option"
  json_dumps :: "doc \<Rightarrow> string option"
  model_predict :: "'m \<Rightarrow> pyobj \<Rightarrow> error + pyval"
  model_predict_proba :: "'m \<Rightarrow> pyobj \<Rightarrow> error + pyval"

text \<open>
  The libraries the code calls and the model objects are parameters: \<open>dumps_b64 m\<close> is
  \<^verbatim>\<open>codecs.encode(dill.dumps(m), 'base64').decode()\<close>, \<open>loads_b64\<close> its inverse
  (\<open>None\<close> when decoding raises), \<open>json_dumps\<close> is \<^verbatim>\<open>json.dumps\<close> on a dictionary
  (\<open>None\<close> when it raises \<^verbatim>\<open>TypeError\<close>), and a model of type \<open>'m\<close> is used only through
  \<^verbatim>\<open>predict\<close> and \<^verbatim>\<open>predict_proba\<close>, which read their argument and do not change it.
\<close>

subsection \<open>Dictionaries and data frames\<close>

definition dict_contains :: "doc \<Rightarrow> string \<Rightarrow> bool" where
  "dict_contains d k = (map_of d k \<noteq> None)"

definition dict_get :: "doc \<Rightarrow> string option \<Rightarrow> pyval" where
  "dict_get d k = (case k of None \<Rightarrow> PNone
                   | Some c \<Rightarrow> (case map_of d c of None \<Rightarrow> PNone | Some v \<Rightarrow> v))"

definition df_column :: "dataframe \<Rightarrow> string \<Rightarrow> pyval" where
  "df_column df c = PSeries (map (\<lambda>r. case map_of r c of None \<Rightarrow> PNaN | Some v \<Rightarrow> v) (df_rows df))"

definition series_align :: "nat \<Rightarrow> pyval list \<Rightarrow> pyval list" where
  "series_align n vs = take n vs @ replicate (n - length vs) PNaN"

text \<open>
  A column has one dtype, and \<^verbatim>\<open>to_dict('records')\<close> returns its values as Python
  values. A list whose elements are all integers of at most eight bytes becomes an integer
  column: a numpy integer comes back as the \<^verbatim>\<open>int\<close> of its value (\<open>pd_native\<close>). A list of
  numbers and \<^verbatim>\<open>None\<close> that holds a number and is not all integers becomes a
  \<^verbatim>\<open>float64\<close> column: an integer becomes the float of its value, \<^verbatim>\<open>None\<close> becomes
  \<^verbatim>\<open>NaN\<close>. Any other list is a column of objects, stored element by element as it is.
  \<open>PFloat\<close> carries the exact value, so the conversion of an integer that \<^verbatim>\<open>float64\<close>
  cannot represent is not rounded here; no statement below depends on a converted value.
\<close>

definition pd_numeric :: "pyval \<Rightarrow> bool" where
  "pd_numeric v = (case v of PInt _ \<Rightarrow> True | PNpInt _ \<Rightarrow> True | PFloat _ \<Rightarrow> True
                   | PNaN \<Rightarrow> True | _ \<Rightarrow> False)"

definition pd_integer :: "pyval \<Rightarrow> bool" where
  "pd_integer v = (case v of PInt _ \<Rightarrow> True | PNpInt _ \<Rightarrow> True | _ \<Rightarrow> False)"

definition pd_int64 :: "pyval \<Rightarrow> bool" where
  "pd_int64 v = (case v of PInt i \<Rightarrow> - 9223372036854775808 \<le> i \<and> i \<le> 9223372036854775807
                 | PNpInt _ \<Rightarrow> True | _ \<Rightarrow> False)"

definition pd_uint64 :: "pyval \<Rightarrow> bool" where
  "pd_uint64 v = (case v of PInt i \<Rightarrow> 0 \<le> i \<and> i \<le> 18446744073709551615
                  | PNpInt i \<Rightarrow> 0 \<le> i | _ \<Rightarrow> False)"

definition pd_native :: "pyval \<Rightarrow> pyval" where
  "pd_native v = (case v of PNpInt i \<Rightarrow> PInt i | _ \<Rightarrow> v)"

definition pd_to_float :: "pyval \<Rightarrow> pyval" where
  "pd_to_float v = (case v of PInt i \<Rightarrow> PFloat (of_int i) | PNpInt i \<Rightarrow> PFloat (of_int i)
                    | PNone \<Rightarrow> PNaN | _ \<Rightarrow> v)"

definition pd_coerce_column :: "pyval list \<Rightarrow> pyval list" where
  "pd_coerce_column vs =
     (if list_all pd_integer vs
      then (if list_all pd_int64 vs \<or> list_all pd_uint64 vs then map pd_native vs else vs)
      else if list_all (\<lambda>v. pd_numeric v \<or> v = PNone) vs \<and> list_ex pd_numeric vs
      then map pd_to_float vs
      else vs)"

definition df_assign :: "dataframe \<Rightarrow> string \<Rightarrow> pyval list \<Rightarrow> dataframe" where
  "df_assign df c vs =
     \<lparr> df_columns = (if c \<in> set (df_columns df) then df_columns df else df_columns df @ [c]),
       df_rows = map (\<lambda>(r, v). AList.update c v r) (zip (df_rows df) vs) \<rparr>"

definition df_set_column :: "dataframe \<Rightarrow> string \<Rightarrow> pyval \<Rightarrow> error + dataframe" where
  "df_set_column df c v =
     (let n = length (df_rows df) in
      case v of
        PList vs \<Rightarrow> if length vs = n then Inr (df_assign df c (pd_coerce_column vs))
                    else Inl (ValueError Length_mismatch)
      | PNdarray vs \<Rightarrow> if length vs = n then Inr (df_assign df c (map pd_native vs))
                       else Inl (ValueError Length_mismatch)
      | PSeries vs \<Rightarrow> Inr (df_assign df c (pd_coerce_column (series_align n vs)))
      | _ \<Rightarrow> Inr (df_assign df c (replicate n (pd_native v))))"

definition df_del_column :: "dataframe \<Rightarrow> string \<Rightarrow> dataframe" where
  "df_del_column df c =
     \<lparr> df_columns = removeAll c (df_columns df),
       df_rows = map (AList.delete c) (df_rows df) \<rparr>"

text \<open>
  The operations the code applies to a payload without asking which kind it is:
  \<^verbatim>\<open>k in val\<close>, \<^verbatim>\<open>del val[k]\<close>, \<^verbatim>\<open>val[k] = v\<close>, \<^verbatim>\<open>val.get(k, None)\<close> and
  \<^verbatim>\<open>val[k]\<close>. On a data frame they act on columns; assigning a scalar broadcasts it,
  assigning a list or an array of another length raises, assigning a column aligns it by
  position (filling with \<^verbatim>\<open>NaN\<close>, which can turn an integer column into floats). The
  elements of a numpy array and a numpy scalar come back as Python values.
\<close>

definition obj_contains :: "pyobj \<Rightarrow> string \<Rightarrow> bool" where
  "obj_contains ob k = (case ob of Dict d \<Rightarrow> dict_contains d k
                        | DataFrame df \<Rightarrow> k \<in> set (df_columns df))"

definition obj_delitem :: "pyobj \<Rightarrow> string \<Rightarrow> pyobj" where
  "obj_delitem ob k = (case ob of Dict d \<Rightarrow> Dict (AList.delete k d)
                       | DataFrame df \<Rightarrow> DataFrame (df_del_column df k))"

definition obj_setitem :: "pyobj \<Rightarrow> string \<Rightarrow> pyval \<Rightarrow> error + pyobj" where
  "obj_setitem ob k v =
     (case ob of Dict d \<Rightarrow> Inr (Dict (AList.update k v d))
      | DataFrame df \<Rightarrow> (case df_set_column df k v of Inl e \<Rightarrow> Inl e
                          | Inr df' \<Rightarrow> Inr (DataFrame df')))"

definition obj_get :: "pyobj \<Rightarrow> string option \<Rightarrow> pyval" where
  "obj_get ob k =
     (case ob of Dict d \<Rightarrow> dict_get d k
      | DataFrame df \<Rightarrow> (case k of None \<Rightarrow> PNone
                          | Some c \<Rightarrow> if c \<in> set (df_columns df) then df_column df c else PNone))"

definition obj_getitem :: "pyobj \<Rightarrow> string option \<Rightarrow> error + pyval" where
  "obj_getitem ob k =
     (case k of None \<Rightarrow> Inl (KeyError None)
      | Some c \<Rightarrow> if obj_contains ob c then Inr (obj_get ob k) else Inl (KeyError k))"

definition is_np_generic :: "pyval \<Rightarrow> bool" where
  "is_np_generic v = (case v of PNpInt _ \<Rightarrow> True | _ \<Rightarrow> False)"

definition np_asscalar :: "pyval \<Rightarrow> pyval" where
  "np_asscalar v = (case v of PNpInt i \<Rightarrow> PInt i | _ \<Rightarrow> v)"

definition scalarize_value :: "pyval \<Rightarrow> pyval" where
  "scalarize_value v = (if is_np_generic v then np_asscalar v else v)"

definition scalarize_items :: "doc \<Rightarrow> doc" where
  "scalarize_items d = map (\<lambda>(k, v). (k, scalarize_value v)) d"

subsection \<open>The heap\<close>

definition heap_get :: "state \<Rightarrow> nat \<Rightarrow> pyobj option" where
  "heap_get st r = (if r < length (heap st) then Some (heap st ! r) else None)"

definition heap_set :: "state \<Rightarrow> nat \<Rightarrow> pyobj \<Rightarrow> state" where
  "heap_set st r ob = st\<lparr>heap := (heap st)[r := ob]\<rparr>"

definition heap_alloc :: "state \<Rightarrow> pyobj \<Rightarrow> nat \<times> state" where
  "heap_alloc st ob = (length (heap st), st\<lparr>heap := heap st @ [ob]\<rparr>)"

subsection \<open>The MongoDB driver\<close>

text \<open>
  The driver encodes a document as BSON before it sends it. It encodes \<^verbatim>\<open>None\<close>, strings,
  floats, dates, object identifiers, integers of at most eight bytes and lists of such
  values; it raises \<^verbatim>\<open>OverflowError\<close> for a larger integer and \<^verbatim>\<open>InvalidDocument\<close> for a
  numpy scalar, a numpy array or a pandas column. \<open>bson_check v\<close> is the exception for the
  value \<open>v\<close>, \<open>None\<close> when there is none.
\<close>

fun first_error :: "error option list \<Rightarrow> error option" where
  "first_error [] = None"
| "first_error (Some e # xs) = Some e"
| "first_error (None # xs) = first_error xs"

fun bson_check :: "pyval \<Rightarrow> error option" where
  "bson_check (PInt i) =
     (if - 9223372036854775808 \<le> i \<and> i \<le> 9223372036854775807 then None
      else Some OverflowError)"
| "bson_check (PNpInt i) = Some InvalidDocument"
| "bson_check (PSeries xs) = Some InvalidDocument"
| "bson_check (PNdarray xs) = Some InvalidDocument"
| "bson_check (PList xs) = first_error (map bson_check xs)"
| "bson_check v = None"

definition doc_check :: "doc \<Rightarrow> error option" where
  "doc_check d = first_error (map (\<lambda>(k, v). bson_check v) d)"

definition docs_check :: "doc list \<Rightarrow> error option" where
  "docs_check ds = first_error (map doc_check ds)"

definition bson_ok :: "pyval \<Rightarrow> bool" where
  "bson_ok v = (bson_check v = None)"

definition doc_ok :: "doc \<Rightarrow> bool" where
  "doc_ok d = (doc_check d = None)"

text \<open>
  \<^verbatim>\<open>insert_one\<close> and \<^verbatim>\<open>insert_many\<close> give a document without \<^verbatim>\<open>_id\<close> a fresh one,
  writing it into the dictionary they were passed, then encode, then append to the
  collection. \<^verbatim>\<open>insert_many\<close> raises \<^verbatim>\<open>TypeError\<close> for an empty list, and writes none of
  the documents of a call in which one cannot be encoded (a chunk of the code is one
  batch of the driver). \<^verbatim>\<open>find\<close> takes a flat filter: a field equal to a value, or at
  least a value; a number equals a number of the same value, and a stored list is matched
  by a value that equals one of its elements.
\<close>

definition with_id :: "nat \<Rightarrow> doc \<Rightarrow> doc" where
  "with_id n d = (if dict_contains d ''_id'' then d else d @ [(''_id'', PObjectId n)])"

fun assign_ids :: "nat \<Rightarrow> doc list \<Rightarrow> doc list" where
  "assign_ids n [] = []"
| "assign_ids n (d # ds) = with_id n d # assign_ids (Suc n) ds"

definition mongo_insert_many :: "state \<Rightarrow> string \<Rightarrow> doc list \<Rightarrow> error + state" where
  "mongo_insert_many st coll ds =
     (if ds = [] then Inl TypeError
      else (let ds' = assign_ids (next_oid st) ds in
            case docs_check ds' of
              Some e \<Rightarrow> Inl e
            | None \<Rightarrow> Inr (st\<lparr> mdb := (mdb st)(coll := mdb st coll @ ds'),
                               next_oid := next_oid st + length ds \<rparr>)))"

definition mongo_insert_one :: "state \<Rightarrow> string \<Rightarrow> nat \<Rightarrow> (error + unit) \<times> state" where
  "mongo_insert_one st coll r =
     (case heap_get st r of
        None \<Rightarrow> (Inl InvalidRef, st)
      | Some (DataFrame df) \<Rightarrow> (Inl TypeError, st)
      | Some (Dict d) \<Rightarrow>
          (let d' = with_id (next_oid st) d;
               st1 = st\<lparr> heap := (heap st)[r := Dict d'], next_oid := Suc (next_oid st) \<rparr>
           in case doc_check d' of
                Some e \<Rightarrow> (Inl e, st1)
              | None \<Rightarrow> (Inr (), st1\<lparr> mdb := (mdb st)(coll := mdb st coll @ [d']) \<rparr>)))"

datatype cond = Eq pyval | Gte pyval

fun py_ge :: "pyval \<Rightarrow> pyval \<Rightarrow> bool" where
  "py_ge (PTime a) (PTime b) = (b \<le> a)"
| "py_ge (PInt a) (PInt b) = (b \<le> a)"
| "py_ge (PFloat a) (PFloat b) = (b \<le> a)"
| "py_ge (PInt a) (PFloat b) = (b \<le> of_int a)"
| "py_ge (PFloat a) (PInt b) = (of_int b \<le> a)"
| "py_ge _ _ = False"

fun scalar_eq :: "pyval \<Rightarrow> pyval \<Rightarrow> bool" where
  "scalar_eq (PInt a) (PFloat b) = (of_int a = b)"
| "scalar_eq (PFloat a) (PInt b) = (a = of_int b)"
| "scalar_eq w v = (w = v)"

definition mongo_eq :: "pyval \<Rightarrow> pyval \<Rightarrow> bool" where
  "mongo_eq w v = (scalar_eq w v \<or> (case w of PList xs \<Rightarrow> list_ex (\<lambda>x. scalar_eq x v) xs
                                         | _ \<Rightarrow> False))"

fun cond_holds :: "doc \<Rightarrow> string \<times> cond \<Rightarrow> bool" where
  "cond_holds d (k, Eq v) = (case map_of d k of None \<Rightarrow> False | Some w \<Rightarrow> mongo_eq w v)"
| "cond_holds d (k, Gte v) = (case map_of d k of None \<Rightarrow> False | Some w \<Rightarrow> py_ge w v)"

definition matches :: "(string \<times> cond) list \<Rightarrow> doc \<Rightarrow> bool" where
  "matches q d = list_all (cond_holds d) q"

definition mongo_find :: "state \<Rightarrow> string \<Rightarrow> (string \<times> cond) list \<Rightarrow> doc list" where
  "mongo_find st coll q = filter (matches q) (mdb st coll)"

section \<open>The record ingestion pipeline\<close>

subsection \<open>Identity resolution\<close>

text \<open>
  \<^verbatim>\<open>xs[idx]\<close>: an index that is \<^verbatim>\<open>None\<close> raises \<^verbatim>\<open>TypeError\<close>, one from \<open>-len\<close> up to
  \<open>-1\<close> counts from the end, one outside \<open>-len .. len-1\<close> raises \<^verbatim>\<open>IndexError\<close>.
\<close>

definition py_list_index :: "pyval list \<Rightarrow> int option \<Rightarrow> error + pyval" where
  "py_list_index xs idx =
     (case idx of
        None \<Rightarrow> Inl TypeError
      | Some i \<Rightarrow>
          if 0 \<le> i \<and> i < int (length xs) then Inr (xs ! nat i)
          else if i < 0 \<and> - int (length xs) \<le> i then Inr (xs ! nat (int (length xs) + i))
          else Inl IndexError)"

definition select_listed :: "pyval \<Rightarrow> int option \<Rightarrow> error + pyval" where
  "select_listed v idx = (case v of PList xs \<Rightarrow> py_list_index xs idx | _ \<Rightarrow> Inr v)"

text \<open>
  \<^verbatim>\<open>check_row_id(val, row_id, idx)\<close> and \<^verbatim>\<open>check_model_id(val, model_id, idx)\<close> write
  the resolved identifier into the object \<open>val\<close> refers to, and return the reference.
\<close>

definition check_row_id :: "state \<Rightarrow> nat \<Rightarrow> pyval \<Rightarrow> int option \<Rightarrow> (error + nat) \<times> state" where
  "check_row_id st val row_id idx =
     (case heap_get st val of
        None \<Rightarrow> (Inl InvalidRef, st)
      | Some ob \<Rightarrow>
          (case select_listed row_id idx of
             Inl e \<Rightarrow> (Inl e, st)
           | Inr row_id1 \<Rightarrow>
               (case (if row_id1 = PNone
                      then (let calculated_row_id = obj_get ob (default_row_id_field st)
                            in if calculated_row_id = PNone
                               then Inl (ValueError Missing_row_id_field)
                               else Inr calculated_row_id)
                      else Inr row_id1) of
                  Inl e \<Rightarrow> (Inl e, st)
                | Inr row_id2 \<Rightarrow>
                    if row_id2 = PNone then (Inl AssertionError, st)
                    else (case obj_setitem ob ''row_id'' row_id2 of
                            Inl e \<Rightarrow> (Inl e, st)
                          | Inr ob' \<Rightarrow> (Inr val, heap_set st val ob')))))"

definition check_model_id :: "state \<Rightarrow> nat \<Rightarrow> pyval \<Rightarrow> int option \<Rightarrow> (error + nat) \<times> state" where
  "check_model_id st val model_id idx =
     (case heap_get st val of
        None \<Rightarrow> (Inl InvalidRef, st)
      | Some ob \<Rightarrow>
          (case select_listed model_id idx of
             Inl e \<Rightarrow> (Inl e, st)
           | Inr model_id1 \<Rightarrow>
               (case (if model_id1 = PNone
                      then (let calculated_model_id = obj_get ob (Some ''model_id'')
                            in if calculated_model_id = PNone
                               then Inl (ValueError Missing_model_id_field)
                               else Inr calculated_model_id)
                      else Inr model_id1) of
                  Inl e \<Rightarrow> (Inl e, st)
                | Inr model_id2 \<Rightarrow>
                    if model_id2 = PNone then (Inl AssertionError, st)
                    else (case obj_setitem ob ''model_id'' model_id2 of
                            Inl e \<Rightarrow> (Inl e, st)
                          | Inr ob' \<Rightarrow> (Inr val, heap_set st val ob')))))"

subsection \<open>Writing a table in chunks\<close>

definition chunk_size :: nat where
  "chunk_size = 1000"

text \<open>
  The \<^verbatim>\<open>while chunk_min_idx < df.shape[0]\<close> loop of \<^verbatim>\<open>_insert_df_into_db\<close>:
  \<open>rws\<close> is \<^verbatim>\<open>df.to_dict('records')\<close> of the whole frame, of which
  \<^verbatim>\<open>df.iloc[chunk_min_idx: max_idx]\<close> takes a slice. An exception of \<^verbatim>\<open>insert_many\<close>
  ends the loop; the chunks written before it stay written.
\<close>

function insert_chunks :: "state \<Rightarrow> string \<Rightarrow> doc list \<Rightarrow> nat \<Rightarrow> (error + unit) \<times> state" where
  "insert_chunks st val_type rws chunk_min_idx =
     (if chunk_min_idx < length rws
      then (let max_idx = min (length rws) (chunk_min_idx + chunk_size);
                df_chunk = take (max_idx - chunk_min_idx) (drop chunk_min_idx rws)
            in case mongo_insert_many st val_type df_chunk of
                 Inl e \<Rightarrow> (Inl e, st)
               | Inr st' \<Rightarrow> insert_chunks st' val_type rws (chunk_min_idx + chunk_size))
      else (Inr (), st))"
  by pat_completeness auto
termination
  by (relation "measure (\<lambda>(st, val_type, rws, i). length rws - i)")
     (auto simp: chunk_size_def)

declare insert_chunks.simps [simp del]

text \<open>
  \<^verbatim>\<open>_insert_df_into_db(df, val_type, row_id, model_id)\<close>. Its two identity blocks
  (\<^verbatim>\<open>if 'row_id' not in df_cols\<close> and \<^verbatim>\<open>if 'model_id' not in df_cols\<close>) are
  \<open>df_row_id_block\<close> and \<open>df_model_id_block\<close>; \<open>df_cols\<close> is the set of columns taken
  before either block runs. When \<^verbatim>\<open>row_id\<close> is \<^verbatim>\<open>None\<close> and the default row-id field is
  a column, the first block leaves the frame as it is.
\<close>

definition df_row_id_block ::
  "string option \<Rightarrow> dataframe \<Rightarrow> string set \<Rightarrow> pyval \<Rightarrow> error + dataframe" where
  "df_row_id_block default_field df df_cols row_id =
     (if ''row_id'' \<notin> df_cols
      then (if row_id \<noteq> PNone then df_set_column df ''row_id'' row_id
            else (case default_field of
                    None \<Rightarrow> Inl (ValueError Missing_row_id_field)
                  | Some c \<Rightarrow> if c \<notin> df_cols then Inl (ValueError Missing_row_id_field)
                              else Inr df))
      else Inr df)"

definition df_model_id_block :: "dataframe \<Rightarrow> string set \<Rightarrow> pyval \<Rightarrow> error + dataframe" where
  "df_model_id_block df df_cols model_id =
     (if ''model_id'' \<notin> df_cols
      then (if model_id \<noteq> PNone then df_set_column df ''model_id'' model_id
            else Inl (ValueError Missing_model_id_field))
      else Inr df)"

definition priv_insert_df_into_db ::
  "state \<Rightarrow> nat \<Rightarrow> string \<Rightarrow> pyval \<Rightarrow> pyval \<Rightarrow> (error + unit) \<times> state" where
  "priv_insert_df_into_db st r val_type row_id model_id =
     (case heap_get st r of
        None \<Rightarrow> (Inl InvalidRef, st)
      | Some (Dict d) \<Rightarrow> (Inl AttributeError, st)
      | Some (DataFrame df) \<Rightarrow>
          (let df_cols = set (df_columns df) in
           case df_row_id_block (default_row_id_field st) df df_cols row_id of
             Inl e \<Rightarrow> (Inl e, st)
           | Inr df1 \<Rightarrow>
               (let st1 = heap_set st r (DataFrame df1) in
                case df_model_id_block df1 df_cols model_id of
                  Inl e \<Rightarrow> (Inl e, st1)
                | Inr df2 \<Rightarrow>
                    (let st2 = heap_set st1 r (DataFrame df2)
                     in insert_chunks st2 val_type (df_rows df2) 0))))"

subsection \<open>The entry point of every write\<close>

definition insert_into_persistent_db ::
  "state \<Rightarrow> nat \<Rightarrow> string \<Rightarrow> pyval \<Rightarrow> pyval \<Rightarrow> (error + unit) \<times> state" where
  "insert_into_persistent_db st val0 val_type row_id model_id =
     (case heap_get st val0 of
        None \<Rightarrow> (Inl InvalidRef, st)
      | Some ob0 \<Rightarrow>
          (let (val, st1) = heap_alloc st ob0;
               ob1 = (if obj_contains ob0 ''_id'' then obj_delitem ob0 ''_id'' else ob0);
               ob2 = (if obj_contains ob1 ''_id_'' then obj_delitem ob1 ''_id_'' else ob1)
           in case obj_setitem ob2 ''_concordia_created_at'' (PTime (clock st)) of
                Inl e \<Rightarrow> (Inl e, heap_set st1 val ob2)
              | Inr ob3 \<Rightarrow>
                  (let st2 = heap_set st1 val ob3 in
                   case ob3 of
                     Dict d3 \<Rightarrow>
                       (case check_row_id st2 val row_id None of
                          (Inl e, st3) \<Rightarrow> (Inl e, st3)
                        | (Inr val1, st3) \<Rightarrow>
                            (case check_model_id st3 val1 model_id None of
                               (Inl e, st4) \<Rightarrow> (Inl e, st4)
                             | (Inr val2, st4) \<Rightarrow>
                                 (case heap_get st4 val2 of
                                    Some (Dict d4) \<Rightarrow>
                                      (let st5 = heap_set st4 val2 (Dict (scalarize_items d4))
                                       in mongo_insert_one st5 val_type val2)
                                  | Some (DataFrame df4) \<Rightarrow> (Inl TypeError, st4)
                                  | None \<Rightarrow> (Inl InvalidRef, st4))))
                   | DataFrame df3 \<Rightarrow>
                       priv_insert_df_into_db st2 val val_type row_id model_id)))"

section \<open>Queries\<close>

definition retrieve_from_persistent_db ::
  "state \<Rightarrow> string \<Rightarrow> pyval \<Rightarrow> pyval \<Rightarrow> pyval \<Rightarrow> string option \<Rightarrow> doc list" where
  "retrieve_from_persistent_db st val_type row_id model_id min_date date_field =
     (let query_params =
            (if row_id = PNone then [] else [(''row_id'', Eq row_id)]) @
            (if model_id = PNone then [] else [(''model_id'', Eq model_id)]) @
            (if min_date \<noteq> PNone
             then (case date_field of
                     None \<Rightarrow> [(''_concordia_created_at'', Gte min_date)]
                   | Some f \<Rightarrow> [(f, Gte min_date)])
             else [])
      in mongo_find st val_type query_params)"

section \<open>The model registry\<close>

definition py_str_id :: "string option \<Rightarrow> string" where
  "py_str_id model_id = (case model_id of None \<Rightarrow> ''None'' | Some s \<Rightarrow> s)"

definition pyval_of_id :: "string option \<Rightarrow> pyval" where
  "pyval_of_id model_id = (case model_id of None \<Rightarrow> PNone | Some s \<Rightarrow> PStr s)"

definition make_redis_model_key :: "string option \<Rightarrow> string" where
  "make_redis_model_key model_id = ''_concordia_'' @ py_str_id model_id @ ''_'' @ ''model''"

text \<open>
  \<^verbatim>\<open>add_model(model, model_id, feature_names, feature_importances, description)\<close>.
  A model identifier is a string or \<^verbatim>\<open>None\<close>; \<open>feature_importances\<close> is \<open>None\<close> (the
  default of the parameter) or a reference to the caller's dictionary, whose numpy
  scalars the loop replaces in place.
\<close>

definition add_model ::
  "'m env \<Rightarrow> state \<Rightarrow> 'm \<Rightarrow> string option \<Rightarrow> pyval \<Rightarrow> nat option \<Rightarrow> pyval
     \<Rightarrow> (error + unit) \<times> state" where
  "add_model ev st model model_id feature_names feature_importances description =
     (let redis_key_model = make_redis_model_key model_id;
          stringified_model = dumps_b64 ev model;
          st1 = st\<lparr>rdb := (rdb st)(redis_key_model \<mapsto> stringified_model)\<rparr>
      in case feature_importances of
           None \<Rightarrow> (Inl AttributeError, st1)
         | Some fi \<Rightarrow>
             (case heap_get st1 fi of
                None \<Rightarrow> (Inl InvalidRef, st1)
              | Some (DataFrame df) \<Rightarrow> (Inl TypeError, st1)
              | Some (Dict d) \<Rightarrow>
                  (let d' = scalarize_items d;
                       st2 = heap_set st1 fi (Dict d')
                   in case json_dumps ev d' of
                        None \<Rightarrow> (Inl TypeError, st2)
                      | Some js \<Rightarrow>
                          (let mdb_doc =
                                 [(''val_type'', PStr ''model_info''),
                                  (''model'', PStr stringified_model),
                                  (''model_id'', pyval_of_id model_id),
                                  (''feature_names'', feature_names),
                                  (''feature_importances'', PStr js),
                                  (''description'', description),
                                  (''date_added'', PTime (clock st2))];
                               (r, st3) = heap_alloc st2 (Dict mdb_doc)
                           in insert_into_persistent_db st3 r ''model_info''
                                (pyval_of_id model_id) (pyval_of_id model_id)))))"

definition decode_model :: "'m env \<Rightarrow> string option \<Rightarrow> error + 'm" where
  "decode_model ev redis_result =
     (case redis_result of
        None \<Rightarrow> Inl TypeError
      | Some b \<Rightarrow> (case loads_b64 ev b of None \<Rightarrow> Inl UnpicklingError | Some m \<Rightarrow> Inr m))"

text \<open>
  \<^verbatim>\<open>_get_model(model_id)\<close>: the cache first, then the \<^verbatim>\<open>model_info\<close> collection, of
  which it takes \<^verbatim>\<open>mdb_result[0]['model']\<close> and writes it back to the cache. The Redis
  client stores a string; for another value of the field the model raises \<open>DataError\<close>.
  A reply of the client is never the same object as the literal \<^verbatim>\<open>'None'\<close>, so the
  test \<^verbatim>\<open>redis_result is 'None' or redis_result is None\<close> is the test for a missing key.
\<close>

definition priv_get_model :: "'m env \<Rightarrow> state \<Rightarrow> string option \<Rightarrow> (error + 'm) \<times> state" where
  "priv_get_model ev st model_id =
     (let redis_key_model = make_redis_model_key model_id;
          redis_result = rdb st redis_key_model
      in case redis_result of
           None \<Rightarrow>
             (let mdb_result = retrieve_from_persistent_db st ''model_info'' PNone
                                 (pyval_of_id model_id) PNone None
              in case mdb_result of
                   [] \<Rightarrow> (Inl (ValueError (No_model model_id)), st)
                 | d0 # rest \<Rightarrow>
                     (case map_of d0 ''model'' of
                        None \<Rightarrow> (Inl (KeyError (Some ''model'')), st)
                      | Some v \<Rightarrow>
                          (case v of
                             PStr model \<Rightarrow>
                               (let st1 = st\<lparr>rdb := (rdb st)(redis_key_model \<mapsto> model)\<rparr>
                                in (decode_model ev (rdb st1 redis_key_model), st1))
                           | _ \<Rightarrow> (Inl DataError, st))))
         | Some b \<Rightarrow> (decode_model ev (Some b), st))"

section \<open>The prediction orchestrator\<close>

definition is_listlike :: "pyval \<Rightarrow> bool" where
  "is_listlike v = (case v of PList _ \<Rightarrow> True | PSeries _ \<Rightarrow> True | PNdarray _ \<Rightarrow> True
                    | _ \<Rightarrow> False)"

definition items_of :: "pyval \<Rightarrow> pyval list" where
  "items_of v = (case v of PList xs \<Rightarrow> xs | PSeries xs \<Rightarrow> xs | PNdarray xs \<Rightarrow> xs | _ \<Rightarrow> [])"

text \<open>
  \<^verbatim>\<open>pd.DataFrame(d)\<close> on a dictionary of columns: the list-like values must have one
  length, which is the number of rows; a list becomes a column of one dtype, as in an
  assignment; a scalar is broadcast; only scalars raise.
\<close>

definition column_of :: "pyval \<Rightarrow> pyval list" where
  "column_of v = (case v of PList xs \<Rightarrow> pd_coerce_column xs | PSeries xs \<Rightarrow> xs
                  | PNdarray xs \<Rightarrow> map pd_native xs | _ \<Rightarrow> [])"

definition pd_DataFrame :: "doc \<Rightarrow> error + dataframe" where
  "pd_DataFrame d =
     (case filter is_listlike (map snd d) of
        [] \<Rightarrow> Inl (ValueError All_scalar_values)
      | c # cs \<Rightarrow>
          (let n = length (items_of c) in
           if list_all (\<lambda>c'. length (items_of c') = n) cs
           then Inr \<lparr> df_columns = map fst d,
                      df_rows = map (\<lambda>i. map (\<lambda>(k, v). (k, if is_listlike v then column_of v ! i
                                                           else pd_native v)) d) [0..<n] \<rparr>
           else Inl (ValueError Length_mismatch)))"

definition normalize_prediction :: "pyval \<Rightarrow> pyval" where
  "normalize_prediction prediction =
     (case prediction of
        PNdarray items \<Rightarrow>
          PList (map (\<lambda>item. case item of PNdarray xs \<Rightarrow> PList xs | _ \<Rightarrow> item) items)
      | _ \<Rightarrow> prediction)"

definition is_DataFrame :: "pyobj \<Rightarrow> bool" where
  "is_DataFrame ob = (case ob of DataFrame _ \<Rightarrow> True | Dict _ \<Rightarrow> False)"

text \<open>
  \<^verbatim>\<open>_predict(features, model_id, row_id, proba)\<close>, in the order of the source: copy the
  features, check that a row identifier can exist, resolve the model, read the default
  row identifier, write the features, call the model, write the prediction. Nothing has
  written to the copy when the default row identifier is read from it, so the read is
  from its content \<open>ob0\<close>; the model is called on the copy as the heap holds it then.
\<close>

definition priv_predict ::
  "'m env \<Rightarrow> state \<Rightarrow> nat \<Rightarrow> string option \<Rightarrow> pyval \<Rightarrow> bool \<Rightarrow> (error + pyval) \<times> state" where
  "priv_predict ev st features0 model_id row_id proba =
     (case heap_get st features0 of
        None \<Rightarrow> (Inl InvalidRef, st)
      | Some ob0 \<Rightarrow>
          (let (features, st1) = heap_alloc st ob0 in
           if row_id = PNone \<and> default_row_id_field st1 = None
           then (Inl (ValueError Missing_row_id), st1)
           else
             (case priv_get_model ev st1 model_id of
                (Inl e, st2) \<Rightarrow> (Inl e, st2)
              | (Inr model, st2) \<Rightarrow>
                  (case (if row_id = PNone then obj_getitem ob0 (default_row_id_field st2)
                         else Inr row_id) of
                     Inl e \<Rightarrow> (Inl e, st2)
                   | Inr row_id1 \<Rightarrow>
                       (case insert_into_persistent_db st2 features ''live_features'' row_id1
                               (pyval_of_id model_id) of
                          (Inl e, st3) \<Rightarrow> (Inl e, st3)
                        | (Inr u, st3) \<Rightarrow>
                            (case heap_get st3 features of
                               None \<Rightarrow> (Inl InvalidRef, st3)
                             | Some ob \<Rightarrow>
                                 (case (if proba then model_predict_proba ev model ob
                                        else model_predict ev model ob) of
                                    Inl e \<Rightarrow> (Inl e, st3)
                                  | Inr prediction \<Rightarrow>
                                      (let pred_for_saving = normalize_prediction prediction;
                                           pred_doc = [(''prediction'', pred_for_saving),
                                                       (''row_id'', row_id1),
                                                       (''model_id'', pyval_of_id model_id)]
                                       in case (if is_DataFrame ob
                                                then (case pd_DataFrame pred_doc of
                                                        Inl e \<Rightarrow> Inl e
                                                      | Inr df \<Rightarrow> Inr (DataFrame df))
                                                else Inr (Dict pred_doc)) of
                                            Inl e \<Rightarrow> (Inl e, st3)
                                          | Inr pd \<Rightarrow>
                                              (let (r, st4) = heap_alloc st3 pd in
                                               case insert_into_persistent_db st4 r
                                                      ''live_predictions'' row_id1
                                                      (pyval_of_id model_id) of
                                                 (Inl e, st5) \<Rightarrow> (Inl e, st5)
                                               | (Inr u', st5) \<Rightarrow> (Inr prediction, st5))))))))))"

definition predict :: "'m env \<Rightarrow> state \<Rightarrow> string option \<Rightarrow> nat \<Rightarrow> pyval \<Rightarrow> (error + pyval) \<times> state" where
  "predict ev st model_id features row_id = priv_predict ev st features model_id row_id False"

definition predict_proba ::
  "'m env \<Rightarrow> state \<Rightarrow> string option \<Rightarrow> nat \<Rightarrow> pyval \<Rightarrow> (error + pyval) \<times> state" where
  "predict_proba ev st model_id features row_id = priv_predict ev st features model_id row_id True"

section \<open>Labels\<close>

text \<open>
  \<^verbatim>\<open>add_label(row_id, model_id, label)\<close>: a row identifier that is a number, a numpy
  scalar or a string gives one flat record; anything else gives a table, built by
  \<^verbatim>\<open>pd.DataFrame\<close> after a string model identifier is repeated \<^verbatim>\<open>len(row_id)\<close> times.
  The record or table is then inserted with its own \<^verbatim>\<open>row_id\<close> and \<^verbatim>\<open>model_id\<close>.
\<close>

definition is_scalar_id :: "pyval \<Rightarrow> bool" where
  "is_scalar_id v = (case v of PInt _ \<Rightarrow> True | PNpInt _ \<Rightarrow> True | PNaN \<Rightarrow> True
                     | PStr _ \<Rightarrow> True | _ \<Rightarrow> False)"

definition py_len :: "pyval \<Rightarrow> error + nat" where
  "py_len v = (case v of PList xs \<Rightarrow> Inr (length xs) | PSeries xs \<Rightarrow> Inr (length xs)
               | PNdarray xs \<Rightarrow> Inr (length xs) | PStr s \<Rightarrow> Inr (length s)
               | _ \<Rightarrow> Inl TypeError)"

definition is_str :: "pyval \<Rightarrow> bool" where
  "is_str v = (case v of PStr _ \<Rightarrow> True | _ \<Rightarrow> False)"

definition add_label :: "state \<Rightarrow> pyval \<Rightarrow> pyval \<Rightarrow> pyval \<Rightarrow> (error + unit) \<times> state" where
  "add_label st row_id model_id label =
     (let label_doc = [(''row_id'', row_id), (''model_id'', model_id), (''label'', label)] in
      case (if \<not> is_scalar_id row_id
            then (case (if is_str model_id
                        then (case py_len row_id of
                                Inl e \<Rightarrow> Inl e
                              | Inr n \<Rightarrow> Inr (AList.update ''model_id''
                                                (PList (replicate n model_id)) label_doc))
                        else Inr label_doc) of
                    Inl e \<Rightarrow> Inl e
                  | Inr label_doc1 \<Rightarrow>
                      (case pd_DataFrame label_doc1 of
                         Inl e \<Rightarrow> Inl e
                       | Inr df \<Rightarrow> Inr (DataFrame df)))
            else Inr (Dict label_doc)) of
        Inl e \<Rightarrow> (Inl e, st)
      | Inr ob \<Rightarrow>
          (let (r, st1) = heap_alloc st ob in
           case obj_getitem ob (Some ''row_id'') of
             Inl e \<Rightarrow> (Inl e, st1)
           | Inr rid \<Rightarrow>
               (case obj_getitem ob (Some ''model_id'') of
                  Inl e \<Rightarrow> (Inl e, st1)
                | Inr mid \<Rightarrow> insert_into_persistent_db st1 r ''live_labels'' rid mid)))"

section \<open>Reconciliation\<close>

text \<open>
  \<^verbatim>\<open>match_training_and_live(df_train, df_live, row_id_field=None)\<close> reads the local
  variable \<^verbatim>\<open>row_id\<close>, which the function assigns further down and which is therefore
  a local that nothing has bound when \<^verbatim>\<open>if row_id is None\<close> reads it. The local is an
  option, \<open>None\<close> while unbound; \<^verbatim>\<open>pd.merge(_, _, on=_, how='left')\<close> is a parameter.
\<close>

definition match_training_and_live ::
  "(dataframe \<Rightarrow> dataframe \<Rightarrow> string option \<Rightarrow> error + dataframe)
     \<Rightarrow> string option \<Rightarrow> dataframe \<Rightarrow> dataframe \<Rightarrow> string option \<Rightarrow> error + dataframe" where
  "match_training_and_live pd_merge_left self_default_row_id_field df_train df_live row_id_field =
     (let row_id = (None :: string option option) in
      case row_id of
        None \<Rightarrow> Inl (UnboundLocalError ''row_id'')
      | Some row_id0 \<Rightarrow>
          (let row_id1 = (if row_id0 = None then self_default_row_id_field else row_id0)
           in pd_merge_left df_live df_train row_id1))"

section \<open>Derived descriptions used in the statements\<close>

text \<open>
  \<open>written_doc st d vr vm\<close> is the document that \<^verbatim>\<open>insert_into_persistent_db\<close> hands to
  \<^verbatim>\<open>insert_one\<close> for a dictionary \<open>d\<close> once the row identifier \<open>vr\<close> and the model
  identifier \<open>vm\<close> are resolved (lemma \<open>insert_dict_success\<close> below derives it from the
  code): the internal identifiers stripped, the creation time stamped, both identifiers
  written, numpy scalars replaced, and the \<^verbatim>\<open>_id\<close> of the driver added.
\<close>

definition written_doc :: "state \<Rightarrow> doc \<Rightarrow> pyval \<Rightarrow> pyval \<Rightarrow> doc" where
  "written_doc st d vr vm =
     with_id (next_oid st)
       (scalarize_items
          (AList.update ''model_id'' vm
             (AList.update ''row_id'' vr
                (AList.update ''_concordia_created_at'' (PTime (clock st))
                   (AList.delete ''_id_'' (AList.delete ''_id'' d))))))"


text \<open>
  \<open>appended st coll ds\<close> is the database after the documents \<open>ds\<close> were written to the
  collection \<open>coll\<close>, each with the \<^verbatim>\<open>_id\<close> the driver gave it.
\<close>

definition appended :: "state \<Rightarrow> string \<Rightarrow> doc list \<Rightarrow> state" where
  "appended st coll ds =
     st\<lparr> mdb := (mdb st)(coll := mdb st coll @ assign_ids (next_oid st) ds),
         next_oid := next_oid st + length ds \<rparr>"

text \<open>
  \<open>stamped_df t df\<close> is the copy of a table after the first lines of
  \<^verbatim>\<open>insert_into_persistent_db\<close>: the columns \<^verbatim>\<open>_id\<close> and \<^verbatim>\<open>_id_\<close> deleted when
  present, the column \<^verbatim>\<open>_concordia_created_at\<close> set to the time \<open>t\<close> (lemma
  \<open>insert_df_stamped\<close>). \<open>table_identity st df row_id model_id\<close> is the identity
  resolution of a table: the two identity blocks of \<^verbatim>\<open>_insert_df_into_db\<close> applied to the
  stamped copy; its result is the table whose rows are handed to the driver, or the
  error of the block that could not resolve an identifier.
\<close>

definition stamped_df :: "nat \<Rightarrow> dataframe \<Rightarrow> dataframe" where
  "stamped_df t df =
     (let dfa = (if ''_id'' \<in> set (df_columns df) then df_del_column df ''_id'' else df);
          dfb = (if ''_id_'' \<in> set (df_columns dfa) then df_del_column dfa ''_id_'' else dfa)
      in df_assign dfb ''_concordia_created_at'' (replicate (length (df_rows dfb)) (PTime t)))"

definition table_identity :: "state \<Rightarrow> dataframe \<Rightarrow> pyval \<Rightarrow> pyval \<Rightarrow> error + dataframe" where
  "table_identity st df row_id model_id =
     (let S = stamped_df (clock st) df; df_cols = set (df_columns S) in
      case df_row_id_block (default_row_id_field st) S df_cols row_id of
        Inl e \<Rightarrow> Inl e
      | Inr df1 \<Rightarrow> df_model_id_block df1 df_cols model_id)"

text \<open>The number of records a payload stands for: one, or one per row.\<close>

definition payload_rows :: "pyobj \<Rightarrow> nat" where
  "payload_rows ob = (case ob of Dict d \<Rightarrow> 1 | DataFrame df \<Rightarrow> length (df_rows df))"

section \<open>A small deployment for concrete runs\<close>

text \<open>
  \<open>demo_env\<close> is a codec and a family of models on which the operations can be run:
  a model is a number, its encoding a string of that length, and it predicts itself.
  \<open>empty_store field objs\<close> is a fresh deployment with the given default row-id field and
  the caller's objects \<open>objs\<close> on the heap.
\<close>

definition demo_env :: "nat env" where
  "demo_env = \<lparr> dumps_b64 = (\<lambda>m. replicate m CHR ''A''),
                 loads_b64 = (\<lambda>s. Some (length s)),
                 json_dumps = (\<lambda>d. Some ''{}''),
                 model_predict = (\<lambda>m ob. Inr (PInt (int m))),
                 model_predict_proba = (\<lambda>m ob. Inr (PNdarray [PInt (int m)])) \<rparr>"

definition empty_store :: "string option \<Rightarrow> pyobj list \<Rightarrow> state" where
  "empty_store field objs =
     \<lparr> default_row_id_field = field, rdb = (\<lambda>k. None), mdb = (\<lambda>c. []),
       next_oid = 0, clock = 0, heap = objs \<rparr>"

text \<open>A table of three rows with a \<open>name\<close> column and no identity columns.\<close>

definition people :: dataframe where
  "people = \<lparr> df_columns = [''name'', ''age''],
               df_rows = [[(''name'', PStr ''ann''), (''age'', PInt 30)],
                          [(''name'', PStr ''bob''), (''age'', PInt 41)],
                          [(''name'', PStr ''cyd''), (''age'', PInt 52)]] \<rparr>"

text \<open>
  \<open>crowd\<close> is a table of 2500 rows, which the code writes in three chunks; \<open>busy_store\<close>
  holds it at reference \<open>0\<close> and already has a \<^verbatim>\<open>training_features\<close> record of another
  model.
\<close>

definition crowd :: dataframe where
  "crowd = \<lparr> df_columns = [''age''], df_rows = replicate 2500 [(''age'', PInt 30)] \<rparr>"

definition busy_store :: state where
  "busy_store =
     (empty_store None [DataFrame crowd])
       \<lparr>mdb := (\<lambda>c. [])(''training_features'' :=
                 [[(''age'', PInt 7), (''row_id'', PStr ''r0''), (''model_id'', PStr ''m0'')]])\<rparr>"

text \<open>
  \<open>evict_model\<close> is the loss of a cache entry, as \<^verbatim>\<open>rdb.delete(make_redis_model_key(model_id))\<close>
  in the tests produces it. The four states below register two models under one
  identifier in an empty deployment: models \<open>1\<close> then \<open>2\<close> under \<open>a\<close>, and models \<open>5\<close> then \<open>7\<close>
  under \<open>b\<close>; the caller's feature importances are the empty dictionary at reference \<open>0\<close>.
\<close>

definition evict_model :: "state \<Rightarrow> string option \<Rightarrow> state" where
  "evict_model st model_id = st\<lparr>rdb := (rdb st)(make_redis_model_key model_id := None)\<rparr>"

definition registered_once :: state where
  "registered_once =
     snd (add_model demo_env (empty_store None [Dict []]) 1 (Some ''a'') PNone (Some 0) PNone)"

definition registered_twice :: state where
  "registered_twice = snd (add_model demo_env registered_once 2 (Some ''a'') PNone (Some 0) PNone)"

definition registered_before :: state where
  "registered_before =
     snd (add_model demo_env (empty_store None [Dict []]) 5 (Some ''b'') PNone (Some 0) PNone)"

definition registered_again :: state where
  "registered_again = snd (add_model demo_env registered_before 7 (Some ''b'') PNone (Some 0) PNone)"

text \<open>
  \<open>crashing_env\<close> is \<open>demo_env\<close> with models whose \<^verbatim>\<open>predict\<close> raises; \<open>cached_store\<close> is a
  deployment whose cache holds model \<open>3\<close> under \<open>m1\<close> and whose caller holds one feature
  dictionary.
\<close>

definition crashing_env :: "nat env" where
  "crashing_env = demo_env\<lparr>model_predict := (\<lambda>m ob. Inl ModelError)\<rparr>"

definition cached_store :: state where
  "cached_store =
     (empty_store None [Dict [(''age'', PInt 30)]])
       \<lparr>rdb := (\<lambda>k. None)(make_redis_model_key (Some ''m1'') \<mapsto> ''AAA'')\<rparr>"

text \<open>
  \<open>keeps_objects st st'\<close>: every object that exists in \<open>st\<close> is the same object, with
  the same content, in \<open>st'\<close>; the heap of \<open>st'\<close> only has objects allocated later.
\<close>

definition keeps_objects :: "state \<Rightarrow> state \<Rightarrow> bool" where
  "keeps_objects st st' = (take (length (heap st)) (heap st') = heap st)"

section \<open>Facts about the ingestion pipeline\<close>

subsection \<open>The driver and the chunk loop\<close>

lemma assign_ids_append:
  "assign_ids n (xs @ ys) = assign_ids n xs @ assign_ids (n + length xs) ys"
  by (induction xs arbitrary: n) simp_all

lemma length_assign_ids: "length (assign_ids n ds) = length ds"
  by (induction ds arbitrary: n) simp_all

lemma assign_ids_nth: "i < length ds \<Longrightarrow> assign_ids n ds ! i = with_id (n + i) (ds ! i)"
proof (induction ds arbitrary: n i)
  case Nil
  then show ?case by simp
next
  case (Cons d ds)
  then show ?case by (cases i) simp_all
qed

lemma assign_ids_take: "assign_ids n (take k ds) = take k (assign_ids n ds)"
proof (induction ds arbitrary: n k)
  case Nil
  then show ?case by simp
next
  case (Cons d ds)
  then show ?case by (cases k) simp_all
qed

lemma with_id_other: "k \<noteq> ''_id'' \<Longrightarrow> map_of (with_id n d) k = map_of d k"
  by (auto simp: with_id_def map_add_def split: option.splits)

lemma first_error_None: "(first_error xs = None) = list_all (\<lambda>x. x = None) xs"
  by (induction xs rule: first_error.induct) simp_all

lemma doc_ok_iff: "doc_ok d = list_all (\<lambda>(k, v). bson_ok v) d"
  by (simp add: doc_ok_def doc_check_def bson_ok_def first_error_None list_all_iff split_def)

lemma docs_check_None: "(docs_check ds = None) = list_all doc_ok ds"
  by (simp add: docs_check_def doc_ok_def first_error_None list_all_iff)

lemma doc_ok_update: "doc_ok d \<Longrightarrow> bson_ok v \<Longrightarrow> doc_ok (AList.update k v d)"
  by (induction d) (auto simp: doc_ok_iff)

lemma doc_ok_delete: "doc_ok d \<Longrightarrow> doc_ok (AList.delete k d)"
  by (induction d) (auto simp: doc_ok_iff)

lemma doc_ok_with_id: "doc_ok d \<Longrightarrow> doc_ok (with_id n d)"
  by (simp add: with_id_def doc_ok_iff bson_ok_def)

lemma docs_ok_assign_ids: "list_all doc_ok ds \<Longrightarrow> list_all doc_ok (assign_ids n ds)"
  by (induction ds arbitrary: n) (simp_all add: doc_ok_with_id)

lemma appended_Nil: "appended st coll [] = st"
  by (simp add: appended_def)

lemma appended_twice:
  "appended (appended st coll xs) coll ys = appended st coll (xs @ ys)"
  by (simp add: appended_def assign_ids_append add.assoc)

lemma appended_fields:
  "mdb (appended st coll ds) = (mdb st)(coll := mdb st coll @ assign_ids (next_oid st) ds)"
  "heap (appended st coll ds) = heap st"
  "rdb (appended st coll ds) = rdb st"
  "clock (appended st coll ds) = clock st"
  "default_row_id_field (appended st coll ds) = default_row_id_field st"
  "next_oid (appended st coll ds) = next_oid st + length ds"
  by (simp_all add: appended_def)

lemma mongo_insert_many_result:
  "mongo_insert_many st coll ds = Inr st' \<Longrightarrow> st' = appended st coll ds"
  by (auto simp: mongo_insert_many_def appended_def Let_def split: if_splits option.splits)

lemma mongo_insert_many_ok:
  "ds \<noteq> [] \<Longrightarrow> list_all doc_ok ds \<Longrightarrow> mongo_insert_many st coll ds = Inr (appended st coll ds)"
  using docs_ok_assign_ids [of ds "next_oid st"]
  by (simp add: mongo_insert_many_def appended_def Let_def docs_check_None [symmetric])

lemma chunk_split:
  "take (min (length rws) (i + k) - i) (drop i rws) @ drop (i + k) rws = drop i rws"
proof (cases "i + k \<le> length rws")
  case True
  then have a: "min (length rws) (i + k) - i = k" by simp
  have b: "drop (i + k) rws = drop k (drop i rws)" by (simp add: add.commute)
  show ?thesis unfolding a b by (rule append_take_drop_id)
next
  case False
  then show ?thesis by simp
qed

lemma chunk_nonempty:
  "i < length rws \<Longrightarrow> take (min (length rws) (i + chunk_size) - i) (drop i rws) \<noteq> []"
  by (simp add: chunk_size_def)

text \<open>When every row can be encoded, the loop writes the rows from \<open>i\<close> on, once each.\<close>

lemma insert_chunks_ok:
  "list_all doc_ok (drop i rws) \<Longrightarrow>
   insert_chunks st val_type rws i = (Inr (), appended st val_type (drop i rws))"
proof (induction st val_type rws i rule: insert_chunks.induct)
  case (1 st val_type rws i)
  show ?case
  proof (cases "i < length rws")
    case True
    let ?c = "take (min (length rws) (i + chunk_size) - i) (drop i rws)"
    have ok: "list_all doc_ok ?c"
      using "1.prems" by (auto simp: list_all_iff dest: in_set_takeD)
    have ins: "mongo_insert_many st val_type ?c = Inr (appended st val_type ?c)"
      using chunk_nonempty [OF True] ok by (rule mongo_insert_many_ok)
    have rest: "list_all doc_ok (drop (i + chunk_size) rws)"
      using "1.prems" by (auto simp: list_all_iff dest: in_set_dropD simp: drop_drop [symmetric] add.commute simp del: drop_drop)
    have "insert_chunks st val_type rws i =
          insert_chunks (appended st val_type ?c) val_type rws (i + chunk_size)"
      using True ins by (subst insert_chunks.simps) (simp add: Let_def)
    also have "\<dots> = (Inr (), appended (appended st val_type ?c) val_type (drop (i + chunk_size) rws))"
      using "1.IH" [OF True refl refl ins rest] .
    also have "\<dots> = (Inr (), appended st val_type (drop i rws))"
      by (simp only: appended_twice chunk_split)
    finally show ?thesis .
  next
    case False
    then show ?thesis
      by (subst insert_chunks.simps) (simp add: appended_Nil)
  qed
qed

text \<open>In every case the loop has written a prefix of the rows from \<open>i\<close> on, once each.\<close>

lemma insert_chunks_prefix:
  "\<exists>k. snd (insert_chunks st val_type rws i) = appended st val_type (take k (drop i rws))
       \<and> (fst (insert_chunks st val_type rws i) = Inr () \<longrightarrow> take k (drop i rws) = drop i rws)"
proof (induction st val_type rws i rule: insert_chunks.induct)
  case (1 st val_type rws i)
  show ?case
  proof (cases "i < length rws")
    case False
    then have "insert_chunks st val_type rws i = (Inr (), st)"
      by (subst insert_chunks.simps) simp
    with False show ?thesis
      by (intro exI [of _ 0]) (simp add: appended_Nil)
  next
    case True
    let ?c = "take (min (length rws) (i + chunk_size) - i) (drop i rws)"
    show ?thesis
    proof (cases "mongo_insert_many st val_type ?c")
      case (Inl e)
      with True have "insert_chunks st val_type rws i = (Inl e, st)"
        by (subst insert_chunks.simps) (simp add: Let_def)
      then show ?thesis
        by (intro exI [of _ 0]) (simp add: appended_Nil)
    next
      case (Inr st')
      then have st': "st' = appended st val_type ?c" by (rule mongo_insert_many_result)
      have step: "insert_chunks st val_type rws i = insert_chunks st' val_type rws (i + chunk_size)"
        using True Inr by (subst insert_chunks.simps) (simp add: Let_def)
      from "1.IH" [OF True refl refl Inr] obtain k where
        k: "snd (insert_chunks st' val_type rws (i + chunk_size))
              = appended st' val_type (take k (drop (i + chunk_size) rws))"
           "fst (insert_chunks st' val_type rws (i + chunk_size)) = Inr () \<longrightarrow>
              take k (drop (i + chunk_size) rws) = drop (i + chunk_size) rws"
        by blast
      let ?m = "min (length rws) (i + chunk_size) - i"
      have len: "length ?c = ?m" by simp
      have dd: "drop (i + chunk_size) rws = drop ?m (drop i rws)"
      proof (cases "i + chunk_size \<le> length rws")
        case True
        then show ?thesis by (simp add: add.commute)
      next
        case False
        then show ?thesis by simp
      qed
      have pre: "?c @ take k (drop (i + chunk_size) rws) = take (?m + k) (drop i rws)"
        unfolding dd by (simp add: take_add)
      have "snd (insert_chunks st val_type rws i) = snd (insert_chunks st' val_type rws (i + chunk_size))"
        by (simp only: step)
      also have "\<dots> = appended st' val_type (take k (drop (i + chunk_size) rws))"
        by (rule k(1))
      also have "\<dots> = appended st val_type (?c @ take k (drop (i + chunk_size) rws))"
        unfolding st' by (rule appended_twice)
      finally have a: "snd (insert_chunks st val_type rws i)
                         = appended st val_type (take (?m + k) (drop i rws))"
        by (simp only: pre)
      have b: "take (?m + k) (drop i rws) = drop i rws"
        if "fst (insert_chunks st val_type rws i) = Inr ()"
      proof -
        from that step k(2) have "take k (drop (i + chunk_size) rws) = drop (i + chunk_size) rws"
          by simp
        with pre have "take (?m + k) (drop i rws) = ?c @ drop (i + chunk_size) rws" by simp
        then show ?thesis by (simp only: chunk_split)
      qed
      from a b show ?thesis by blast
    qed
  qed
qed

subsection \<open>Tables and queries\<close>

lemma length_df_assign:
  "length vs = length (df_rows df) \<Longrightarrow> length (df_rows (df_assign df c vs)) = length (df_rows df)"
  by (simp add: df_assign_def)

lemma df_assign_other:
  "i < length (df_rows df) \<Longrightarrow> length vs = length (df_rows df) \<Longrightarrow> k \<noteq> c \<Longrightarrow>
   map_of (df_rows (df_assign df c vs) ! i) k = map_of (df_rows df ! i) k"
  by (simp add: df_assign_def update_conv')

lemma df_assign_same:
  "i < length (df_rows df) \<Longrightarrow> length vs = length (df_rows df) \<Longrightarrow>
   map_of (df_rows (df_assign df c vs) ! i) c = Some (vs ! i)"
  by (simp add: df_assign_def update_conv')

lemma length_series_align: "length (series_align n vs) = n"
  by (simp add: series_align_def)

lemma length_pd_coerce_column: "length (pd_coerce_column vs) = length vs"
  by (simp add: pd_coerce_column_def)

lemma pd_native_fixed: "bson_ok v \<Longrightarrow> pd_native v = v"
  by (cases v) (simp_all add: pd_native_def bson_ok_def)

lemma bson_ok_pd_native: "bson_ok v \<Longrightarrow> bson_ok (pd_native v)"
  by (simp add: pd_native_fixed)

lemma df_set_column_cases:
  assumes "df_set_column df c v = Inr df'"
  obtains vs where "length vs = length (df_rows df)" "df' = df_assign df c vs"
proof -
  have "\<exists>vs. length vs = length (df_rows df) \<and> df' = df_assign df c vs"
    using assms
    by (cases v)
       (simp_all add: df_set_column_def split: if_splits,
        (metis length_replicate length_series_align length_pd_coerce_column length_map)+)
  then show ?thesis using that by blast
qed

lemma df_set_column_length:
  "df_set_column df c v = Inr df' \<Longrightarrow> length (df_rows df') = length (df_rows df)"
  by (erule df_set_column_cases) (simp add: length_df_assign)

lemma df_set_column_other:
  "df_set_column df c v = Inr df' \<Longrightarrow> i < length (df_rows df) \<Longrightarrow> k \<noteq> c \<Longrightarrow>
   map_of (df_rows df' ! i) k = map_of (df_rows df ! i) k"
  by (erule df_set_column_cases) (simp add: df_assign_other)

lemma df_set_column_columns:
  "df_set_column df c v = Inr df' \<Longrightarrow> k \<noteq> c \<Longrightarrow> (k \<in> set (df_columns df')) = (k \<in> set (df_columns df))"
  by (erule df_set_column_cases) (simp add: df_assign_def)


lemma df_set_column_scalar:
  "\<not> is_listlike v \<Longrightarrow>
   df_set_column df c v = Inr (df_assign df c (replicate (length (df_rows df)) (pd_native v)))"
  by (cases v) (simp_all add: df_set_column_def is_listlike_def)

lemma df_del_column_length: "length (df_rows (df_del_column df c)) = length (df_rows df)"
  by (simp add: df_del_column_def)

lemma df_del_column_other:
  "i < length (df_rows df) \<Longrightarrow> k \<noteq> c \<Longrightarrow>
   map_of (df_rows (df_del_column df c) ! i) k = map_of (df_rows df ! i) k"
  by (simp add: df_del_column_def delete_conv')

lemma df_del_column_columns:
  "k \<noteq> c \<Longrightarrow> (k \<in> set (df_columns (df_del_column df c))) = (k \<in> set (df_columns df))"
  by (simp add: df_del_column_def)

lemma heap_get_alloc_new: "heap_get (st\<lparr>heap := heap st @ [ob]\<rparr>) (length (heap st)) = Some ob"
  by (simp add: heap_get_def)

lemma heap_set_alloc_new:
  "heap_set (st\<lparr>heap := heap st @ [ob]\<rparr>) (length (heap st)) ob' = st\<lparr>heap := heap st @ [ob']\<rparr>"
  by (simp add: heap_set_def)

lemma heap_set_twice: "heap_set (heap_set st r a) r b = heap_set st r b"
  by (simp add: heap_set_def)

lemma insert_df_unfold:
  assumes "heap_get st r = Some (DataFrame df)"
  shows "insert_into_persistent_db st r vt rid mid =
         priv_insert_df_into_db
           (st\<lparr>heap := heap st @
              [DataFrame
                 (let dfa = (if ''_id'' \<in> set (df_columns df) then df_del_column df ''_id'' else df);
                      dfb = (if ''_id_'' \<in> set (df_columns dfa) then df_del_column dfa ''_id_''
                             else dfa)
                  in df_assign dfb ''_concordia_created_at''
                       (replicate (length (df_rows dfb)) (PTime (clock st))))]\<rparr>)
           (length (heap st)) vt rid mid"
  using assms
  by (simp add: insert_into_persistent_db_def heap_alloc_def obj_contains_def obj_delitem_def
        obj_setitem_def df_set_column_def pd_native_def Let_def heap_set_alloc_new)

lemma insert_df_stamped:
  "heap_get st r = Some (DataFrame df) \<Longrightarrow>
   insert_into_persistent_db st r vt rid mid =
   priv_insert_df_into_db (st\<lparr>heap := heap st @ [DataFrame (stamped_df (clock st) df)]\<rparr>)
     (length (heap st)) vt rid mid"
  by (simp add: insert_df_unfold stamped_df_def)

lemma stamped_df_length: "length (df_rows (stamped_df t df)) = length (df_rows df)"
  by (simp add: stamped_df_def Let_def length_df_assign df_del_column_length)

lemma stamped_df_columns:
  assumes "k \<noteq> ''_id''" "k \<noteq> ''_id_''" "k \<noteq> ''_concordia_created_at''"
  shows "(k \<in> set (df_columns (stamped_df t df))) = (k \<in> set (df_columns df))"
  using assms
  by (simp add: stamped_df_def Let_def df_assign_def df_del_column_columns)

lemma stamped_df_other:
  assumes "i < length (df_rows df)"
      and "k \<noteq> ''_id''" "k \<noteq> ''_id_''" "k \<noteq> ''_concordia_created_at''"
  shows "map_of (df_rows (stamped_df t df) ! i) k = map_of (df_rows df ! i) k"
  using assms
  by (simp add: stamped_df_def Let_def df_assign_other df_del_column_other df_del_column_length)

lemma df_model_id_block_scalar:
  "''model_id'' \<notin> cols \<Longrightarrow> mid \<noteq> PNone \<Longrightarrow> \<not> is_listlike mid \<Longrightarrow>
   df_model_id_block df cols mid =
   Inr (df_assign df ''model_id'' (replicate (length (df_rows df)) (pd_native mid)))"
  by (simp add: df_model_id_block_def df_set_column_scalar)

lemma df_model_id_block_success:
  assumes "df_model_id_block df cols mid = Inr df2"
  shows "length (df_rows df2) = length (df_rows df)"
    and "i < length (df_rows df) \<Longrightarrow> k \<noteq> ''model_id'' \<Longrightarrow>
         map_of (df_rows df2 ! i) k = map_of (df_rows df ! i) k"
    and "''model_id'' \<notin> cols \<Longrightarrow> \<not> is_listlike mid \<Longrightarrow> i < length (df_rows df) \<Longrightarrow>
         map_of (df_rows df2 ! i) ''model_id'' = Some (pd_native mid)"
proof -
  have s: "df2 = df \<or> df_set_column df ''model_id'' mid = Inr df2"
    using assms by (simp add: df_model_id_block_def split: if_splits)
  show "length (df_rows df2) = length (df_rows df)"
    using s by (auto dest: df_set_column_length)
  show "map_of (df_rows df2 ! i) k = map_of (df_rows df ! i) k"
    if "i < length (df_rows df)" "k \<noteq> ''model_id''"
    using s that by (auto dest: df_set_column_other)
  show "map_of (df_rows df2 ! i) ''model_id'' = Some (pd_native mid)"
    if "''model_id'' \<notin> cols" "\<not> is_listlike mid" "i < length (df_rows df)"
  proof -
    from that(1) assms have "df_set_column df ''model_id'' mid = Inr df2"
      by (simp add: df_model_id_block_def split: if_splits)
    with that(2) have "df2 = df_assign df ''model_id'' (replicate (length (df_rows df)) (pd_native mid))"
      by (simp add: df_set_column_scalar)
    with that(3) show ?thesis by (simp add: df_assign_same)
  qed
qed

lemma df_row_id_block_success:
  assumes "df_row_id_block fld df cols rid = Inr df1"
  shows "length (df_rows df1) = length (df_rows df)"
    and "i < length (df_rows df) \<Longrightarrow> k \<noteq> ''row_id'' \<Longrightarrow>
         map_of (df_rows df1 ! i) k = map_of (df_rows df ! i) k"
proof -
  have s: "df1 = df \<or> df_set_column df ''row_id'' rid = Inr df1"
    using assms by (simp add: df_row_id_block_def split: if_splits option.splits)
  show "length (df_rows df1) = length (df_rows df)"
    using s by (auto dest: df_set_column_length)
  show "map_of (df_rows df1 ! i) k = map_of (df_rows df ! i) k"
    if "i < length (df_rows df)" "k \<noteq> ''row_id''"
    using s that by (auto dest: df_set_column_other)
qed


text \<open>What the driver can encode stays so under the steps that prepare a table.\<close>

lemma rows_ok_df_assign:
  assumes "list_all doc_ok (df_rows df)" and "list_all bson_ok vs"
  shows "list_all doc_ok (df_rows (df_assign df c vs))"
proof -
  have "doc_ok (AList.update c v r)" if "(r, v) \<in> set (zip (df_rows df) vs)" for r v
  proof -
    from that have "r \<in> set (df_rows df)" "v \<in> set vs"
      by (auto dest: set_zip_leftD set_zip_rightD)
    with assms show ?thesis by (simp add: list_all_iff doc_ok_update)
  qed
  then show ?thesis by (auto simp: df_assign_def list_all_iff)
qed

lemma rows_ok_df_del_column:
  "list_all doc_ok (df_rows df) \<Longrightarrow> list_all doc_ok (df_rows (df_del_column df c))"
  by (simp add: df_del_column_def list_all_iff doc_ok_delete)

lemma rows_ok_stamped_df:
  assumes "list_all doc_ok (df_rows df)"
  shows "list_all doc_ok (df_rows (stamped_df t df))"
proof -
  have t: "list_all bson_ok (replicate n (PTime t))" for n
    by (simp add: list_all_iff bson_ok_def)
  show ?thesis
    using assms by (simp add: stamped_df_def Let_def rows_ok_df_assign rows_ok_df_del_column t)
qed

text \<open>The table path in terms of the identity resolution.\<close>

lemma insert_df_resolved:
  assumes "heap_get st r = Some (DataFrame df)"
      and "table_identity st df rid mid = Inr df2"
  shows "insert_into_persistent_db st r vt rid mid =
         insert_chunks (st\<lparr>heap := heap st @ [DataFrame df2]\<rparr>) vt (df_rows df2) 0"
proof -
  let ?S = "stamped_df (clock st) df"
  from assms(2) obtain df1 where
    b1: "df_row_id_block (default_row_id_field st) ?S (set (df_columns ?S)) rid = Inr df1" and
    b2: "df_model_id_block df1 (set (df_columns ?S)) mid = Inr df2"
    by (auto simp: table_identity_def Let_def split: sum.splits)
  show ?thesis
    using assms(1)
    by (simp add: insert_df_stamped priv_insert_df_into_db_def heap_get_alloc_new b1 b2
          heap_set_twice heap_set_alloc_new Let_def)
qed

lemma insert_df_unresolved:
  assumes "heap_get st r = Some (DataFrame df)"
      and "table_identity st df rid mid = Inl e"
  shows "fst (insert_into_persistent_db st r vt rid mid) = Inl e
       \<and> mdb (snd (insert_into_persistent_db st r vt rid mid)) = mdb st"
proof -
  let ?S = "stamped_df (clock st) df"
  show ?thesis
  proof (cases "df_row_id_block (default_row_id_field st) ?S (set (df_columns ?S)) rid")
    case (Inl e1)
    with assms show ?thesis
      by (simp add: insert_df_stamped priv_insert_df_into_db_def heap_get_alloc_new
            table_identity_def Let_def)
  next
    case (Inr df1)
    with assms show ?thesis
      by (simp add: insert_df_stamped priv_insert_df_into_db_def heap_get_alloc_new
            table_identity_def heap_set_def Let_def)
  qed
qed

lemma table_identity_rows:
  assumes "table_identity st df rid mid = Inr df2"
  shows "length (df_rows df2) = length (df_rows df)"
    and "i < length (df_rows df) \<Longrightarrow>
         k \<notin> set [''_id'', ''_id_'', ''_concordia_created_at'', ''row_id'', ''model_id''] \<Longrightarrow>
         map_of (df_rows df2 ! i) k = map_of (df_rows df ! i) k"
    and "''model_id'' \<notin> set (df_columns df) \<Longrightarrow> \<not> is_listlike mid \<Longrightarrow> i < length (df_rows df) \<Longrightarrow>
         map_of (df_rows df2 ! i) ''model_id'' = Some (pd_native mid)"
proof -
  let ?S = "stamped_df (clock st) df"
  from assms obtain df1 where
    b1: "df_row_id_block (default_row_id_field st) ?S (set (df_columns ?S)) rid = Inr df1" and
    b2: "df_model_id_block df1 (set (df_columns ?S)) mid = Inr df2"
    by (auto simp: table_identity_def Let_def split: sum.splits)
  have l1: "length (df_rows df1) = length (df_rows df)"
    using df_row_id_block_success(1) [OF b1] by (simp add: stamped_df_length)
  show l2: "length (df_rows df2) = length (df_rows df)"
    using df_model_id_block_success(1) [OF b2] l1 by simp
  show "map_of (df_rows df2 ! i) k = map_of (df_rows df ! i) k"
    if "i < length (df_rows df)"
       "k \<notin> set [''_id'', ''_id_'', ''_concordia_created_at'', ''row_id'', ''model_id'']"
  proof -
    from that(2) have k: "k \<noteq> ''_id''" "k \<noteq> ''_id_''" "k \<noteq> ''_concordia_created_at''"
      "k \<noteq> ''row_id''" "k \<noteq> ''model_id''" by auto
    have "map_of (df_rows df2 ! i) k = map_of (df_rows df1 ! i) k"
      using df_model_id_block_success(2) [OF b2, of i k] that(1) l1 k(5) by simp
    also have "\<dots> = map_of (df_rows ?S ! i) k"
      using df_row_id_block_success(2) [OF b1, of i k] that(1) k(4)
      by (simp add: stamped_df_length)
    also have "\<dots> = map_of (df_rows df ! i) k"
      using that(1) k(1,2,3) by (rule stamped_df_other)
    finally show ?thesis .
  qed
  show "map_of (df_rows df2 ! i) ''model_id'' = Some (pd_native mid)"
    if "''model_id'' \<notin> set (df_columns df)" "\<not> is_listlike mid" "i < length (df_rows df)"
  proof -
    have nc: "''model_id'' \<notin> set (df_columns ?S)"
      using that(1) by (simp add: stamped_df_columns)
    show ?thesis
      using df_model_id_block_success(3) [OF b2 nc that(2), of i] that(3) l1 by simp
  qed
qed

text \<open>Queries.\<close>

lemma scalar_eq_refl: "scalar_eq v v"
  by (cases v) simp_all

lemma mongo_eq_refl: "mongo_eq v v"
  by (simp add: mongo_eq_def scalar_eq_refl)

lemma matches_Nil: "matches [] d"
  by (simp add: matches_def)

lemma matches_model_id:
  "matches [(''model_id'', Eq v)] =
   (\<lambda>d. case map_of d ''model_id'' of None \<Rightarrow> False | Some w \<Rightarrow> mongo_eq w v)"
  by (rule ext) (simp add: matches_def)

lemma retrieve_unfiltered:
  "retrieve_from_persistent_db st vt PNone PNone PNone None = mdb st vt"
  by (simp add: retrieve_from_persistent_db_def mongo_find_def matches_Nil)

lemma retrieve_by_model_id:
  "mid \<noteq> PNone \<Longrightarrow>
   retrieve_from_persistent_db st vt PNone mid PNone None =
   filter (\<lambda>d. case map_of d ''model_id'' of None \<Rightarrow> False | Some w \<Rightarrow> mongo_eq w mid) (mdb st vt)"
  by (simp add: retrieve_from_persistent_db_def mongo_find_def matches_model_id)

lemma filter_all_match: "(\<And>i. i < length xs \<Longrightarrow> P (xs ! i)) \<Longrightarrow> filter P xs = xs"
  by (rule filter_True) (auto simp: in_set_conv_nth)

subsection \<open>Resolved identity columns\<close>


lemma table_identity_scalars:
  assumes "''row_id'' \<notin> set (df_columns df)" and "''model_id'' \<notin> set (df_columns df)"
      and "rid \<noteq> PNone" and "\<not> is_listlike rid"
      and "mid \<noteq> PNone" and "\<not> is_listlike mid"
  shows "table_identity st df rid mid =
         Inr (df_assign (df_assign (stamped_df (clock st) df) ''row_id''
                           (replicate (length (df_rows df)) (pd_native rid)))
                ''model_id'' (replicate (length (df_rows df)) (pd_native mid)))"
proof -
  let ?S = "stamped_df (clock st) df"
  let ?df1 = "df_assign ?S ''row_id'' (replicate (length (df_rows df)) (pd_native rid))"
  have c1: "''row_id'' \<notin> set (df_columns ?S)" and c2: "''model_id'' \<notin> set (df_columns ?S)"
    using assms(1,2) by (simp_all add: stamped_df_columns)
  have b1: "df_row_id_block fld ?S (set (df_columns ?S)) rid = Inr ?df1" for fld
    using c1 assms(3,4) by (simp add: df_row_id_block_def df_set_column_scalar stamped_df_length)
  have l1: "length (df_rows ?df1) = length (df_rows df)"
    by (simp add: length_df_assign stamped_df_length)
  have b2: "df_model_id_block ?df1 (set (df_columns ?S)) mid
            = Inr (df_assign ?df1 ''model_id'' (replicate (length (df_rows df)) (pd_native mid)))"
    using c2 assms(5,6) l1 by (simp add: df_model_id_block_scalar)
  show ?thesis
    by (simp add: table_identity_def Let_def b1 b2)
qed

lemma take_assign_ids_length:
  "take k (assign_ids n ds) = take (min k (length ds)) (assign_ids n ds)"
  by (simp add: min_def length_assign_ids)

lemma crowd_facts:
  "df_columns crowd = [''age'']" "length (df_rows crowd) = 2500"
  "list_all doc_ok (df_rows crowd)"
  by (simp_all add: crowd_def doc_ok_iff bson_ok_def list_all_iff)

lemma busy_store_facts:
  "heap_get busy_store 0 = Some (DataFrame crowd)"
  "mdb busy_store ''training_features''
     = [[(''age'', PInt 7), (''row_id'', PStr ''r0''), (''model_id'', PStr ''m0'')]]"
  "clock busy_store = 0"
  by (simp_all add: busy_store_def empty_store_def heap_get_def)

lemma crowd_identity:
  "table_identity busy_store crowd (PStr ''r1'') (PStr ''m1'') =
   Inr (df_assign (df_assign (stamped_df 0 crowd) ''row_id'' (replicate 2500 (PStr ''r1'')))
          ''model_id'' (replicate 2500 (PStr ''m1'')))"
  using table_identity_scalars [of crowd "PStr ''r1''" "PStr ''m1''" busy_store]
  by (simp add: crowd_facts busy_store_facts is_listlike_def pd_native_def)

lemma crowd_encodable:
  "list_all doc_ok
     (df_rows (df_assign (df_assign (stamped_df 0 crowd) ''row_id'' (replicate 2500 (PStr ''r1'')))
                 ''model_id'' (replicate 2500 (PStr ''m1''))))"
  by (intro rows_ok_df_assign rows_ok_stamped_df crowd_facts)
     (simp_all add: list_all_iff bson_ok_def)

lemma people_facts:
  "df_columns people = [''name'', ''age'']" "length (df_rows people) = 3"
  "list_all doc_ok (df_rows people)"
  by (simp_all add: people_def doc_ok_iff bson_ok_def)

lemma people_default_identity:
  "table_identity (empty_store (Some ''name'') [DataFrame people]) people PNone (PStr ''m1'') =
   Inr (df_assign (stamped_df 0 people) ''model_id'' (replicate 3 (PStr ''m1'')))"
  by (simp add: table_identity_def df_row_id_block_def df_model_id_block_scalar
        stamped_df_columns stamped_df_length people_facts is_listlike_def pd_native_def
        empty_store_def Let_def)

subsection \<open>Flat records: what the single-record path writes\<close>

lemma select_listed_scalar: "\<not> is_listlike v \<Longrightarrow> select_listed v idx = Inr v"
  by (cases v) (simp_all add: select_listed_def is_listlike_def)

lemma check_row_id_dict:
  assumes "heap_get st r = Some (Dict d)"
      and "check_row_id st r rid idx = (Inr r', st')"
  shows "\<exists>v. v \<noteq> PNone \<and> r' = r \<and> st' = heap_set st r (Dict (AList.update ''row_id'' v d))
             \<and> (select_listed rid idx = Inr v \<or>
                  (select_listed rid idx = Inr PNone \<and> v = dict_get d (default_row_id_field st)))"
  using assms
  by (auto simp: check_row_id_def obj_setitem_def obj_get_def Let_def
           split: sum.splits if_splits)

lemma check_model_id_dict:
  assumes "heap_get st r = Some (Dict d)"
      and "check_model_id st r mid idx = (Inr r', st')"
  shows "\<exists>v. v \<noteq> PNone \<and> r' = r \<and> st' = heap_set st r (Dict (AList.update ''model_id'' v d))
             \<and> (select_listed mid idx = Inr v \<or>
                  (select_listed mid idx = Inr PNone \<and> v = dict_get d (Some ''model_id'')))"
  using assms
  by (auto simp: check_model_id_def obj_setitem_def obj_get_def Let_def
           split: sum.splits if_splits)

lemma check_row_id_scalar:
  assumes "heap_get st r = Some (Dict d)" "rid \<noteq> PNone" "\<not> is_listlike rid"
  shows "check_row_id st r rid idx = (Inr r, heap_set st r (Dict (AList.update ''row_id'' rid d)))"
  using assms
  by (simp add: check_row_id_def select_listed_scalar obj_setitem_def)

lemma check_model_id_scalar:
  assumes "heap_get st r = Some (Dict d)" "mid \<noteq> PNone" "\<not> is_listlike mid"
  shows "check_model_id st r mid idx = (Inr r, heap_set st r (Dict (AList.update ''model_id'' mid d)))"
  using assms
  by (simp add: check_model_id_def select_listed_scalar obj_setitem_def)

lemma delete_if_contains:
  "(if dict_contains d k then AList.delete k d else d) = AList.delete k d"
proof (cases "dict_contains d k")
  case True
  then show ?thesis by simp
next
  case False
  then have "k \<notin> fst ` set d"
    by (simp add: dict_contains_def map_of_eq_None_iff)
  then have "AList.delete k d = d"
    by (induction d) auto
  with False show ?thesis by simp
qed

lemma strip_dict:
  "(if obj_contains (Dict d) k then obj_delitem (Dict d) k else Dict d) = Dict (AList.delete k d)"
  using delete_if_contains [of d k]
  by (simp add: obj_contains_def obj_delitem_def split: if_splits)

lemma insert_dict_unfold:
  assumes "heap_get st r = Some (Dict d)"
  shows "insert_into_persistent_db st r vt rid mid =
         (let d3 = AList.update ''_concordia_created_at'' (PTime (clock st))
                     (AList.delete ''_id_'' (AList.delete ''_id'' d));
              val = length (heap st);
              st2 = st\<lparr>heap := heap st @ [Dict d3]\<rparr>
          in case check_row_id st2 val rid None of
               (Inl e, st3) \<Rightarrow> (Inl e, st3)
             | (Inr val1, st3) \<Rightarrow>
                 (case check_model_id st3 val1 mid None of
                    (Inl e, st4) \<Rightarrow> (Inl e, st4)
                  | (Inr val2, st4) \<Rightarrow>
                      (case heap_get st4 val2 of
                         Some (Dict d4) \<Rightarrow>
                           (let st5 = heap_set st4 val2 (Dict (scalarize_items d4))
                            in mongo_insert_one st5 vt val2)
                       | Some (DataFrame df4) \<Rightarrow> (Inl TypeError, st4)
                       | None \<Rightarrow> (Inl InvalidRef, st4))))"
  using assms
  by (simp add: insert_into_persistent_db_def heap_alloc_def strip_dict
        obj_setitem_def Let_def heap_set_alloc_new)

text \<open>
  The last step of the flat path, on the copy \<open>d4\<close> at the end of the heap: the driver
  stamps the copy, then writes it when it can encode it and raises otherwise.
\<close>

lemma insert_dict_tail:
  "(let st4 = st\<lparr>heap := heap st @ [Dict d4]\<rparr>; val2 = length (heap st) in
    case heap_get st4 val2 of
      Some (Dict d4') \<Rightarrow>
        (let st5 = heap_set st4 val2 (Dict (scalarize_items d4'))
         in mongo_insert_one st5 vt val2)
    | Some (DataFrame df4) \<Rightarrow> (Inl TypeError, st4)
    | None \<Rightarrow> (Inl InvalidRef, st4)) =
   (let wd = with_id (next_oid st) (scalarize_items d4);
        st6 = st\<lparr>heap := heap st @ [Dict wd], next_oid := Suc (next_oid st)\<rparr>
    in case doc_check wd of
         Some e \<Rightarrow> (Inl e, st6)
       | None \<Rightarrow> (Inr (), st6\<lparr>mdb := (mdb st)(vt := mdb st vt @ [wd])\<rparr>))"
  by (simp add: Let_def heap_get_def heap_set_def mongo_insert_one_def split: option.splits)

lemma insert_dict_resolved:
  assumes "heap_get st r = Some (Dict d)"
      and "check_row_id
             (st\<lparr>heap := heap st @ [Dict (AList.update ''_concordia_created_at'' (PTime (clock st))
                                            (AList.delete ''_id_'' (AList.delete ''_id'' d)))]\<rparr>)
             (length (heap st)) rid None = (Inr v1, st3)"
      and "check_model_id st3 v1 mid None = (Inr v2, st4)"
  shows "\<exists>vr vm. vr \<noteq> PNone \<and> vm \<noteq> PNone
           \<and> (select_listed rid None = Inr vr \<or>
                (select_listed rid None = Inr PNone \<and> vr = dict_get
                    (AList.update ''_concordia_created_at'' (PTime (clock st))
                       (AList.delete ''_id_'' (AList.delete ''_id'' d))) (default_row_id_field st)))
           \<and> (select_listed mid None = Inr vm \<or> select_listed mid None = Inr PNone)
           \<and> insert_into_persistent_db st r vt rid mid =
               (let wd = written_doc st d vr vm;
                    st6 = st\<lparr>heap := heap st @ [Dict wd], next_oid := Suc (next_oid st)\<rparr>
                in case doc_check wd of
                     Some e \<Rightarrow> (Inl e, st6)
                   | None \<Rightarrow> (Inr (), st6\<lparr>mdb := (mdb st)(vt := mdb st vt @ [wd])\<rparr>))"
proof -
  let ?d3 = "AList.update ''_concordia_created_at'' (PTime (clock st))
               (AList.delete ''_id_'' (AList.delete ''_id'' d))"
  let ?st2 = "st\<lparr>heap := heap st @ [Dict ?d3]\<rparr>"
  let ?n = "length (heap st)"
  have g2: "heap_get ?st2 ?n = Some (Dict ?d3)" by (rule heap_get_alloc_new)
  from check_row_id_dict [OF g2 assms(2)] obtain vr where
    vr: "vr \<noteq> PNone" "v1 = ?n" "st3 = heap_set ?st2 ?n (Dict (AList.update ''row_id'' vr ?d3))"
      "select_listed rid None = Inr vr \<or>
       (select_listed rid None = Inr PNone \<and> vr = dict_get ?d3 (default_row_id_field ?st2))"
    by blast
  let ?d3r = "AList.update ''row_id'' vr ?d3"
  have st3: "st3 = st\<lparr>heap := heap st @ [Dict ?d3r]\<rparr>"
    using vr(3) by (simp add: heap_set_alloc_new)
  have g3: "heap_get st3 ?n = Some (Dict ?d3r)"
    unfolding st3 by (rule heap_get_alloc_new)
  from check_model_id_dict [OF g3 assms(3) [unfolded vr(2)]] obtain vm where
    vm: "vm \<noteq> PNone" "v2 = ?n"
      "st4 = heap_set st3 ?n (Dict (AList.update ''model_id'' vm ?d3r))"
      "select_listed mid None = Inr vm \<or> select_listed mid None = Inr PNone"
    by blast
  let ?d4 = "AList.update ''model_id'' vm ?d3r"
  have st4: "st4 = st\<lparr>heap := heap st @ [Dict ?d4]\<rparr>"
    using vm(3) unfolding st3 by (simp add: heap_set_def)
  have "insert_into_persistent_db st r vt rid mid =
        (let wd = written_doc st d vr vm;
             st6 = st\<lparr>heap := heap st @ [Dict wd], next_oid := Suc (next_oid st)\<rparr>
         in case doc_check wd of
              Some e \<Rightarrow> (Inl e, st6)
            | None \<Rightarrow> (Inr (), st6\<lparr>mdb := (mdb st)(vt := mdb st vt @ [wd])\<rparr>))"
    using insert_dict_tail [of st ?d4 vt] assms(2)
    by (simp add: insert_dict_unfold [OF assms(1)] vr(2) assms(3) [unfolded vr(2)] vm(2) st4
          Let_def written_doc_def)
  with vr(1,4) vm(1,4) show ?thesis
    by auto
qed

lemma insert_dict_success:
  assumes "heap_get st r = Some (Dict d)"
      and "insert_into_persistent_db st r vt rid mid = (Inr (), st')"
  shows "\<exists>vr vm. vr \<noteq> PNone \<and> vm \<noteq> PNone
           \<and> (select_listed rid None = Inr vr \<or>
                (select_listed rid None = Inr PNone \<and> vr = dict_get
                    (AList.update ''_concordia_created_at'' (PTime (clock st))
                       (AList.delete ''_id_'' (AList.delete ''_id'' d))) (default_row_id_field st)))
           \<and> (select_listed mid None = Inr vm \<or> select_listed mid None = Inr PNone)
           \<and> doc_ok (written_doc st d vr vm)
           \<and> st' = st\<lparr>heap := heap st @ [Dict (written_doc st d vr vm)],
                       mdb := (mdb st)(vt := mdb st vt @ [written_doc st d vr vm]),
                       next_oid := Suc (next_oid st)\<rparr>"
proof -
  let ?d3 = "AList.update ''_concordia_created_at'' (PTime (clock st))
               (AList.delete ''_id_'' (AList.delete ''_id'' d))"
  let ?st2 = "st\<lparr>heap := heap st @ [Dict ?d3]\<rparr>"
  let ?n = "length (heap st)"
  obtain res3 st3 where c1: "check_row_id ?st2 ?n rid None = (res3, st3)" by fastforce
  with assms obtain val1 where r3: "res3 = Inr val1"
    by (cases res3) (simp_all add: insert_dict_unfold Let_def)
  obtain res4 st4 where c2: "check_model_id st3 val1 mid None = (res4, st4)" by fastforce
  with assms c1 r3 obtain val2 where r4: "res4 = Inr val2"
    by (cases res4) (simp_all add: insert_dict_unfold Let_def)
  from insert_dict_resolved [OF assms(1) c1 [unfolded r3] c2 [unfolded r4], of vt]
  obtain vr vm where
    v: "vr \<noteq> PNone" "vm \<noteq> PNone"
       "select_listed rid None = Inr vr \<or>
        (select_listed rid None = Inr PNone \<and> vr = dict_get ?d3 (default_row_id_field st))"
       "select_listed mid None = Inr vm \<or> select_listed mid None = Inr PNone" and
    run: "insert_into_persistent_db st r vt rid mid =
           (let wd = written_doc st d vr vm;
                st6 = st\<lparr>heap := heap st @ [Dict wd], next_oid := Suc (next_oid st)\<rparr>
            in case doc_check wd of
                 Some e \<Rightarrow> (Inl e, st6)
               | None \<Rightarrow> (Inr (), st6\<lparr>mdb := (mdb st)(vt := mdb st vt @ [wd])\<rparr>))"
    by blast
  from run assms(2) have ok: "doc_check (written_doc st d vr vm) = None"
    by (cases "doc_check (written_doc st d vr vm)") (simp_all add: Let_def)
  with run assms(2) have
    "st' = st\<lparr>heap := heap st @ [Dict (written_doc st d vr vm)],
              mdb := (mdb st)(vt := mdb st vt @ [written_doc st d vr vm]),
              next_oid := Suc (next_oid st)\<rparr>"
    by (simp add: Let_def)
  with v ok show ?thesis by (auto simp: doc_ok_def)
qed

lemma insert_dict_scalar:
  assumes "heap_get st r = Some (Dict d)"
      and "rid \<noteq> PNone" "\<not> is_listlike rid" "mid \<noteq> PNone" "\<not> is_listlike mid"
  shows "insert_into_persistent_db st r vt rid mid =
         (let wd = written_doc st d rid mid;
              st6 = st\<lparr>heap := heap st @ [Dict wd], next_oid := Suc (next_oid st)\<rparr>
          in case doc_check wd of
               Some e \<Rightarrow> (Inl e, st6)
             | None \<Rightarrow> (Inr (), st6\<lparr>mdb := (mdb st)(vt := mdb st vt @ [wd])\<rparr>))"
proof -
  let ?d3 = "AList.update ''_concordia_created_at'' (PTime (clock st))
               (AList.delete ''_id_'' (AList.delete ''_id'' d))"
  let ?st2 = "st\<lparr>heap := heap st @ [Dict ?d3]\<rparr>"
  let ?n = "length (heap st)"
  let ?d3r = "AList.update ''row_id'' rid ?d3"
  let ?d4 = "AList.update ''model_id'' mid ?d3r"
  have g2: "heap_get ?st2 ?n = Some (Dict ?d3)" by (rule heap_get_alloc_new)
  have c1: "check_row_id ?st2 ?n rid None = (Inr ?n, st\<lparr>heap := heap st @ [Dict ?d3r]\<rparr>)"
    using check_row_id_scalar [OF g2 assms(2,3), of None] by (simp add: heap_set_alloc_new)
  have g3: "heap_get (st\<lparr>heap := heap st @ [Dict ?d3r]\<rparr>) ?n = Some (Dict ?d3r)"
    by (rule heap_get_alloc_new)
  have c2: "check_model_id (st\<lparr>heap := heap st @ [Dict ?d3r]\<rparr>) ?n mid None
            = (Inr ?n, st\<lparr>heap := heap st @ [Dict ?d4]\<rparr>)"
    using check_model_id_scalar [OF g3 assms(4,5), of None] by (simp add: heap_set_alloc_new)
  show ?thesis
    using insert_dict_tail [of st ?d4 vt]
    by (simp add: insert_dict_unfold [OF assms(1)] c1 c2 Let_def written_doc_def)
qed

lemma insert_dict_scalar_ok:
  assumes "heap_get st r = Some (Dict d)"
      and "rid \<noteq> PNone" "\<not> is_listlike rid" "mid \<noteq> PNone" "\<not> is_listlike mid"
      and "doc_ok (written_doc st d rid mid)"
  shows "insert_into_persistent_db st r vt rid mid =
         (Inr (), st\<lparr>heap := heap st @ [Dict (written_doc st d rid mid)],
                     mdb := (mdb st)(vt := mdb st vt @ [written_doc st d rid mid]),
                     next_oid := Suc (next_oid st)\<rparr>)"
  using assms(6) by (simp add: insert_dict_scalar [OF assms(1-5)] Let_def doc_ok_def)

lemma map_of_scalarize_items:
  "map_of (scalarize_items d) k = map_option scalarize_value (map_of d k)"
  by (induction d) (auto simp: scalarize_items_def)

lemma scalarize_value_fixed [simp]:
  "scalarize_value (PStr s) = PStr s" "scalarize_value (PTime t) = PTime t"
  "scalarize_value PNone = PNone" "scalarize_value (PInt i) = PInt i"
  by (simp_all add: scalarize_value_def is_np_generic_def)

lemma written_doc_model:
  "map_of d ''model'' = Some (PStr b) \<Longrightarrow> map_of (written_doc st d vr vm) ''model'' = Some (PStr b)"
  by (simp add: written_doc_def with_id_other map_of_scalarize_items update_conv' delete_conv')

lemma written_doc_model_id:
  "map_of (written_doc st d vr (PStr s)) ''model_id'' = Some (PStr s)"
  by (simp add: written_doc_def with_id_other map_of_scalarize_items update_conv')

lemma written_doc_row_id:
  "map_of (written_doc st d (PStr s) vm) ''row_id'' = Some (PStr s)"
  by (simp add: written_doc_def with_id_other map_of_scalarize_items update_conv')

lemma doc_ok_scalarize_items:
  "doc_ok (scalarize_items d) = list_all (\<lambda>(k, v). bson_ok (scalarize_value v)) d"
  by (simp add: doc_ok_iff scalarize_items_def list_all_iff split_beta)

lemma rows_ok_delete:
  "list_all (\<lambda>(k, v). P v) d \<Longrightarrow> list_all (\<lambda>(k, v). P v) (AList.delete c d)"
  by (induction d) (auto simp: AList.delete_eq)

lemma rows_ok_update:
  "list_all (\<lambda>(k, v). P v) d \<Longrightarrow> P w \<Longrightarrow> list_all (\<lambda>(k, v). P v) (AList.update c w d)"
  by (induction d) auto

lemma doc_ok_written_doc:
  assumes "list_all (\<lambda>(k, v). bson_ok (scalarize_value v)) d"
      and "bson_ok (scalarize_value vr)" and "bson_ok (scalarize_value vm)"
  shows "doc_ok (written_doc st d vr vm)"
  unfolding written_doc_def
  by (intro doc_ok_with_id, unfold doc_ok_scalarize_items)
     (intro rows_ok_update rows_ok_delete assms, simp add: bson_ok_def)

subsection \<open>The registry\<close>

lemma heap_get_rdb_update: "heap_get (st\<lparr>rdb := x\<rparr>) r = heap_get st r"
  by (simp add: heap_get_def)

text \<open>
  The \<^verbatim>\<open>model_info\<close> record of a registration can be encoded when the feature names and
  the description can, once numpy scalars are replaced; every other field is a string or
  a date.
\<close>

lemma add_model_run:
  assumes "heap_get st fi = Some (Dict d)"
      and "json_dumps ev (scalarize_items d) = Some js"
  shows "\<exists>st3 doc0. map_of doc0 ''model'' = Some (PStr (dumps_b64 ev m))
           \<and> list_all (\<lambda>(k, v). (k = ''feature_names'' \<and> v = fn) \<or> (k = ''description'' \<and> v = desc)
                                   \<or> bson_ok (scalarize_value v)) doc0
           \<and> rdb st3 = (rdb st)(make_redis_model_key (Some mid) \<mapsto> dumps_b64 ev m)
           \<and> mdb st3 = mdb st \<and> default_row_id_field st3 = default_row_id_field st
           \<and> take (length (heap st)) (heap st3) = (heap st)[fi := Dict (scalarize_items d)]
           \<and> length (heap st3) = Suc (length (heap st))
           \<and> heap_get st3 (length (heap st)) = Some (Dict doc0)
           \<and> add_model ev st m (Some mid) fn (Some fi) desc =
               insert_into_persistent_db st3 (length (heap st)) ''model_info'' (PStr mid) (PStr mid)"
proof -
  define st1 where "st1 = st\<lparr>rdb := (rdb st)(make_redis_model_key (Some mid) \<mapsto> dumps_b64 ev m)\<rparr>"
  define st2 where "st2 = heap_set st1 fi (Dict (scalarize_items d))"
  define doc0 where "doc0 =
     [(''val_type'', PStr ''model_info''), (''model'', PStr (dumps_b64 ev m)),
      (''model_id'', PStr mid), (''feature_names'', fn), (''feature_importances'', PStr js),
      (''description'', desc), (''date_added'', PTime (clock st2))]"
  define st3 where "st3 = st2\<lparr>heap := heap st2 @ [Dict doc0]\<rparr>"
  have g1: "heap_get st1 fi = Some (Dict d)"
    using assms(1) by (simp add: st1_def heap_get_rdb_update)
  have l2: "length (heap st2) = length (heap st)"
    by (simp add: st2_def st1_def heap_set_def)
  have unf: "add_model ev st m (Some mid) fn (Some fi) desc =
             insert_into_persistent_db st3 (length (heap st)) ''model_info'' (PStr mid) (PStr mid)"
    using g1 assms(2)
    by (simp add: add_model_def Let_def heap_alloc_def pyval_of_id_def l2 [symmetric]
          st1_def [symmetric] st2_def [symmetric] doc0_def [symmetric] st3_def [symmetric])
  have g3: "heap_get st3 (length (heap st)) = Some (Dict doc0)"
    unfolding st3_def l2 [symmetric] by (rule heap_get_alloc_new)
  have f3: "rdb st3 = (rdb st)(make_redis_model_key (Some mid) \<mapsto> dumps_b64 ev m)"
    "mdb st3 = mdb st" "default_row_id_field st3 = default_row_id_field st"
    by (simp_all add: st3_def st2_def st1_def heap_set_def)
  have h3: "take (length (heap st)) (heap st3) = (heap st)[fi := Dict (scalarize_items d)]"
    by (simp add: st3_def st2_def st1_def heap_set_def)
  have d0: "map_of doc0 ''model'' = Some (PStr (dumps_b64 ev m))"
    by (simp add: doc0_def)
  have e0: "list_all (\<lambda>(k, v). (k = ''feature_names'' \<and> v = fn) \<or> (k = ''description'' \<and> v = desc)
                                   \<or> bson_ok (scalarize_value v)) doc0"
    by (simp add: doc0_def bson_ok_def)
  have l3: "length (heap st3) = Suc (length (heap st))"
    by (simp add: st3_def l2)
  from d0 e0 f3 h3 l3 g3 unf show ?thesis by blast
qed

lemma add_model_registers:
  assumes "heap_get st fi = Some (Dict d)"
      and "json_dumps ev (scalarize_items d) = Some js"
      and "bson_ok (scalarize_value fn)" and "bson_ok (scalarize_value desc)"
  shows "\<exists>st' doc. add_model ev st m (Some mid) fn (Some fi) desc = (Inr (), st')
           \<and> rdb st' = (rdb st)(make_redis_model_key (Some mid) \<mapsto> dumps_b64 ev m)
           \<and> mdb st' = (mdb st)(''model_info'' := mdb st ''model_info'' @ [doc])
           \<and> default_row_id_field st' = default_row_id_field st
           \<and> map_of doc ''model'' = Some (PStr (dumps_b64 ev m))
           \<and> map_of doc ''model_id'' = Some (PStr mid)
           \<and> map_of doc ''row_id'' = Some (PStr mid)
           \<and> heap_get st' fi = Some (Dict (scalarize_items d))"
proof -
  from add_model_run [OF assms(1,2), of m fn desc mid] obtain st3 doc0 where
    d0: "map_of doc0 ''model'' = Some (PStr (dumps_b64 ev m))" and
    e0: "list_all (\<lambda>(k, v). (k = ''feature_names'' \<and> v = fn) \<or> (k = ''description'' \<and> v = desc)
                                   \<or> bson_ok (scalarize_value v)) doc0" and
    f3: "rdb st3 = (rdb st)(make_redis_model_key (Some mid) \<mapsto> dumps_b64 ev m)"
        "mdb st3 = mdb st" "default_row_id_field st3 = default_row_id_field st" and
    h3: "take (length (heap st)) (heap st3) = (heap st)[fi := Dict (scalarize_items d)]" and
    l3: "length (heap st3) = Suc (length (heap st))" and
    g3: "heap_get st3 (length (heap st)) = Some (Dict doc0)" and
    unf: "add_model ev st m (Some mid) fn (Some fi) desc =
          insert_into_persistent_db st3 (length (heap st)) ''model_info'' (PStr mid) (PStr mid)"
    by blast
  define doc where "doc = written_doc st3 doc0 (PStr mid) (PStr mid)"
  have e1: "list_all (\<lambda>(k, v). bson_ok (scalarize_value v)) doc0"
    using e0 assms(3,4) by (auto simp: list_all_iff)
  have ok: "doc_ok doc"
    unfolding doc_def by (rule doc_ok_written_doc [OF e1]) (simp_all add: bson_ok_def)
  have ins: "insert_into_persistent_db st3 (length (heap st)) ''model_info'' (PStr mid) (PStr mid) =
             (Inr (), st3\<lparr>heap := heap st3 @ [Dict doc],
                           mdb := (mdb st3)(''model_info'' := mdb st3 ''model_info'' @ [doc]),
                           next_oid := Suc (next_oid st3)\<rparr>)"
    unfolding doc_def
    by (rule insert_dict_scalar_ok [OF g3]) (simp_all add: is_listlike_def ok [unfolded doc_def])
  have fd: "map_of doc ''model'' = Some (PStr (dumps_b64 ev m))"
    "map_of doc ''model_id'' = Some (PStr mid)" "map_of doc ''row_id'' = Some (PStr mid)"
    unfolding doc_def
    by (simp_all add: written_doc_model [OF d0] written_doc_model_id written_doc_row_id)
  define st4 where "st4 = st3\<lparr>heap := heap st3 @ [Dict doc],
                           mdb := (mdb st3)(''model_info'' := mdb st3 ''model_info'' @ [doc]),
                           next_oid := Suc (next_oid st3)\<rparr>"
  have r: "add_model ev st m (Some mid) fn (Some fi) desc = (Inr (), st4)"
    using unf ins by (simp add: st4_def)
  have f4: "rdb st4 = (rdb st)(make_redis_model_key (Some mid) \<mapsto> dumps_b64 ev m)"
    "mdb st4 = (mdb st)(''model_info'' := mdb st ''model_info'' @ [doc])"
    "default_row_id_field st4 = default_row_id_field st"
    by (simp_all add: st4_def f3)
  have fi: "fi < length (heap st)"
    using assms(1) by (simp add: heap_get_def split: if_splits)
  have "heap st4 ! fi = take (length (heap st)) (heap st3) ! fi"
    using fi l3 by (simp add: st4_def nth_append)
  then have "heap st4 ! fi = Dict (scalarize_items d)"
    using fi by (simp add: h3)
  moreover have "fi < length (heap st4)"
    using fi l3 by (simp add: st4_def)
  ultimately have h4: "heap_get st4 fi = Some (Dict (scalarize_items d))"
    by (simp add: heap_get_def)
  from r f4 fd h4 show ?thesis by blast
qed

lemma add_model_success:
  assumes "add_model ev st m (Some mid) fn fio desc = (Inr (), st')"
  shows "\<exists>doc. rdb st' = (rdb st)(make_redis_model_key (Some mid) \<mapsto> dumps_b64 ev m)
           \<and> mdb st' = (mdb st)(''model_info'' := mdb st ''model_info'' @ [doc])
           \<and> map_of doc ''model'' = Some (PStr (dumps_b64 ev m))
           \<and> map_of doc ''model_id'' = Some (PStr mid)"
proof -
  let ?st1 = "st\<lparr>rdb := (rdb st)(make_redis_model_key (Some mid) \<mapsto> dumps_b64 ev m)\<rparr>"
  from assms obtain fi where fio: "fio = Some fi"
    by (cases fio) (simp_all add: add_model_def Let_def)
  from assms fio obtain ob where ob: "heap_get ?st1 fi = Some ob"
    by (cases "heap_get ?st1 fi") (simp_all add: add_model_def Let_def)
  from assms fio ob obtain d where d: "ob = Dict d"
    by (cases ob) (simp_all add: add_model_def Let_def)
  from assms fio ob d obtain js where js: "json_dumps ev (scalarize_items d) = Some js"
    by (cases "json_dumps ev (scalarize_items d)") (simp_all add: add_model_def Let_def)
  have g: "heap_get st fi = Some (Dict d)"
    using ob d by (simp add: heap_get_rdb_update)
  from add_model_run [OF g js, of m fn desc mid] obtain st3 doc0 where
    d0: "map_of doc0 ''model'' = Some (PStr (dumps_b64 ev m))" and
    f3: "rdb st3 = (rdb st)(make_redis_model_key (Some mid) \<mapsto> dumps_b64 ev m)"
        "mdb st3 = mdb st" and
    g3: "heap_get st3 (length (heap st)) = Some (Dict doc0)" and
    unf: "add_model ev st m (Some mid) fn (Some fi) desc =
          insert_into_persistent_db st3 (length (heap st)) ''model_info'' (PStr mid) (PStr mid)"
    by blast
  from assms fio unf have
    "insert_into_persistent_db st3 (length (heap st)) ''model_info'' (PStr mid) (PStr mid)
     = (Inr (), st')" by simp
  from insert_dict_success [OF g3 this] obtain vr vm where
    v: "vm \<noteq> PNone"
       "select_listed (PStr mid) None = Inr vm \<or> select_listed (PStr mid) None = Inr PNone" and
    st': "st' = st3\<lparr>heap := heap st3 @ [Dict (written_doc st3 doc0 vr vm)],
                mdb := (mdb st3)(''model_info'' := mdb st3 ''model_info'' @ [written_doc st3 doc0 vr vm]),
                next_oid := Suc (next_oid st3)\<rparr>"
    by blast
  from v(2) have vm: "vm = PStr mid"
    by (simp add: select_listed_def)
  let ?doc = "written_doc st3 doc0 vr (PStr mid)"
  have "rdb st' = (rdb st)(make_redis_model_key (Some mid) \<mapsto> dumps_b64 ev m)"
    "mdb st' = (mdb st)(''model_info'' := mdb st ''model_info'' @ [?doc])"
    by (simp_all add: st' vm f3)
  moreover have "map_of ?doc ''model'' = Some (PStr (dumps_b64 ev m))"
    "map_of ?doc ''model_id'' = Some (PStr mid)"
    by (simp_all add: written_doc_model [OF d0] written_doc_model_id)
  ultimately show ?thesis by blast
qed

lemma get_model_cached:
  "rdb st (make_redis_model_key model_id) = Some b \<Longrightarrow>
   priv_get_model ev st model_id = (decode_model ev (Some b), st)"
  by (simp add: priv_get_model_def)

lemma get_model_from_record:
  assumes "rdb st (make_redis_model_key model_id) = None"
      and "retrieve_from_persistent_db st ''model_info'' PNone (pyval_of_id model_id) PNone None
           = d0 # rest"
      and "map_of d0 ''model'' = Some (PStr b)"
  shows "priv_get_model ev st model_id =
         (decode_model ev (Some b), st\<lparr>rdb := (rdb st)(make_redis_model_key model_id \<mapsto> b)\<rparr>)"
  using assms by (simp add: priv_get_model_def Let_def)

lemma retrieve_model_info:
  "retrieve_from_persistent_db st ''model_info'' PNone (PStr mid) PNone None =
   filter (\<lambda>d. case map_of d ''model_id'' of None \<Rightarrow> False | Some w \<Rightarrow> mongo_eq w (PStr mid))
     (mdb st ''model_info'')"
  by (simp add: retrieve_by_model_id)

lemma mdb_evict: "mdb (evict_model st k) = mdb st"
  by (simp add: evict_model_def)

lemma state_rdb_restore: "rdb st k = Some b \<Longrightarrow> st\<lparr>rdb := ((rdb st)(k := None))(k \<mapsto> b)\<rparr> = st"
proof -
  assume "rdb st k = Some b"
  then have "((rdb st)(k := None))(k \<mapsto> b) = rdb st" by auto
  then show ?thesis by simp
qed

text \<open>
  After a successful registration under an identifier that had no record, the query for
  that identifier returns the new record first, whatever is registered later.
\<close>

lemma fresh_registration_first:
  assumes "add_model ev st m (Some mid) fn fio desc = (Inr (), st1)"
      and "retrieve_from_persistent_db st ''model_info'' PNone (PStr mid) PNone None = []"
  shows "\<exists>doc. map_of doc ''model'' = Some (PStr (dumps_b64 ev m))
           \<and> rdb st1 = (rdb st)(make_redis_model_key (Some mid) \<mapsto> dumps_b64 ev m)
           \<and> mdb st1 ''model_info'' = mdb st ''model_info'' @ [doc]
           \<and> (\<forall>later. retrieve_from_persistent_db
                          (st1\<lparr>mdb := (mdb st1)(''model_info'' := mdb st1 ''model_info'' @ later)\<rparr>)
                          ''model_info'' PNone (PStr mid) PNone None
                        = doc # filter (\<lambda>d. case map_of d ''model_id'' of None \<Rightarrow> False
                                               | Some w \<Rightarrow> mongo_eq w (PStr mid)) later)"
proof -
  from add_model_success [OF assms(1)] obtain doc where
    c: "rdb st1 = (rdb st)(make_redis_model_key (Some mid) \<mapsto> dumps_b64 ev m)" and
    m: "mdb st1 = (mdb st)(''model_info'' := mdb st ''model_info'' @ [doc])" and
    d: "map_of doc ''model'' = Some (PStr (dumps_b64 ev m))" "map_of doc ''model_id'' = Some (PStr mid)"
    by blast
  have old: "filter (\<lambda>d. case map_of d ''model_id'' of None \<Rightarrow> False
                         | Some w \<Rightarrow> mongo_eq w (PStr mid)) (mdb st ''model_info'') = []"
    using assms(2) by (simp add: retrieve_model_info)
  have "retrieve_from_persistent_db
          (st1\<lparr>mdb := (mdb st1)(''model_info'' := mdb st1 ''model_info'' @ later)\<rparr>)
          ''model_info'' PNone (PStr mid) PNone None
        = doc # filter (\<lambda>d. case map_of d ''model_id'' of None \<Rightarrow> False
                               | Some w \<Rightarrow> mongo_eq w (PStr mid)) later" for later
    by (simp add: retrieve_model_info m old d(2) mongo_eq_refl)
  with c m d(1) show ?thesis by simp
qed

lemma first_registration_served:
  assumes "loads_b64 ev (dumps_b64 ev m1) = Some m1"
      and "add_model ev st m1 (Some mid) fn1 fio1 desc1 = (Inr (), st1)"
      and "add_model ev st1 m2 (Some mid) fn2 fio2 desc2 = (Inr (), st2)"
      and "retrieve_from_persistent_db st ''model_info'' PNone (PStr mid) PNone None = []"
  shows "priv_get_model ev (evict_model st2 (Some mid)) (Some mid) =
         (Inr m1, st2\<lparr>rdb := (rdb st2)(make_redis_model_key (Some mid) \<mapsto> dumps_b64 ev m1)\<rparr>)"
proof -
  let ?k = "make_redis_model_key (Some mid)"
  let ?b = "dumps_b64 ev m1"
  let ?P = "\<lambda>d. case map_of d ''model_id'' of None \<Rightarrow> False | Some w \<Rightarrow> mongo_eq w (PStr mid)"
  from fresh_registration_first [OF assms(2,4)] obtain doc1 where
    d1: "map_of doc1 ''model'' = Some (PStr ?b)" and
    q1: "\<And>later. retrieve_from_persistent_db
                    (st1\<lparr>mdb := (mdb st1)(''model_info'' := mdb st1 ''model_info'' @ later)\<rparr>)
                    ''model_info'' PNone (PStr mid) PNone None = doc1 # filter ?P later"
    by blast
  from add_model_success [OF assms(3)] obtain doc2 where
    m2: "mdb st2 = (mdb st1)(''model_info'' := mdb st1 ''model_info'' @ [doc2])"
    by blast
  have "retrieve_from_persistent_db (evict_model st2 (Some mid)) ''model_info'' PNone
          (PStr mid) PNone None
        = retrieve_from_persistent_db
            (st1\<lparr>mdb := (mdb st1)(''model_info'' := mdb st1 ''model_info'' @ [doc2])\<rparr>)
            ''model_info'' PNone (PStr mid) PNone None"
    by (simp add: retrieve_model_info mdb_evict m2)
  then have q: "retrieve_from_persistent_db (evict_model st2 (Some mid)) ''model_info'' PNone
             (pyval_of_id (Some mid)) PNone None = doc1 # filter ?P [doc2]"
    by (simp only: q1 pyval_of_id_def option.case)
  have gone: "rdb (evict_model st2 (Some mid)) ?k = None"
    by (simp add: evict_model_def)
  have dec: "decode_model ev (Some ?b) = Inr m1"
    using assms(1) by (simp add: decode_model_def)
  show ?thesis
    using get_model_from_record [OF gone q d1, of ev] dec
    by (simp add: evict_model_def)
qed

lemma registration_served:
  assumes "loads_b64 ev (dumps_b64 ev m) = Some m"
      and "add_model ev st m (Some mid) fn fio desc = (Inr (), st1)"
  shows "priv_get_model ev st1 (Some mid) = (Inr m, st1)"
    and "retrieve_from_persistent_db st ''model_info'' PNone (PStr mid) PNone None = [] \<Longrightarrow>
         priv_get_model ev (evict_model st1 (Some mid)) (Some mid) = (Inr m, st1)"
proof -
  let ?k = "make_redis_model_key (Some mid)"
  let ?b = "dumps_b64 ev m"
  from add_model_success [OF assms(2)] have
    c: "rdb st1 = (rdb st)(?k \<mapsto> ?b)" by blast
  have dec: "decode_model ev (Some ?b) = Inr m"
    using assms(1) by (simp add: decode_model_def)
  show "priv_get_model ev st1 (Some mid) = (Inr m, st1)"
    using get_model_cached [of st1 "Some mid" ?b ev] c dec by simp
  show "priv_get_model ev (evict_model st1 (Some mid)) (Some mid) = (Inr m, st1)"
    if fresh: "retrieve_from_persistent_db st ''model_info'' PNone (PStr mid) PNone None = []"
  proof -
    from fresh_registration_first [OF assms(2) fresh] obtain doc where
      d: "map_of doc ''model'' = Some (PStr ?b)" and
      q1: "\<And>later. retrieve_from_persistent_db
                    (st1\<lparr>mdb := (mdb st1)(''model_info'' := mdb st1 ''model_info'' @ later)\<rparr>)
                    ''model_info'' PNone (PStr mid) PNone None
                  = doc # filter (\<lambda>d. case map_of d ''model_id'' of None \<Rightarrow> False
                                         | Some w \<Rightarrow> mongo_eq w (PStr mid)) later"
      by blast
    have "retrieve_from_persistent_db (evict_model st1 (Some mid)) ''model_info'' PNone
            (PStr mid) PNone None
          = retrieve_from_persistent_db
              (st1\<lparr>mdb := (mdb st1)(''model_info'' := mdb st1 ''model_info'' @ [])\<rparr>)
              ''model_info'' PNone (PStr mid) PNone None"
      by (simp add: retrieve_model_info mdb_evict)
    then have q: "retrieve_from_persistent_db (evict_model st1 (Some mid)) ''model_info'' PNone
                    (pyval_of_id (Some mid)) PNone None = doc # []"
      by (simp only: q1 pyval_of_id_def option.case filter.simps)
    have gone: "rdb (evict_model st1 (Some mid)) ?k = None"
      by (simp add: evict_model_def)
    have "priv_get_model ev (evict_model st1 (Some mid)) (Some mid) =
          (Inr m, (evict_model st1 (Some mid))\<lparr>rdb := (rdb (evict_model st1 (Some mid)))(?k \<mapsto> ?b)\<rparr>)"
      using get_model_from_record [OF gone q d, of ev] dec by simp
    moreover have "(evict_model st1 (Some mid))\<lparr>rdb := (rdb (evict_model st1 (Some mid)))(?k \<mapsto> ?b)\<rparr>
                   = st1"
      using state_rdb_restore [of st1 ?k ?b] c by (simp add: evict_model_def)
    ultimately show ?thesis by simp
  qed
qed

lemma add_model_demo:
  assumes "heap_get st 0 = Some (Dict [])"
  shows "add_model demo_env st m (Some mid) PNone (Some 0) PNone
           = (Inr (), snd (add_model demo_env st m (Some mid) PNone (Some 0) PNone))
         \<and> heap_get (snd (add_model demo_env st m (Some mid) PNone (Some 0) PNone)) 0
           = Some (Dict [])"
proof -
  have js: "json_dumps demo_env (scalarize_items []) = Some ''{}''"
    by (simp add: demo_env_def)
  have e: "bson_ok (scalarize_value PNone)" by (simp add: bson_ok_def)
  from add_model_registers [OF assms js e e, of m mid] obtain st' where
    "add_model demo_env st m (Some mid) PNone (Some 0) PNone = (Inr (), st')"
    "heap_get st' 0 = Some (Dict (scalarize_items []))"
    by blast
  then show ?thesis by (simp add: scalarize_items_def)
qed

lemma empty_store_facts:
  "heap_get (empty_store fld [Dict []]) 0 = Some (Dict [])"
  "retrieve_from_persistent_db (empty_store fld objs) vt a b c d = []"
  by (simp_all add: empty_store_def heap_get_def retrieve_from_persistent_db_def mongo_find_def)

lemma demo_env_valid: "loads_b64 demo_env (dumps_b64 demo_env m) = Some m"
  by (simp add: demo_env_def)

subsection \<open>The prediction call\<close>

lemma get_model_only_cache: "\<exists>c. snd (priv_get_model ev st model_id) = st\<lparr>rdb := c\<rparr>"
proof -
  have a: "\<exists>c. st = st\<lparr>rdb := c\<rparr>" by (rule exI [of _ "rdb st"]) simp
  have b: "\<exists>c. st\<lparr>rdb := x\<rparr> = st\<lparr>rdb := c\<rparr>" for x by blast
  show ?thesis
    using a b
    by (simp add: priv_get_model_def Let_def split: option.split list.split pyval.split)
qed

lemma get_model_heap_indep:
  "priv_get_model ev (st\<lparr>heap := h\<rparr>) model_id =
   (fst (priv_get_model ev st model_id), (snd (priv_get_model ev st model_id))\<lparr>heap := h\<rparr>)"
  by (simp add: priv_get_model_def Let_def retrieve_from_persistent_db_def mongo_find_def
           split: option.split list.split pyval.split)

lemma get_model_fields:
  "mdb (snd (priv_get_model ev st model_id)) = mdb st"
  "heap (snd (priv_get_model ev st model_id)) = heap st"
  "default_row_id_field (snd (priv_get_model ev st model_id)) = default_row_id_field st"
  "next_oid (snd (priv_get_model ev st model_id)) = next_oid st"
  "clock (snd (priv_get_model ev st model_id)) = clock st"
  using get_model_only_cache [of ev st model_id] by auto

lemma written_doc_cong:
  "next_oid st' = next_oid st \<Longrightarrow> clock st' = clock st \<Longrightarrow>
   written_doc st' d vr vm = written_doc st d vr vm"
  by (simp add: written_doc_def)

lemma predict_resolution_fails:
  assumes "heap_get st features = Some ob"
      and "\<not> (row_id = PNone \<and> default_row_id_field st = None)"
      and "fst (priv_get_model ev st model_id) = Inl e"
  shows "fst (priv_predict ev st features model_id row_id proba) = Inl e
       \<and> mdb (snd (priv_predict ev st features model_id row_id proba)) = mdb st"
proof -
  obtain c where G: "snd (priv_get_model ev st model_id) = st\<lparr>rdb := c\<rparr>"
    using get_model_only_cache by blast
  have gm: "priv_get_model ev (st\<lparr>heap := heap st @ [ob]\<rparr>) model_id =
            (Inl e, st\<lparr>rdb := c, heap := heap st @ [ob]\<rparr>)"
    by (simp add: get_model_heap_indep G assms(3))
  have "priv_predict ev st features model_id row_id proba =
        (Inl e, st\<lparr>rdb := c, heap := heap st @ [ob]\<rparr>)"
  proof (cases "row_id = PNone")
    case True
    with assms(2) obtain y where "default_row_id_field st = Some y" by auto
    with True assms(1) show ?thesis
      by (simp add: priv_predict_def heap_alloc_def gm)
  next
    case False
    with assms(1) show ?thesis
      by (simp add: priv_predict_def heap_alloc_def gm)
  qed
  then show ?thesis by simp
qed

text \<open>
  A prediction call whose model and row identifier are resolved continues with the write
  of the features; what follows depends on that write alone.
\<close>

lemma predict_resolved:
  assumes "heap_get st features = Some ob0"
      and "\<not> (row_id = PNone \<and> default_row_id_field st = None)"
      and "fst (priv_get_model ev st model_id) = Inr m"
      and "(if row_id = PNone then obj_getitem ob0 (default_row_id_field st) else Inr row_id)
           = Inr rid1"
  shows "priv_predict ev st features model_id row_id proba =
         (case insert_into_persistent_db
                 ((snd (priv_get_model ev st model_id))\<lparr>heap := heap st @ [ob0]\<rparr>)
                 (length (heap st)) ''live_features'' rid1 (pyval_of_id model_id) of
            (Inl e, st3) \<Rightarrow> (Inl e, st3)
          | (Inr u, st3) \<Rightarrow>
              (case heap_get st3 (length (heap st)) of
                 None \<Rightarrow> (Inl InvalidRef, st3)
               | Some ob \<Rightarrow>
                   (case (if proba then model_predict_proba ev m ob else model_predict ev m ob) of
                      Inl e \<Rightarrow> (Inl e, st3)
                    | Inr prediction \<Rightarrow>
                        (let pred_doc = [(''prediction'', normalize_prediction prediction),
                                         (''row_id'', rid1), (''model_id'', pyval_of_id model_id)]
                         in case (if is_DataFrame ob
                                  then (case pd_DataFrame pred_doc of
                                          Inl e \<Rightarrow> Inl e | Inr df \<Rightarrow> Inr (DataFrame df))
                                  else Inr (Dict pred_doc)) of
                              Inl e \<Rightarrow> (Inl e, st3)
                            | Inr pd \<Rightarrow>
                                (case insert_into_persistent_db (st3\<lparr>heap := heap st3 @ [pd]\<rparr>)
                                        (length (heap st3)) ''live_predictions'' rid1
                                        (pyval_of_id model_id) of
                                   (Inl e, st5) \<Rightarrow> (Inl e, st5)
                                 | (Inr u', st5) \<Rightarrow> (Inr prediction, st5))))))"
proof -
  let ?G = "snd (priv_get_model ev st model_id)"
  have gm: "priv_get_model ev (st\<lparr>heap := heap st @ [ob0]\<rparr>) model_id =
            (Inr m, ?G\<lparr>heap := heap st @ [ob0]\<rparr>)"
    by (simp add: get_model_heap_indep assms(3))
  have fld: "default_row_id_field (?G\<lparr>heap := heap st @ [ob0]\<rparr>) = default_row_id_field st"
    by (simp add: get_model_fields)
  have rid: "(if row_id = PNone
              then obj_getitem ob0 (default_row_id_field (?G\<lparr>heap := heap st @ [ob0]\<rparr>))
              else Inr row_id) = Inr rid1"
    using assms(4) by (simp only: fld)
  show ?thesis
    using assms(1,2)
    by (auto simp add: priv_predict_def heap_alloc_def gm rid Let_def
             cong: prod.case_cong sum.case_cong option.case_cong)
qed

text \<open>A write that succeeds adds one record per row of the payload, to its collection only.\<close>

lemma insert_writes_payload:
  assumes "heap_get st r = Some ob"
      and "fst (insert_into_persistent_db st r vt rid mid) = Inr ()"
  shows "length (mdb (snd (insert_into_persistent_db st r vt rid mid)) vt)
           = length (mdb st vt) + payload_rows ob"
    and "c \<noteq> vt \<Longrightarrow> mdb (snd (insert_into_persistent_db st r vt rid mid)) c = mdb st c"
proof -
  let ?run = "insert_into_persistent_db st r vt rid mid"
  have "\<exists>new. length new = payload_rows ob \<and> mdb (snd ?run) = (mdb st)(vt := mdb st vt @ new)"
  proof (cases ob)
    case (Dict d)
    from assms(2) have "?run = (Inr (), snd ?run)" by (simp add: prod_eq_iff)
    from insert_dict_success [OF assms(1) [unfolded Dict] this] obtain vr vm where
      "snd ?run = st\<lparr>heap := heap st @ [Dict (written_doc st d vr vm)],
                      mdb := (mdb st)(vt := mdb st vt @ [written_doc st d vr vm]),
                      next_oid := Suc (next_oid st)\<rparr>"
      by blast
    then have "mdb (snd ?run) = (mdb st)(vt := mdb st vt @ [written_doc st d vr vm])"
      by simp
    then show ?thesis
      by (intro exI [of _ "[written_doc st d vr vm]"]) (simp add: payload_rows_def Dict)
  next
    case (DataFrame df)
    note h = assms(1) [unfolded DataFrame]
    show ?thesis
    proof (cases "table_identity st df rid mid")
      case (Inl e)
      from insert_df_unresolved [OF h Inl, of vt] assms(2) show ?thesis by simp
    next
      case (Inr df2)
      let ?st0 = "st\<lparr>heap := heap st @ [DataFrame df2]\<rparr>"
      have run: "?run = insert_chunks ?st0 vt (df_rows df2) 0"
        by (rule insert_df_resolved [OF h Inr])
      from insert_chunks_prefix [of ?st0 vt "df_rows df2" 0] assms(2) obtain k where
        "snd ?run = appended ?st0 vt (take k (df_rows df2))" "take k (df_rows df2) = df_rows df2"
        by (auto simp: run)
      then have "mdb (snd ?run) = (mdb st)(vt := mdb st vt @ assign_ids (next_oid st) (df_rows df2))"
        by (simp add: appended_fields)
      moreover have "length (assign_ids (next_oid st) (df_rows df2)) = payload_rows ob"
        by (simp add: length_assign_ids table_identity_rows(1) [OF Inr] payload_rows_def DataFrame)
      ultimately show ?thesis by blast
    qed
  qed
  then obtain new where
    n: "length new = payload_rows ob" "mdb (snd ?run) = (mdb st)(vt := mdb st vt @ new)"
    by blast
  from n show "length (mdb (snd ?run) vt) = length (mdb st vt) + payload_rows ob"
    by simp
  from n show "mdb (snd ?run) c = mdb st c" if "c \<noteq> vt"
    using that by simp
qed

lemma cached_store_facts:
  "heap_get cached_store 0 = Some (Dict [(''age'', PInt 30)])"
  "heap cached_store = [Dict [(''age'', PInt 30)]]"
  "mdb cached_store = (\<lambda>c. [])"
  "default_row_id_field cached_store = None"
  "priv_get_model crashing_env cached_store (Some ''m1'') = (Inr 3, cached_store)"
  "priv_get_model demo_env cached_store (Some ''m1'') = (Inr 3, cached_store)"
  by (simp_all add: cached_store_def empty_store_def heap_get_def priv_get_model_def
        decode_model_def crashing_env_def demo_env_def Let_def)

lemma cached_store_logged:
  "insert_into_persistent_db (cached_store\<lparr>heap := heap cached_store @ [Dict [(''age'', PInt 30)]]\<rparr>)
     (length (heap cached_store)) ''live_features'' (PStr ''r1'') (PStr ''m1'') =
   (Inr (), cached_store
      \<lparr>heap := heap cached_store @ [Dict [(''age'', PInt 30)],
                 Dict (written_doc cached_store [(''age'', PInt 30)] (PStr ''r1'') (PStr ''m1''))],
       mdb := (mdb cached_store)(''live_features'' :=
                 [written_doc cached_store [(''age'', PInt 30)] (PStr ''r1'') (PStr ''m1'')]),
       next_oid := Suc (next_oid cached_store)\<rparr>)"
proof -
  let ?st2 = "cached_store\<lparr>heap := heap cached_store @ [Dict [(''age'', PInt 30)]]\<rparr>"
  have g: "heap_get ?st2 (length (heap cached_store)) = Some (Dict [(''age'', PInt 30)])"
    by (rule heap_get_alloc_new)
  have w: "written_doc ?st2 [(''age'', PInt 30)] (PStr ''r1'') (PStr ''m1'')
           = written_doc cached_store [(''age'', PInt 30)] (PStr ''r1'') (PStr ''m1'')"
    by (rule written_doc_cong) simp_all
  have ok: "doc_ok (written_doc ?st2 [(''age'', PInt 30)] (PStr ''r1'') (PStr ''m1''))"
    by (rule doc_ok_written_doc) (simp_all add: bson_ok_def)
  show ?thesis
    using insert_dict_scalar_ok [OF g _ _ _ _ ok, of "''live_features''"]
    by (simp add: is_listlike_def w cached_store_facts(3))
qed

subsection \<open>Copies: writes never reach the objects of the caller\<close>

lemma take_eq_length_le: "take (length xs) ys = xs \<Longrightarrow> length xs \<le> length ys"
proof -
  assume "take (length xs) ys = xs"
  then have "length (take (length xs) ys) = length xs" by simp
  then show ?thesis by simp
qed

lemma keeps_objects_refl: "keeps_objects st st"
  by (simp add: keeps_objects_def)

lemma keeps_objects_trans:
  assumes "keeps_objects a b" and "keeps_objects b c"
  shows "keeps_objects a c"
proof -
  from assms(1) have ab: "take (length (heap a)) (heap b) = heap a"
    by (simp add: keeps_objects_def)
  then have le: "length (heap a) \<le> length (heap b)"
    by (rule take_eq_length_le)
  from assms(2) have "take (length (heap b)) (heap c) = heap b"
    by (simp add: keeps_objects_def)
  then have "take (length (heap a)) (take (length (heap b)) (heap c)) = take (length (heap a)) (heap b)"
    by simp
  then have "take (length (heap a)) (heap c) = take (length (heap a)) (heap b)"
    using le by (simp add: min_absorb1)
  with ab show ?thesis by (simp add: keeps_objects_def)
qed

lemma keeps_objects_heap_get:
  "keeps_objects st st' \<Longrightarrow> heap_get st r = Some ob \<Longrightarrow> heap_get st' r = Some ob"
proof -
  assume k: "keeps_objects st st'" and g: "heap_get st r = Some ob"
  from g have r: "r < length (heap st)" and ob: "heap st ! r = ob"
    by (simp_all add: heap_get_def split: if_splits)
  from k have t: "take (length (heap st)) (heap st') = heap st"
    by (simp add: keeps_objects_def)
  then have "length (heap st) \<le> length (heap st')"
    by (rule take_eq_length_le)
  moreover have "take (length (heap st)) (heap st') ! r = heap st' ! r"
    using r by (rule nth_take)
  then have "heap st' ! r = heap st ! r"
    using t by simp
  ultimately show ?thesis using r ob by (simp add: heap_get_def)
qed

lemma keeps_objects_alloc: "keeps_objects st (st\<lparr>heap := heap st @ xs\<rparr>)"
  by (simp add: keeps_objects_def)

lemma keeps_objects_same_heap: "heap st' = heap st \<Longrightarrow> keeps_objects st st'"
  by (simp add: keeps_objects_def)

lemma heap_set_below: "n \<le> r \<Longrightarrow> take n (heap (heap_set st r ob)) = take n (heap st)"
  by (simp add: heap_set_def)

lemma check_row_id_below:
  "n \<le> r \<Longrightarrow> take n (heap (snd (check_row_id st r rid idx))) = take n (heap st)"
  by (simp add: check_row_id_def Let_def heap_set_below split: option.split sum.split)

lemma check_model_id_below:
  "n \<le> r \<Longrightarrow> take n (heap (snd (check_model_id st r mid idx))) = take n (heap st)"
  by (simp add: check_model_id_def Let_def heap_set_below split: option.split sum.split)

lemma check_row_id_ref: "check_row_id st r rid idx = (Inr v, st') \<Longrightarrow> v = r"
  by (simp add: check_row_id_def Let_def split: option.splits sum.splits if_splits)

lemma check_model_id_ref: "check_model_id st r mid idx = (Inr v, st') \<Longrightarrow> v = r"
  by (simp add: check_model_id_def Let_def split: option.splits sum.splits if_splits)

lemma mongo_insert_one_below:
  "n \<le> r \<Longrightarrow> take n (heap (snd (mongo_insert_one st vt r))) = take n (heap st)"
  by (simp add: mongo_insert_one_def Let_def split: option.split pyobj.split)

lemma insert_chunks_heap: "heap (snd (insert_chunks st vt rws i)) = heap st"
  using insert_chunks_prefix [of st vt rws i] by (auto simp: appended_fields)

lemma priv_insert_df_below:
  "n \<le> r \<Longrightarrow> take n (heap (snd (priv_insert_df_into_db st r vt rid mid))) = take n (heap st)"
  by (simp add: priv_insert_df_into_db_def Let_def insert_chunks_heap
        heap_set_def split: option.split pyobj.split sum.split)

lemma dict_tail_below:
  assumes "n \<le> r"
  shows "take n (heap (snd
           (case heap_get st4 r of
              Some (Dict d4) \<Rightarrow>
                (let st5 = heap_set st4 r (Dict (scalarize_items d4))
                 in mongo_insert_one st5 vt r)
            | Some (DataFrame df4) \<Rightarrow> (Inl TypeError, st4)
            | None \<Rightarrow> (Inl InvalidRef, st4)))) = take n (heap st4)"
proof (cases "heap_get st4 r")
  case None
  then show ?thesis by simp
next
  case (Some ob)
  show ?thesis
  proof (cases ob)
    case (DataFrame df4)
    with Some show ?thesis by simp
  next
    case (Dict d4)
    let ?st5 = "heap_set st4 r (Dict (scalarize_items d4))"
    have s5: "take n (heap ?st5) = take n (heap st4)"
      using assms by (rule heap_set_below)
    from mongo_insert_one_below [OF assms, of ?st5 vt] s5 Some Dict show ?thesis
      by (simp add: Let_def)
  qed
qed

lemma insert_keeps_objects:
  "keeps_objects st (snd (insert_into_persistent_db st r vt rid mid))"
proof (cases "heap_get st r")
  case None
  then show ?thesis
    by (simp add: insert_into_persistent_db_def keeps_objects_refl)
next
  case (Some ob)
  let ?n = "length (heap st)"
  show ?thesis
  proof (cases ob)
    case (DataFrame df)
    let ?st0 = "st\<lparr>heap := heap st @ [DataFrame (stamped_df (clock st) df)]\<rparr>"
    have "take ?n (heap (snd (priv_insert_df_into_db ?st0 ?n vt rid mid))) = take ?n (heap ?st0)"
      by (rule priv_insert_df_below) simp
    then show ?thesis
      using Some DataFrame by (simp add: insert_df_stamped keeps_objects_def)
  next
    case (Dict d)
    let ?d3 = "AList.update ''_concordia_created_at'' (PTime (clock st))
                 (AList.delete ''_id_'' (AList.delete ''_id'' d))"
    let ?st2 = "st\<lparr>heap := heap st @ [Dict ?d3]\<rparr>"
    have g: "heap_get st r = Some (Dict d)" using Some Dict by simp
    obtain res3 st3 where c1: "check_row_id ?st2 ?n rid None = (res3, st3)" by fastforce
    have k3: "take ?n (heap st3) = heap st"
      using check_row_id_below [of ?n ?n ?st2 rid None] c1 by simp
    show ?thesis
    proof (cases res3)
      case (Inl e)
      with c1 k3 show ?thesis
        by (simp add: insert_dict_unfold [OF g] Let_def keeps_objects_def)
    next
      case (Inr v)
      with c1 have v: "v = ?n" by (auto dest: check_row_id_ref)
      obtain res4 st4 where c2: "check_model_id st3 ?n mid None = (res4, st4)" by fastforce
      have k4: "take ?n (heap st4) = heap st"
        using check_model_id_below [of ?n ?n st3 mid None] c2 k3 by simp
      show ?thesis
      proof (cases res4)
        case (Inl e)
        with c1 c2 Inr v k4 show ?thesis
          by (simp add: insert_dict_unfold [OF g] Let_def keeps_objects_def)
      next
        case r4: (Inr v2)
        with c2 have v2: "v2 = ?n" by (auto dest: check_model_id_ref)
        from dict_tail_below [of ?n ?n st4 vt] k4 c1 c2 Inr v r4 v2 show ?thesis
          by (simp add: insert_dict_unfold [OF g] Let_def keeps_objects_def)
      qed
    qed
  qed
qed

lemma insert_step:
  "insert_into_persistent_db s r vt x y = (res, s') \<Longrightarrow> keeps_objects a s \<Longrightarrow> keeps_objects a s'"
  using insert_keeps_objects [of s r vt x y] by (auto intro: keeps_objects_trans)

lemma get_model_step:
  "priv_get_model ev s model_id = (res, s') \<Longrightarrow> keeps_objects a s \<Longrightarrow> keeps_objects a s'"
  using get_model_only_cache [of ev s model_id] by (auto simp: keeps_objects_def)

lemma alloc_step: "keeps_objects a s \<Longrightarrow> keeps_objects a (s\<lparr>heap := heap s @ xs\<rparr>)"
  by (rule keeps_objects_trans [OF _ keeps_objects_alloc])

lemma predict_keeps_objects:
  "keeps_objects st (snd (priv_predict ev st features0 model_id row_id proba))"
proof (cases "heap_get st features0")
  case None
  then show ?thesis by (simp add: priv_predict_def keeps_objects_refl)
next
  case (Some ob0)
  let ?n = "length (heap st)"
  let ?st1 = "st\<lparr>heap := heap st @ [ob0]\<rparr>"
  have k1: "keeps_objects st ?st1" by (rule keeps_objects_alloc)
  show ?thesis
  proof (cases "row_id = PNone \<and> default_row_id_field st = None")
    case True
    with Some k1 show ?thesis by (auto simp: priv_predict_def heap_alloc_def)
  next
    case False
    then have nf: "\<not> (row_id = PNone \<and> default_row_id_field ?st1 = None)" by simp
    obtain res2 st2 where gm: "priv_get_model ev ?st1 model_id = (res2, st2)" by fastforce
    have k2: "keeps_objects st st2" by (rule get_model_step [OF gm k1])
    show ?thesis
    proof (cases res2)
      case (Inl e)
      with Some nf gm k2 show ?thesis by (auto simp: priv_predict_def heap_alloc_def)
    next
      case r2: (Inr model)
      let ?rr = "if row_id = PNone then obj_getitem ob0 (default_row_id_field st2) else Inr row_id"
      show ?thesis
      proof (cases ?rr)
        case (Inl e)
        with Some nf gm r2 k2 show ?thesis by (auto simp: priv_predict_def heap_alloc_def)
      next
        case rr: (Inr row_id1)
        obtain res3 st3 where i3: "insert_into_persistent_db st2 ?n ''live_features'' row_id1
                                     (pyval_of_id model_id) = (res3, st3)" by fastforce
        have k3: "keeps_objects st st3" by (rule insert_step [OF i3 k2])
        show ?thesis
        proof (cases res3)
          case (Inl e)
          with Some nf gm r2 rr i3 k3 show ?thesis by (auto simp: priv_predict_def heap_alloc_def)
        next
          case r3: (Inr u)
          show ?thesis
          proof (cases "heap_get st3 ?n")
            case None
            with Some nf gm r2 rr i3 r3 k3 show ?thesis
              by (auto simp: priv_predict_def heap_alloc_def)
          next
            case g3: (Some ob)
            let ?call = "if proba then model_predict_proba ev model ob else model_predict ev model ob"
            show ?thesis
            proof (cases ?call)
              case (Inl e)
              with Some nf gm r2 rr i3 r3 g3 k3 show ?thesis
                by (auto simp: priv_predict_def heap_alloc_def)
            next
              case c: (Inr prediction)
              let ?doc = "[(''prediction'', normalize_prediction prediction), (''row_id'', row_id1),
                           (''model_id'', pyval_of_id model_id)]"
              let ?pd = "if is_DataFrame ob
                         then (case pd_DataFrame ?doc of Inl e \<Rightarrow> Inl e | Inr df \<Rightarrow> Inr (DataFrame df))
                         else Inr (Dict ?doc)"
              show ?thesis
              proof (cases ?pd)
                case (Inl e)
                with Some nf gm r2 rr i3 r3 g3 c k3 show ?thesis
                  by (auto simp: priv_predict_def heap_alloc_def Let_def)
              next
                case p: (Inr pd)
                let ?st4 = "st3\<lparr>heap := heap st3 @ [pd]\<rparr>"
                have k4: "keeps_objects st ?st4" by (rule alloc_step [OF k3])
                obtain res5 st5 where i5: "insert_into_persistent_db ?st4 (length (heap st3))
                    ''live_predictions'' row_id1 (pyval_of_id model_id) = (res5, st5)" by fastforce
                have k5: "keeps_objects st st5" by (rule insert_step [OF i5 k4])
                have "snd (priv_predict ev st features0 model_id row_id proba) = st5"
                  using Some nf gm r2 rr i3 r3 g3 c p i5
                  by (cases res5) (auto simp: priv_predict_def heap_alloc_def Let_def)
                with k5 show ?thesis by simp
              qed
            qed
          qed
        qed
      qed
    qed
  qed
qed

lemma predict_demo_run:
  "fst (predict demo_env cached_store (Some ''m1'') 0 (PStr ''r1'')) = Inr (PInt 3)
   \<and> map (\<lambda>d. (map_of d ''row_id'', map_of d ''model_id'', map_of d ''_concordia_created_at''))
         (mdb (snd (predict demo_env cached_store (Some ''m1'') 0 (PStr ''r1''))) ''live_features'')
       = [(Some (PStr ''r1''), Some (PStr ''m1''), Some (PTime 0))]"
proof -
  let ?d = "[(''age'', PInt 30)]"
  define st1 where "st1 = cached_store\<lparr>heap := heap cached_store @ [Dict ?d]\<rparr>"
  have gm: "priv_get_model demo_env st1 (Some ''m1'') = (Inr 3, st1)"
    by (simp add: get_model_heap_indep cached_store_facts(6) st1_def)
  define W where "W = written_doc cached_store ?d (PStr ''r1'') (PStr ''m1'')"
  define st3 where "st3 = cached_store
      \<lparr>heap := heap cached_store @ [Dict ?d, Dict W],
       mdb := (mdb cached_store)(''live_features'' := [W]),
       next_oid := Suc (next_oid cached_store)\<rparr>"
  have i3: "insert_into_persistent_db st1 (length (heap cached_store)) ''live_features''
              (PStr ''r1'') (PStr ''m1'') = (Inr (), st3)"
    unfolding st1_def st3_def W_def by (rule cached_store_logged)
  have g3: "heap_get st3 (length (heap cached_store)) = Some (Dict ?d)"
    by (simp add: st3_def heap_get_def cached_store_facts(2))
  let ?pd = "[(''prediction'', PInt 3), (''row_id'', PStr ''r1''), (''model_id'', PStr ''m1'')]"
  define st4 where "st4 = st3\<lparr>heap := heap st3 @ [Dict ?pd]\<rparr>"
  have g4: "heap_get st4 (length (heap st3)) = Some (Dict ?pd)"
    unfolding st4_def by (rule heap_get_alloc_new)
  define V where "V = written_doc st4 ?pd (PStr ''r1'') (PStr ''m1'')"
  define st5 where "st5 = st4\<lparr>heap := heap st4 @ [Dict V],
                               mdb := (mdb st4)(''live_predictions'' := mdb st4 ''live_predictions'' @ [V]),
                               next_oid := Suc (next_oid st4)\<rparr>"
  have okV: "doc_ok (written_doc st4 ?pd (PStr ''r1'') (PStr ''m1''))"
    by (rule doc_ok_written_doc) (simp_all add: bson_ok_def)
  have i5: "insert_into_persistent_db st4 (length (heap st3)) ''live_predictions''
              (PStr ''r1'') (PStr ''m1'') = (Inr (), st5)"
    unfolding st5_def V_def
    by (rule insert_dict_scalar_ok [OF g4 _ _ _ _ okV]) (simp_all add: is_listlike_def)
  have mp: "model_predict demo_env 3 (Dict ?d) = Inr (PInt 3)"
    by (simp add: demo_env_def)
  have run: "predict demo_env cached_store (Some ''m1'') 0 (PStr ''r1'') = (Inr (PInt 3), st5)"
    using cached_store_facts(1)
    by (simp add: predict_def priv_predict_def heap_alloc_def st1_def [symmetric] gm
          pyval_of_id_def i3 g3 mp normalize_prediction_def is_DataFrame_def
          st4_def [symmetric] i5)
  have w: "map_of W ''row_id'' = Some (PStr ''r1'')" "map_of W ''model_id'' = Some (PStr ''m1'')"
    "map_of W ''_concordia_created_at'' = Some (PTime 0)"
    by (simp_all add: W_def written_doc_def with_id_def dict_contains_def scalarize_items_def
          cached_store_def empty_store_def)
  have "mdb st5 ''live_features'' = [W]"
    by (simp add: st5_def st4_def st3_def)
  with run w show ?thesis by simp
qed

subsection \<open>Labels for a batch of rows\<close>

lemma table_identity_present:
  assumes "''row_id'' \<in> set (df_columns df)" and "''model_id'' \<in> set (df_columns df)"
  shows "table_identity st df rid mid = Inr (stamped_df (clock st) df)"
  using assms
  by (simp add: table_identity_def df_row_id_block_def df_model_id_block_def stamped_df_columns
        Let_def)

lemma add_label_positional:
  assumes "length labels = length ids"
      and "pd_coerce_column ids = ids"
      and "list_all bson_ok ids" and "list_all bson_ok (pd_coerce_column labels)"
  shows "\<exists>st' new. add_label st (PList ids) (PStr m) (PList labels) = (Inr (), st')
           \<and> mdb st' ''live_labels'' = mdb st ''live_labels'' @ new
           \<and> length new = length ids
           \<and> (\<forall>i. i < length ids \<longrightarrow> map_of (new ! i) ''row_id'' = Some (ids ! i)
                                    \<and> map_of (new ! i) ''model_id'' = Some (PStr m))"
proof -
  let ?n = "length ids"
  define df where "df =
     \<lparr> df_columns = [''row_id'', ''model_id'', ''label''],
       df_rows = map (\<lambda>i. [(''row_id'', ids ! i), (''model_id'', PStr m),
                            (''label'', pd_coerce_column labels ! i)]) [0..<?n] \<rparr>"
  let ?S = "stamped_df (clock st) df"
  let ?st1 = "st\<lparr>heap := heap st @ [DataFrame df]\<rparr>"
  let ?st' = "appended (?st1\<lparr>heap := heap ?st1 @ [DataFrame ?S]\<rparr>) ''live_labels'' (df_rows ?S)"
  let ?new = "assign_ids (next_oid st) (df_rows ?S)"
  have strs: "pd_coerce_column (replicate ?n (PStr m)) = replicate ?n (PStr m)"
    by (cases "?n = 0") (simp_all add: pd_coerce_column_def pd_integer_def pd_numeric_def list_all_iff
          list_ex_iff)
  have frame: "pd_DataFrame [(''row_id'', PList ids), (''model_id'', PList (replicate ?n (PStr m))),
                              (''label'', PList labels)] = Inr df"
    using assms(1,2)
    by (simp add: pd_DataFrame_def is_listlike_def items_of_def column_of_def strs df_def Let_def)
  have g: "heap_get ?st1 (length (heap st)) = Some (DataFrame df)"
    by (rule heap_get_alloc_new)
  have cols: "''row_id'' \<in> set (df_columns df)" "''model_id'' \<in> set (df_columns df)"
    by (simp_all add: df_def)
  have "list_all doc_ok (df_rows df)"
    using assms(1,3,4)
    by (simp add: df_def doc_ok_iff list_all_iff bson_ok_def length_pd_coerce_column)
  then have e: "list_all doc_ok (df_rows ?S)"
    by (rule rows_ok_stamped_df)
  have ins: "insert_into_persistent_db ?st1 (length (heap st)) ''live_labels'' rid mid = (Inr (), ?st')"
    for rid mid
    using insert_df_resolved [OF g table_identity_present [OF cols, of ?st1 rid mid],
            of "''live_labels''"]
          insert_chunks_ok [of 0 "df_rows ?S" _ "''live_labels''"] e
    by simp
  have run: "add_label st (PList ids) (PStr m) (PList labels) = (Inr (), ?st')"
    by (simp add: add_label_def is_scalar_id_def is_str_def py_len_def frame heap_alloc_def
          obj_getitem_def obj_contains_def cols ins Let_def)
  have len: "length (df_rows ?S) = ?n"
    by (simp add: stamped_df_length) (simp add: df_def)
  have m: "mdb ?st' ''live_labels'' = mdb st ''live_labels'' @ ?new"
    by (simp add: appended_fields)
  have ln: "length ?new = ?n"
    by (simp only: length_assign_ids len)
  have ids: "map_of (?new ! i) ''row_id'' = Some (ids ! i)
             \<and> map_of (?new ! i) ''model_id'' = Some (PStr m)" if "i < ?n" for i
  proof -
    have i: "i < length (df_rows df)" using that by (simp add: df_def)
    have a: "map_of (df_rows ?S ! i) ''row_id'' = map_of (df_rows df ! i) ''row_id''"
      using i by (rule stamped_df_other) simp_all
    have b: "map_of (df_rows ?S ! i) ''model_id'' = map_of (df_rows df ! i) ''model_id''"
      using i by (rule stamped_df_other) simp_all
    have c: "map_of (df_rows df ! i) ''row_id'' = Some (ids ! i)"
      "map_of (df_rows df ! i) ''model_id'' = Some (PStr m)"
      using that by (simp_all add: df_def)
    have d: "?new ! i = with_id (next_oid st + i) (df_rows ?S ! i)"
      using that len by (simp only: assign_ids_nth)
    show ?thesis
      unfolding d using a b c by (simp add: with_id_other)
  qed
  from run m ln ids show ?thesis by blast
qed

section \<open>The claims\<close>

subsection \<open>C9: reconciliation\<close>

text \<open>
  Claim C9 says that \<^verbatim>\<open>match_training_and_live\<close> computes the left outer join of the
  live rows with the training rows, and gives the rows \<open>k=1,a=10\<close> and \<open>k=2,a=20\<close> joined
  with \<open>k=1,b=100\<close> on \<open>k\<close> as its example. On that input the function does not reach
  \<^verbatim>\<open>pd.merge\<close>: it raises \<^verbatim>\<open>UnboundLocalError\<close> when it reads \<^verbatim>\<open>row_id\<close>, whatever
  the merge would compute.
\<close>

theorem match_training_and_live_raises:
  "match_training_and_live pd_merge_left (Some ''k'')
     \<lparr> df_columns = [''k'', ''b''], df_rows = [[(''k'', PInt 1), (''b'', PInt 100)]] \<rparr>
     \<lparr> df_columns = [''k'', ''a''],
       df_rows = [[(''k'', PInt 1), (''a'', PInt 10)], [(''k'', PInt 2), (''a'', PInt 20)]] \<rparr>
     (Some ''k'')
   = Inl (UnboundLocalError ''row_id'')"
  by (simp add: match_training_and_live_def)

subsection \<open>C4: registering without feature importances\<close>

text \<open>
  Claim C4 says that \<^verbatim>\<open>add_model\<close> succeeds when \<^verbatim>\<open>feature_importances\<close> is left at
  its default \<^verbatim>\<open>None\<close>, writing the cache entry and a \<^verbatim>\<open>model_info\<close> record. The code
  writes the cache entry and then raises \<^verbatim>\<open>AttributeError\<close> at
  \<^verbatim>\<open>feature_importances.items()\<close>; the database is as it was.
\<close>

theorem add_model_without_importances_raises:
  "add_model ev st model model_id feature_names None description =
     (Inl AttributeError,
      st\<lparr>rdb := (rdb st)(make_redis_model_key model_id \<mapsto> dumps_b64 ev model)\<rparr>)
   \<and> mdb (snd (add_model ev st model model_id feature_names None description)) = mdb st"
  by (simp add: add_model_def Let_def)

subsection \<open>C7: a prediction call without any row identity\<close>

text \<open>
  Claim C7: when the row identifier is omitted and the instance has no default row-id
  field, \<^verbatim>\<open>predict\<close> and \<^verbatim>\<open>predict_proba\<close> fail with the missing-row-id error before any
  input or output: the database and the cache are unchanged, so no \<^verbatim>\<open>live_features\<close>
  record (and no other record) is written.
\<close>

theorem predict_without_row_identity:
  assumes "heap_get st features = Some ob"
      and "default_row_id_field st = None"
  shows "fst (predict ev st model_id features PNone) = Inl (ValueError Missing_row_id)
       \<and> mdb (snd (predict ev st model_id features PNone)) = mdb st
       \<and> rdb (snd (predict ev st model_id features PNone)) = rdb st
       \<and> fst (predict_proba ev st model_id features PNone) = Inl (ValueError Missing_row_id)
       \<and> mdb (snd (predict_proba ev st model_id features PNone)) = mdb st
       \<and> rdb (snd (predict_proba ev st model_id features PNone)) = rdb st"
  using assms
  by (simp add: predict_def predict_proba_def priv_predict_def heap_alloc_def)

theorem predict_without_row_identity_witness:
  "fst (predict demo_env (empty_store None [Dict [(''age'', PInt 30)]]) (Some ''m1'') 0 PNone)
     = Inl (ValueError Missing_row_id)
   \<and> mdb (snd (predict demo_env (empty_store None [Dict [(''age'', PInt 30)]]) (Some ''m1'') 0 PNone))
       ''live_features'' = []"
  using predict_without_row_identity [of "empty_store None [Dict [(''age'', PInt 30)]]" 0
          "Dict [(''age'', PInt 30)]" demo_env "Some ''m1''"]
  by (simp add: empty_store_def heap_get_def)

subsection \<open>C2: a batch is written row by row, whatever its size\<close>

text \<open>
  Claim C2: for a table of \<open>N\<close> rows whose identity resolves to the table \<open>df2\<close>,
  \<^verbatim>\<open>insert_into_persistent_db\<close> hands the \<open>N\<close> rows of \<open>df2\<close> to the driver in chunks of
  1000 that cover the indices from \<open>0\<close> to \<open>N\<close> without omission or duplication, for
  every \<open>N\<close>: the \<open>i\<close>-th document agrees with the \<open>i\<close>-th row of the table on every
  payload column, and what the collection has gained at the end of the call is a prefix
  of these documents, all of them when the call returns. When the driver can encode
  every row, the call returns, the collection has gained exactly the \<open>N\<close> documents, a
  retrieve without filters returns the earlier content of the collection followed by
  them, and a retrieve filtered by the broadcast model identifier returns the earlier
  records of that model followed by them: exactly \<open>N\<close> records when the model had none.
\<close>

theorem batch_insert_writes_every_row_once:
  assumes "heap_get st r = Some (DataFrame df)"
      and "table_identity st df rid mid = Inr df2"
  shows "let run = insert_into_persistent_db st r vt rid mid;
             new = assign_ids (next_oid st) (df_rows df2)
         in length new = length (df_rows df)
          \<and> (\<forall>i k. i < length (df_rows df)
                   \<and> k \<notin> set [''_id'', ''_id_'', ''_concordia_created_at'', ''row_id'', ''model_id'']
                 \<longrightarrow> map_of (new ! i) k = map_of (df_rows df ! i) k)
          \<and> (\<exists>j. j \<le> length (df_rows df)
                 \<and> mdb (snd run) = (mdb st)(vt := mdb st vt @ take j new)
                 \<and> (fst run = Inr () \<longrightarrow> j = length (df_rows df)))
          \<and> (list_all doc_ok (df_rows df2)
               \<longrightarrow> fst run = Inr ()
                 \<and> mdb (snd run) = (mdb st)(vt := mdb st vt @ new)
                 \<and> retrieve_from_persistent_db (snd run) vt PNone PNone PNone None = mdb st vt @ new
                 \<and> (''model_id'' \<notin> set (df_columns df) \<and> \<not> is_listlike mid \<and> bson_ok mid
                      \<longrightarrow> retrieve_from_persistent_db (snd run) vt PNone mid PNone None =
                          filter (\<lambda>d. case map_of d ''model_id'' of None \<Rightarrow> False
                                       | Some w \<Rightarrow> mongo_eq w mid) (mdb st vt) @ new))"
proof -
  let ?N = "length (df_rows df)"
  let ?st0 = "st\<lparr>heap := heap st @ [DataFrame df2]\<rparr>"
  let ?run = "insert_into_persistent_db st r vt rid mid"
  let ?new = "assign_ids (next_oid st) (df_rows df2)"
  have run: "?run = insert_chunks ?st0 vt (df_rows df2) 0"
    by (rule insert_df_resolved [OF assms])
  have l2: "length (df_rows df2) = ?N"
    by (rule table_identity_rows(1) [OF assms(2)])
  have len: "length ?new = ?N"
    by (simp add: length_assign_ids l2)
  have pos: "map_of (?new ! i) k = map_of (df_rows df ! i) k"
    if "i < ?N" "k \<notin> set [''_id'', ''_id_'', ''_concordia_created_at'', ''row_id'', ''model_id'']"
    for i k
  proof -
    from that(2) have k: "k \<noteq> ''_id''" by auto
    have "map_of (?new ! i) k = map_of (df_rows df2 ! i) k"
      using that(1) l2 k by (simp add: assign_ids_nth with_id_other)
    also have "\<dots> = map_of (df_rows df ! i) k"
      using that by (rule table_identity_rows(2) [OF assms(2)])
    finally show ?thesis .
  qed
  have prefix: "\<exists>j. j \<le> ?N \<and> mdb (snd ?run) = (mdb st)(vt := mdb st vt @ take j ?new)
                 \<and> (fst ?run = Inr () \<longrightarrow> j = ?N)"
  proof -
    from insert_chunks_prefix [of ?st0 vt "df_rows df2" 0] obtain k where
      k: "snd ?run = appended ?st0 vt (take k (df_rows df2))"
         "fst ?run = Inr () \<longrightarrow> take k (df_rows df2) = df_rows df2"
      by (auto simp: run)
    let ?j = "min k ?N"
    have a: "mdb (snd ?run) = (mdb st)(vt := mdb st vt @ take ?j ?new)"
      using take_assign_ids_length [of k "next_oid st" "df_rows df2"]
      by (simp add: k(1) appended_fields assign_ids_take l2)
    have b: "?j = ?N" if "fst ?run = Inr ()"
    proof -
      from that k(2) have "length (take k (df_rows df2)) = length (df_rows df2)" by simp
      then show ?thesis by (simp add: l2 min_def split: if_splits)
    qed
    from a b show ?thesis by (intro exI [of _ ?j]) simp
  qed
  have ok: "fst ?run = Inr () \<and> mdb (snd ?run) = (mdb st)(vt := mdb st vt @ ?new)
            \<and> retrieve_from_persistent_db (snd ?run) vt PNone PNone PNone None = mdb st vt @ ?new
            \<and> (''model_id'' \<notin> set (df_columns df) \<and> \<not> is_listlike mid \<and> bson_ok mid
                 \<longrightarrow> retrieve_from_persistent_db (snd ?run) vt PNone mid PNone None =
                     filter (\<lambda>d. case map_of d ''model_id'' of None \<Rightarrow> False
                                  | Some w \<Rightarrow> mongo_eq w mid) (mdb st vt) @ ?new)"
    if enc: "list_all doc_ok (df_rows df2)"
  proof -
    have r: "?run = (Inr (), appended ?st0 vt (df_rows df2))"
      using insert_chunks_ok [of 0 "df_rows df2" ?st0 vt] enc by (simp add: run)
    have m: "mdb (snd ?run) = (mdb st)(vt := mdb st vt @ ?new)"
      by (simp add: r appended_fields)
    have all: "retrieve_from_persistent_db (snd ?run) vt PNone PNone PNone None = mdb st vt @ ?new"
      by (simp add: retrieve_unfiltered m)
    have by_model: "retrieve_from_persistent_db (snd ?run) vt PNone mid PNone None =
                    filter (\<lambda>d. case map_of d ''model_id'' of None \<Rightarrow> False
                                 | Some w \<Rightarrow> mongo_eq w mid) (mdb st vt) @ ?new"
      if "''model_id'' \<notin> set (df_columns df)" "\<not> is_listlike mid" "bson_ok mid"
    proof -
      have ne: "mid \<noteq> PNone"
      proof
        assume "mid = PNone"
        with assms(2) that(1) show False
          by (auto simp: table_identity_def df_model_id_block_def stamped_df_columns Let_def
                split: sum.splits)
      qed
      have "(case map_of (?new ! i) ''model_id'' of None \<Rightarrow> False | Some w \<Rightarrow> mongo_eq w mid)"
        if "i < length ?new" for i
      proof -
        from that len have i: "i < ?N" by simp
        have "map_of (df_rows df2 ! i) ''model_id'' = Some (pd_native mid)"
          using \<open>''model_id'' \<notin> set (df_columns df)\<close> \<open>\<not> is_listlike mid\<close> i
          by (rule table_identity_rows(3) [OF assms(2)])
        then have "map_of (df_rows df2 ! i) ''model_id'' = Some mid"
          using \<open>bson_ok mid\<close> by (simp add: pd_native_fixed)
        then show ?thesis
          using i l2 by (simp add: assign_ids_nth with_id_other mongo_eq_refl)
      qed
      then have "filter (\<lambda>d. case map_of d ''model_id'' of None \<Rightarrow> False
                             | Some w \<Rightarrow> mongo_eq w mid) ?new = ?new"
        by (rule filter_all_match)
      then show ?thesis
        using ne by (simp add: retrieve_by_model_id m)
    qed
    from r m all by_model show ?thesis by simp
  qed
  from len pos prefix ok show ?thesis
    unfolding Let_def by blast
qed

theorem batch_insert_writes_every_row_once_witness:
  "heap_get busy_store 0 = Some (DataFrame crowd)
   \<and> (case table_identity busy_store crowd (PStr ''r1'') (PStr ''m1'') of
        Inl e \<Rightarrow> False | Inr df2 \<Rightarrow> list_all doc_ok (df_rows df2))
   \<and> 2 * chunk_size < length (df_rows crowd)
   \<and> length (mdb busy_store ''training_features'') = 1
   \<and> fst (insert_into_persistent_db busy_store 0 ''training_features'' (PStr ''r1'') (PStr ''m1''))
       = Inr ()
   \<and> length (retrieve_from_persistent_db
               (snd (insert_into_persistent_db busy_store 0 ''training_features''
                       (PStr ''r1'') (PStr ''m1'')))
               ''training_features'' PNone (PStr ''m1'') PNone None) = 2500
   \<and> length (retrieve_from_persistent_db
               (snd (insert_into_persistent_db busy_store 0 ''training_features''
                       (PStr ''r1'') (PStr ''m1'')))
               ''training_features'' PNone PNone PNone None) = 2501"
proof -
  let ?df2 = "df_assign (df_assign (stamped_df 0 crowd) ''row_id'' (replicate 2500 (PStr ''r1'')))
                ''model_id'' (replicate 2500 (PStr ''m1''))"
  let ?run = "insert_into_persistent_db busy_store 0 ''training_features'' (PStr ''r1'') (PStr ''m1'')"
  let ?new = "assign_ids (next_oid busy_store) (df_rows ?df2)"
  note t = batch_insert_writes_every_row_once
             [OF busy_store_facts(1) crowd_identity, of "''training_features''", unfolded Let_def]
  from t have len: "length ?new = 2500" by (simp add: crowd_facts)
  from t crowd_encodable have ok: "fst ?run = Inr ()" by blast
  from t crowd_encodable have
    all: "retrieve_from_persistent_db (snd ?run) ''training_features'' PNone PNone PNone None
          = mdb busy_store ''training_features'' @ ?new" by blast
  have "''model_id'' \<notin> set (df_columns crowd) \<and> \<not> is_listlike (PStr ''m1'')
        \<and> bson_ok (PStr ''m1'')"
    by (simp add: crowd_facts is_listlike_def bson_ok_def)
  with t crowd_encodable have
    sel: "retrieve_from_persistent_db (snd ?run) ''training_features'' PNone (PStr ''m1'') PNone None
          = filter (\<lambda>d. case map_of d ''model_id'' of None \<Rightarrow> False
                         | Some w \<Rightarrow> mongo_eq w (PStr ''m1''))
              (mdb busy_store ''training_features'') @ ?new" by blast
  have old: "filter (\<lambda>d. case map_of d ''model_id'' of None \<Rightarrow> False
                         | Some w \<Rightarrow> mongo_eq w (PStr ''m1''))
              (mdb busy_store ''training_features'') = []"
    by (simp add: busy_store_facts mongo_eq_def)
  have c: "2 * chunk_size < length (df_rows crowd)"
    by (simp add: chunk_size_def crowd_facts)
  show ?thesis
    using ok c len
    by (simp add: busy_store_facts(1) crowd_identity crowd_encodable all sel old)
       (simp add: busy_store_facts(2))
qed

subsection \<open>C8: positional row identifiers, broadcast model identifier\<close>



subsection \<open>C5: every written record carries both identifiers\<close>

text \<open>
  Claim C5 says that every record handed to the database carries a \<^verbatim>\<open>row_id\<close> and a
  \<^verbatim>\<open>model_id\<close>, and that an identity that cannot be resolved is an error. The flat path
  does so (\<^verbatim>\<open>check_row_id\<close> copies the value of the default row-id field into
  \<^verbatim>\<open>row_id\<close>). The table path checks that the default row-id field is a column and
  then writes the rows as they are: on an instance whose default row-id field is
  \<open>name\<close>, a table with a \<open>name\<close> column and no \<^verbatim>\<open>row_id\<close> column, inserted without a
  row identifier, is written, and none of its three records has a \<^verbatim>\<open>row_id\<close>.
\<close>

theorem batch_insert_without_row_id_column:
  "fst (insert_into_persistent_db (empty_store (Some ''name'') [DataFrame people]) 0
          ''training_features'' PNone (PStr ''m1'')) = Inr ()
   \<and> map (\<lambda>d. map_of d ''row_id'')
         (mdb (snd (insert_into_persistent_db (empty_store (Some ''name'') [DataFrame people]) 0
                      ''training_features'' PNone (PStr ''m1''))) ''training_features'')
       = [None, None, None]"
proof -
  let ?st = "empty_store (Some ''name'') [DataFrame people]"
  let ?df2 = "df_assign (stamped_df 0 people) ''model_id'' (replicate 3 (PStr ''m1''))"
  have h: "heap_get ?st 0 = Some (DataFrame people)"
    by (simp add: empty_store_def heap_get_def)
  have e: "list_all doc_ok (df_rows ?df2)"
    by (intro rows_ok_df_assign rows_ok_stamped_df people_facts) (simp add: bson_ok_def list_all_iff)
  have run: "insert_into_persistent_db ?st 0 ''training_features'' PNone (PStr ''m1'')
             = (Inr (), appended (?st\<lparr>heap := heap ?st @ [DataFrame ?df2]\<rparr>)
                          ''training_features'' (df_rows ?df2))"
    using insert_chunks_ok [of 0 "df_rows ?df2" _ "''training_features''"] e
    by (simp add: insert_df_resolved [OF h people_default_identity])
  show ?thesis
    unfolding run
    by (simp add: appended_fields empty_store_def stamped_df_def df_assign_def people_def
          with_id_def dict_contains_def numeral_3_eq_3)
qed

subsection \<open>C1: a registered model is the one that is served\<close>

text \<open>
  Claim C1 says that for every model and identifier, \<^verbatim>\<open>_get_model\<close> after
  \<^verbatim>\<open>add_model\<close> returns the registered model, from the cache and, after eviction, from
  the \<^verbatim>\<open>model_info\<close> record. From the cache it does. After eviction it returns the model
  of the first \<^verbatim>\<open>model_info\<close> record with that identifier: when the identifier had been
  registered before (model \<open>5\<close> under \<open>b\<close>), registering model \<open>7\<close> under \<open>b\<close> and evicting
  makes \<^verbatim>\<open>_get_model\<close> return model \<open>5\<close>, whose predictions differ from those of \<open>7\<close>.
\<close>

theorem register_then_get_stale:
  "add_model demo_env registered_before 7 (Some ''b'') PNone (Some 0) PNone
     = (Inr (), registered_again)
   \<and> fst (priv_get_model demo_env registered_again (Some ''b'')) = Inr 7
   \<and> fst (priv_get_model demo_env (evict_model registered_again (Some ''b'')) (Some ''b'')) = Inr 5
   \<and> model_predict demo_env 5 (Dict []) \<noteq> model_predict demo_env 7 (Dict [])"
proof -
  have r1: "add_model demo_env (empty_store None [Dict []]) 5 (Some ''b'') PNone (Some 0) PNone
            = (Inr (), registered_before)"
    and h1: "heap_get registered_before 0 = Some (Dict [])"
    using add_model_demo [OF empty_store_facts(1), of None 5 "''b''"]
    by (simp_all add: registered_before_def)
  have r2: "add_model demo_env registered_before 7 (Some ''b'') PNone (Some 0) PNone
            = (Inr (), registered_again)"
    using add_model_demo [OF h1, of 7 "''b''"] by (simp add: registered_again_def)
  have hit: "fst (priv_get_model demo_env registered_again (Some ''b'')) = Inr 7"
    by (simp add: registration_served(1) [OF demo_env_valid r2])
  have miss: "fst (priv_get_model demo_env (evict_model registered_again (Some ''b'')) (Some ''b''))
              = Inr 5"
    using first_registration_served [OF demo_env_valid r1 r2 empty_store_facts(2)] by simp
  have "model_predict demo_env 5 (Dict []) \<noteq> model_predict demo_env 7 (Dict [])"
    by (simp add: demo_env_def)
  with r2 hit miss show ?thesis by simp
qed

text \<open>
  Claim C1 as amended: for every model \<open>m\<close> that the codec round-trips and every string
  identifier, after a call of \<^verbatim>\<open>add_model\<close> that returned, \<^verbatim>\<open>_get_model\<close> returns \<open>m\<close>
  itself (hence the same predictions on the same inputs) from the cache; and, when the
  database held no \<^verbatim>\<open>model_info\<close> record of the identifier before the registration, it
  returns \<open>m\<close> from the \<^verbatim>\<open>model_info\<close> record once the cache entry is evicted, and writes
  the cache entry back, so that the state is again the one reached by the registration.
  The call of \<^verbatim>\<open>add_model\<close> returns whenever the feature importances are a dictionary
  that \<^verbatim>\<open>json.dumps\<close> accepts and the feature names and the description are values the
  driver can encode.
\<close>

theorem register_then_get:
  assumes "loads_b64 ev (dumps_b64 ev m) = Some m"
  shows "(heap_get st fi = Some (Dict d) \<and> json_dumps ev (scalarize_items d) = Some js
            \<and> bson_ok (scalarize_value fn) \<and> bson_ok (scalarize_value desc)
          \<longrightarrow> fst (add_model ev st m (Some mid) fn (Some fi) desc) = Inr ())
       \<and> (add_model ev st m (Some mid) fn fio desc = (Inr (), st1)
          \<longrightarrow> priv_get_model ev st1 (Some mid) = (Inr m, st1)
            \<and> rdb (evict_model st1 (Some mid)) (make_redis_model_key (Some mid)) = None
            \<and> (retrieve_from_persistent_db st ''model_info'' PNone (PStr mid) PNone None = []
                 \<longrightarrow> priv_get_model ev (evict_model st1 (Some mid)) (Some mid) = (Inr m, st1)))"
proof (intro conjI impI)
  assume "heap_get st fi = Some (Dict d) \<and> json_dumps ev (scalarize_items d) = Some js
            \<and> bson_ok (scalarize_value fn) \<and> bson_ok (scalarize_value desc)"
  then have "\<exists>st'. add_model ev st m (Some mid) fn (Some fi) desc = (Inr (), st')"
    using add_model_registers [of st fi d ev js fn desc m mid] by blast
  then show "fst (add_model ev st m (Some mid) fn (Some fi) desc) = Inr ()"
    by auto
next
  assume r: "add_model ev st m (Some mid) fn fio desc = (Inr (), st1)"
  show "priv_get_model ev st1 (Some mid) = (Inr m, st1)"
    by (rule registration_served(1) [OF assms r])
  show "rdb (evict_model st1 (Some mid)) (make_redis_model_key (Some mid)) = None"
    by (simp add: evict_model_def)
  assume "retrieve_from_persistent_db st ''model_info'' PNone (PStr mid) PNone None = []"
  then show "priv_get_model ev (evict_model st1 (Some mid)) (Some mid) = (Inr m, st1)"
    by (rule registration_served(2) [OF assms r])
qed

theorem register_then_get_witness:
  "loads_b64 demo_env (dumps_b64 demo_env 1) = Some (1::nat)
   \<and> add_model demo_env (empty_store None [Dict []]) 1 (Some ''a'') PNone (Some 0) PNone
       = (Inr (), registered_once)
   \<and> priv_get_model demo_env registered_once (Some ''a'') = (Inr 1, registered_once)
   \<and> rdb (evict_model registered_once (Some ''a'')) (make_redis_model_key (Some ''a'')) = None
   \<and> retrieve_from_persistent_db (empty_store None [Dict []]) ''model_info'' PNone (PStr ''a'')
       PNone None = []
   \<and> priv_get_model demo_env (evict_model registered_once (Some ''a'')) (Some ''a'')
       = (Inr 1, registered_once)"
proof -
  note t = register_then_get [where ev = demo_env and m = 1 and st = "empty_store None [Dict []]"
             and fi = 0 and d = "[]" and js = "''{}''" and mid = "''a''" and fn = PNone
             and desc = PNone and fio = "Some 0" and ?st1.0 = registered_once, OF demo_env_valid]
  have p: "heap_get (empty_store None [Dict []]) 0 = Some (Dict [])
           \<and> json_dumps demo_env (scalarize_items []) = Some ''{}''
           \<and> bson_ok (scalarize_value PNone) \<and> bson_ok (scalarize_value PNone)"
    by (simp add: empty_store_facts demo_env_def bson_ok_def scalarize_items_def)
  from t p have "fst (add_model demo_env (empty_store None [Dict []]) 1 (Some ''a'') PNone
                       (Some 0) PNone) = Inr ()"
    by blast
  then have r: "add_model demo_env (empty_store None [Dict []]) 1 (Some ''a'') PNone (Some 0) PNone
                = (Inr (), registered_once)"
    by (simp add: registered_once_def prod_eq_iff)
  from t r show ?thesis
    by (simp add: demo_env_valid empty_store_facts)
qed

subsection \<open>C6: which record is served on a cache miss\<close>

text \<open>
  Claim C6 says that on a cache miss \<^verbatim>\<open>_get_model\<close> returns the model of the most
  recent \<^verbatim>\<open>model_info\<close> record, so that after re-registering an identifier and evicting
  the cache the most recently registered model is returned. With models \<open>1\<close> and then \<open>2\<close>
  registered under \<open>a\<close>, it returns \<open>1\<close>.
\<close>

theorem get_model_not_most_recent:
  "add_model demo_env registered_once 2 (Some ''a'') PNone (Some 0) PNone
     = (Inr (), registered_twice)
   \<and> fst (priv_get_model demo_env (evict_model registered_twice (Some ''a'')) (Some ''a'')) = Inr 1
   \<and> model_predict demo_env 1 (Dict []) \<noteq> model_predict demo_env 2 (Dict [])"
proof -
  have r1: "add_model demo_env (empty_store None [Dict []]) 1 (Some ''a'') PNone (Some 0) PNone
            = (Inr (), registered_once)"
    and h1: "heap_get registered_once 0 = Some (Dict [])"
    using add_model_demo [OF empty_store_facts(1), of None 1 "''a''"]
    by (simp_all add: registered_once_def)
  have r2: "add_model demo_env registered_once 2 (Some ''a'') PNone (Some 0) PNone
            = (Inr (), registered_twice)"
    using add_model_demo [OF h1, of 2 "''a''"] by (simp add: registered_twice_def)
  have "fst (priv_get_model demo_env (evict_model registered_twice (Some ''a'')) (Some ''a'')) = Inr 1"
    using first_registration_served [OF demo_env_valid r1 r2 empty_store_facts(2)] by simp
  moreover have "model_predict demo_env 1 (Dict []) \<noteq> model_predict demo_env 2 (Dict [])"
    by (simp add: demo_env_def)
  ultimately show ?thesis using r2 by simp
qed

text \<open>
  Claim C6 as amended: when the cache entry is absent, \<^verbatim>\<open>_get_model\<close> returns the model
  decoded from the first record that the query for the \<^verbatim>\<open>model_info\<close> records of that
  identifier returns, which is the earliest inserted one (\<^verbatim>\<open>mdb_result[0]\<close>), and writes
  its blob to the cache; in particular, after an identifier without earlier records is
  registered, registered again and evicted from the cache, it returns the model that was
  registered first.
\<close>

theorem get_model_serves_first_record:
  "(rdb st (make_redis_model_key (Some mid)) = None
      \<and> retrieve_from_persistent_db st ''model_info'' PNone (PStr mid) PNone None = d0 # rest
      \<and> map_of d0 ''model'' = Some (PStr b)
    \<longrightarrow> priv_get_model ev st (Some mid) =
          (decode_model ev (Some b), st\<lparr>rdb := (rdb st)(make_redis_model_key (Some mid) \<mapsto> b)\<rparr>))
   \<and> (loads_b64 ev (dumps_b64 ev m1) = Some m1
      \<and> retrieve_from_persistent_db st ''model_info'' PNone (PStr mid) PNone None = []
      \<and> add_model ev st m1 (Some mid) fn1 fio1 desc1 = (Inr (), st1)
      \<and> add_model ev st1 m2 (Some mid) fn2 fio2 desc2 = (Inr (), st2)
    \<longrightarrow> priv_get_model ev (evict_model st2 (Some mid)) (Some mid) =
          (Inr m1, st2\<lparr>rdb := (rdb st2)(make_redis_model_key (Some mid) \<mapsto> dumps_b64 ev m1)\<rparr>))"
proof (intro conjI impI)
  assume a: "rdb st (make_redis_model_key (Some mid)) = None
      \<and> retrieve_from_persistent_db st ''model_info'' PNone (PStr mid) PNone None = d0 # rest
      \<and> map_of d0 ''model'' = Some (PStr b)"
  then have "retrieve_from_persistent_db st ''model_info'' PNone (pyval_of_id (Some mid)) PNone None
             = d0 # rest"
    by (simp add: pyval_of_id_def)
  with a show "priv_get_model ev st (Some mid) =
          (decode_model ev (Some b), st\<lparr>rdb := (rdb st)(make_redis_model_key (Some mid) \<mapsto> b)\<rparr>)"
    by (simp add: get_model_from_record)
next
  assume "loads_b64 ev (dumps_b64 ev m1) = Some m1
      \<and> retrieve_from_persistent_db st ''model_info'' PNone (PStr mid) PNone None = []
      \<and> add_model ev st m1 (Some mid) fn1 fio1 desc1 = (Inr (), st1)
      \<and> add_model ev st1 m2 (Some mid) fn2 fio2 desc2 = (Inr (), st2)"
  then show "priv_get_model ev (evict_model st2 (Some mid)) (Some mid) =
          (Inr m1, st2\<lparr>rdb := (rdb st2)(make_redis_model_key (Some mid) \<mapsto> dumps_b64 ev m1)\<rparr>)"
    using first_registration_served [of ev m1 st mid fn1 fio1 desc1 st1 m2 fn2 fio2 desc2 st2]
    by blast
qed

theorem get_model_serves_first_record_witness:
  "fst (priv_get_model demo_env
          ((empty_store None [])\<lparr>mdb := (\<lambda>c. [])(''model_info'' :=
              [[(''model'', PStr ''AAA''), (''model_id'', PStr ''a'')],
               [(''model'', PStr ''A''), (''model_id'', PStr ''a'')]])\<rparr>) (Some ''a'')) = Inr 3
   \<and> add_model demo_env (empty_store None [Dict []]) 1 (Some ''a'') PNone (Some 0) PNone
     = (Inr (), registered_once)
   \<and> add_model demo_env registered_once 2 (Some ''a'') PNone (Some 0) PNone
     = (Inr (), registered_twice)
   \<and> fst (priv_get_model demo_env (evict_model registered_twice (Some ''a'')) (Some ''a'')) = Inr 1"
proof -
  have r1: "add_model demo_env (empty_store None [Dict []]) 1 (Some ''a'') PNone (Some 0) PNone
            = (Inr (), registered_once)"
    and h1: "heap_get registered_once 0 = Some (Dict [])"
    using add_model_demo [OF empty_store_facts(1), of None 1 "''a''"]
    by (simp_all add: registered_once_def)
  have r2: "add_model demo_env registered_once 2 (Some ''a'') PNone (Some 0) PNone
            = (Inr (), registered_twice)"
    using add_model_demo [OF h1, of 2 "''a''"] by (simp add: registered_twice_def)
  from get_model_serves_first_record
         [THEN conjunct2, of demo_env 1 "empty_store None [Dict []]" "''a''" PNone "Some 0" PNone
            registered_once 2 PNone "Some 0" PNone registered_twice]
       r1 r2
  have "priv_get_model demo_env (evict_model registered_twice (Some ''a'')) (Some ''a'') =
          (Inr 1, registered_twice\<lparr>rdb := (rdb registered_twice)
             (make_redis_model_key (Some ''a'') \<mapsto> dumps_b64 demo_env 1)\<rparr>)"
    by (simp add: demo_env_valid empty_store_facts(2))
  moreover
  let ?st = "(empty_store None [])\<lparr>mdb := (\<lambda>c. [])(''model_info'' :=
              [[(''model'', PStr ''AAA''), (''model_id'', PStr ''a'')],
               [(''model'', PStr ''A''), (''model_id'', PStr ''a'')]])\<rparr>"
  have p: "rdb ?st (make_redis_model_key (Some ''a'')) = None"
    "retrieve_from_persistent_db ?st ''model_info'' PNone (PStr ''a'') PNone None
       = [(''model'', PStr ''AAA''), (''model_id'', PStr ''a'')]
         # [[(''model'', PStr ''A''), (''model_id'', PStr ''a'')]]"
    "map_of [(''model'', PStr ''AAA''), (''model_id'', PStr ''a'')] ''model'' = Some (PStr ''AAA'')"
    by (simp_all add: empty_store_def retrieve_model_info mongo_eq_refl)
  from get_model_serves_first_record
         [THEN conjunct1, of ?st "''a''" "[(''model'', PStr ''AAA''), (''model_id'', PStr ''a'')]"
            "[[(''model'', PStr ''A''), (''model_id'', PStr ''a'')]]" "''AAA''" demo_env] p
  have "fst (priv_get_model demo_env ?st (Some ''a'')) = decode_model demo_env (Some ''AAA'')"
    by simp
  then have "fst (priv_get_model demo_env ?st (Some ''a'')) = Inr 3"
    by (simp add: decode_model_def demo_env_def)
  ultimately show ?thesis using r1 r2 by simp
qed

subsection \<open>C3: the order of resolving, logging and invoking\<close>

text \<open>
  Claim C3 says that the features are written as a \<^verbatim>\<open>live_features\<close> record before the
  model is resolved, so that the record exists when resolution fails for an unregistered
  identifier. In \<^verbatim>\<open>_predict\<close> the call of \<^verbatim>\<open>_get_model\<close> comes first: for an
  unregistered identifier the call fails and the \<^verbatim>\<open>live_features\<close> collection is empty.
\<close>

theorem predict_unregistered_writes_nothing:
  "fst (predict demo_env (empty_store None [Dict [(''age'', PInt 30)]]) (Some ''nope'') 0 (PStr ''r1''))
     = Inl (ValueError (No_model (Some ''nope'')))
   \<and> mdb (snd (predict demo_env (empty_store None [Dict [(''age'', PInt 30)]]) (Some ''nope'') 0
                 (PStr ''r1''))) ''live_features'' = []"
  by (simp add: predict_def priv_predict_def heap_get_def heap_alloc_def priv_get_model_def
        retrieve_from_persistent_db_def mongo_find_def matches_def mongo_eq_def
        pyval_of_id_def empty_store_def Let_def)

text \<open>
  Claim C3 as amended: in a prediction call that passes identity resolution the model is
  resolved first, and when that fails the call fails with the same error and the
  database is unchanged (no \<^verbatim>\<open>live_features\<close> record). Once the model and the row
  identifier \<open>rid1\<close> are resolved, the features are written before the model is invoked,
  for every payload: \<open>logged\<close> is the write of the copy of the features to
  \<^verbatim>\<open>live_features\<close>; when it raises, the call raises the same error in the state the
  write reached; when it returns, it has added one record per row of the payload to
  \<^verbatim>\<open>live_features\<close> and nothing to any other collection, and an exception in the
  model's \<^verbatim>\<open>predict\<close> or \<^verbatim>\<open>predict_proba\<close> ends the call in exactly that state, with
  the features written and no \<^verbatim>\<open>live_predictions\<close> record.
\<close>

theorem predict_resolves_then_logs_then_invokes:
  "(heap_get st features = Some ob0
      \<and> \<not> (row_id = PNone \<and> default_row_id_field st = None)
      \<and> fst (priv_get_model ev st model_id) = Inl e
    \<longrightarrow> fst (priv_predict ev st features model_id row_id proba) = Inl e
        \<and> mdb (snd (priv_predict ev st features model_id row_id proba)) = mdb st)
   \<and> (heap_get st features = Some ob0
      \<and> \<not> (row_id = PNone \<and> default_row_id_field st = None)
      \<and> fst (priv_get_model ev st model_id) = Inr m
      \<and> (if row_id = PNone then obj_getitem ob0 (default_row_id_field st) else Inr row_id)
          = Inr rid1
    \<longrightarrow> (let logged = insert_into_persistent_db
                         ((snd (priv_get_model ev st model_id))\<lparr>heap := heap st @ [ob0]\<rparr>)
                         (length (heap st)) ''live_features'' rid1 (pyval_of_id model_id)
         in (\<forall>e1. fst logged = Inl e1
                \<longrightarrow> priv_predict ev st features model_id row_id proba = (Inl e1, snd logged))
          \<and> (fst logged = Inr ()
                \<longrightarrow> length (mdb (snd logged) ''live_features'')
                      = length (mdb st ''live_features'') + payload_rows ob0
                  \<and> (\<forall>c. c \<noteq> ''live_features'' \<longrightarrow> mdb (snd logged) c = mdb st c)
                  \<and> (\<forall>ob e2. heap_get (snd logged) (length (heap st)) = Some ob
                             \<and> (if proba then model_predict_proba ev m ob
                                 else model_predict ev m ob) = Inl e2
                        \<longrightarrow> priv_predict ev st features model_id row_id proba
                              = (Inl e2, snd logged)))))"
proof (intro conjI impI)
  assume "heap_get st features = Some ob0
      \<and> \<not> (row_id = PNone \<and> default_row_id_field st = None)
      \<and> fst (priv_get_model ev st model_id) = Inl e"
  then show "fst (priv_predict ev st features model_id row_id proba) = Inl e"
    and "mdb (snd (priv_predict ev st features model_id row_id proba)) = mdb st"
    using predict_resolution_fails [of st features ob0 row_id ev model_id e proba] by blast+
next
  let ?st2 = "(snd (priv_get_model ev st model_id))\<lparr>heap := heap st @ [ob0]\<rparr>"
  let ?logged = "insert_into_persistent_db ?st2 (length (heap st)) ''live_features'' rid1
                   (pyval_of_id model_id)"
  assume a: "heap_get st features = Some ob0
      \<and> \<not> (row_id = PNone \<and> default_row_id_field st = None)
      \<and> fst (priv_get_model ev st model_id) = Inr m
      \<and> (if row_id = PNone then obj_getitem ob0 (default_row_id_field st) else Inr row_id)
          = Inr rid1"
  then have unf: "priv_predict ev st features model_id row_id proba =
         (case ?logged of
            (Inl e, st3) \<Rightarrow> (Inl e, st3)
          | (Inr u, st3) \<Rightarrow>
              (case heap_get st3 (length (heap st)) of
                 None \<Rightarrow> (Inl InvalidRef, st3)
               | Some ob \<Rightarrow>
                   (case (if proba then model_predict_proba ev m ob else model_predict ev m ob) of
                      Inl e \<Rightarrow> (Inl e, st3)
                    | Inr prediction \<Rightarrow>
                        (let pred_doc = [(''prediction'', normalize_prediction prediction),
                                         (''row_id'', rid1), (''model_id'', pyval_of_id model_id)]
                         in case (if is_DataFrame ob
                                  then (case pd_DataFrame pred_doc of
                                          Inl e \<Rightarrow> Inl e | Inr df \<Rightarrow> Inr (DataFrame df))
                                  else Inr (Dict pred_doc)) of
                              Inl e \<Rightarrow> (Inl e, st3)
                            | Inr pd \<Rightarrow>
                                (case insert_into_persistent_db (st3\<lparr>heap := heap st3 @ [pd]\<rparr>)
                                        (length (heap st3)) ''live_predictions'' rid1
                                        (pyval_of_id model_id) of
                                   (Inl e, st5) \<Rightarrow> (Inl e, st5)
                                 | (Inr u', st5) \<Rightarrow> (Inr prediction, st5))))))"
    using predict_resolved [of st features ob0 row_id ev model_id m rid1 proba] by blast
  have g2: "heap_get ?st2 (length (heap st)) = Some ob0"
    by (simp add: heap_get_def)
  have m2: "mdb ?st2 = mdb st"
    by (simp add: get_model_fields)
  have fails: "priv_predict ev st features model_id row_id proba = (Inl e1, snd ?logged)"
    if "fst ?logged = Inl e1" for e1
    using that unfolding unf by (cases ?logged) simp
  have count: "length (mdb (snd ?logged) ''live_features'')
                 = length (mdb st ''live_features'') + payload_rows ob0"
    and rest: "\<And>c. c \<noteq> ''live_features'' \<Longrightarrow> mdb (snd ?logged) c = mdb st c"
    if "fst ?logged = Inr ()"
    using insert_writes_payload [OF g2 that] by (simp_all add: m2)
  have crash: "priv_predict ev st features model_id row_id proba = (Inl e2, snd ?logged)"
    if "fst ?logged = Inr ()" "heap_get (snd ?logged) (length (heap st)) = Some ob"
       "(if proba then model_predict_proba ev m ob else model_predict ev m ob) = Inl e2"
    for ob e2
    using that unfolding unf by (cases ?logged) simp
  show "let logged = ?logged
        in (\<forall>e1. fst logged = Inl e1
                \<longrightarrow> priv_predict ev st features model_id row_id proba = (Inl e1, snd logged))
          \<and> (fst logged = Inr ()
                \<longrightarrow> length (mdb (snd logged) ''live_features'')
                      = length (mdb st ''live_features'') + payload_rows ob0
                  \<and> (\<forall>c. c \<noteq> ''live_features'' \<longrightarrow> mdb (snd logged) c = mdb st c)
                  \<and> (\<forall>ob e2. heap_get (snd logged) (length (heap st)) = Some ob
                             \<and> (if proba then model_predict_proba ev m ob
                                 else model_predict ev m ob) = Inl e2
                        \<longrightarrow> priv_predict ev st features model_id row_id proba
                              = (Inl e2, snd logged)))"
    unfolding Let_def using fails count rest crash by blast
qed

theorem predict_resolves_then_logs_then_invokes_witness:
  "fst (priv_predict demo_env (empty_store None [Dict [(''age'', PInt 30)]]) 0 (Some ''nope'')
          (PStr ''r1'') False) = Inl (ValueError (No_model (Some ''nope'')))
   \<and> mdb (snd (priv_predict demo_env (empty_store None [Dict [(''age'', PInt 30)]]) 0 (Some ''nope'')
                 (PStr ''r1'') False)) ''live_features'' = []
   \<and> fst (priv_predict crashing_env cached_store 0 (Some ''m1'') (PStr ''r1'') False) = Inl ModelError
   \<and> map (\<lambda>d. (map_of d ''row_id'', map_of d ''age''))
         (mdb (snd (priv_predict crashing_env cached_store 0 (Some ''m1'') (PStr ''r1'') False))
            ''live_features'') = [(Some (PStr ''r1''), Some (PInt 30))]
   \<and> mdb (snd (priv_predict crashing_env cached_store 0 (Some ''m1'') (PStr ''r1'') False))
         ''live_predictions'' = []"
proof -
  let ?s0 = "empty_store None [Dict [(''age'', PInt 30)]]"
  let ?a = "[(''age'', PInt 30)]"
  have a1: "heap_get ?s0 0 = Some (Dict ?a)"
    by (simp add: empty_store_def heap_get_def)
  have a2: "fst (priv_get_model demo_env ?s0 (Some ''nope'')) = Inl (ValueError (No_model (Some ''nope'')))"
    by (simp add: priv_get_model_def empty_store_def retrieve_from_persistent_db_def
          mongo_find_def Let_def)
  have w: "map_of (written_doc cached_store ?a (PStr ''r1'') (PStr ''m1'')) ''row_id''
             = Some (PStr ''r1'')"
    "map_of (written_doc cached_store ?a (PStr ''r1'') (PStr ''m1'')) ''age'' = Some (PInt 30)"
    by (simp_all add: written_doc_def with_id_def dict_contains_def scalarize_items_def)
  have m0: "mdb ?s0 = (\<lambda>c. [])"
    by (simp add: empty_store_def)
  note t = predict_resolves_then_logs_then_invokes
  from t [THEN conjunct1, of ?s0 0 "Dict ?a" "PStr ''r1''" demo_env "Some ''nope''"
            "ValueError (No_model (Some ''nope''))" False] a1 a2
  have A: "fst (priv_predict demo_env ?s0 0 (Some ''nope'') (PStr ''r1'') False)
             = Inl (ValueError (No_model (Some ''nope'')))"
    "mdb (snd (priv_predict demo_env ?s0 0 (Some ''nope'') (PStr ''r1'') False)) = mdb ?s0"
    by simp_all
  have p: "heap_get cached_store 0 = Some (Dict ?a)
           \<and> \<not> (PStr ''r1'' = PNone \<and> default_row_id_field cached_store = None)
           \<and> fst (priv_get_model crashing_env cached_store (Some ''m1'')) = Inr 3
           \<and> (if PStr ''r1'' = PNone then obj_getitem (Dict ?a) (default_row_id_field cached_store)
               else Inr (PStr ''r1'')) = Inr (PStr ''r1'')"
    by (simp add: cached_store_facts)
  have crash: "(if False then model_predict_proba crashing_env 3 (Dict ?a)
                else model_predict crashing_env 3 (Dict ?a)) = Inl ModelError"
    by (simp add: crashing_env_def)
  let ?W = "written_doc cached_store ?a (PStr ''r1'') (PStr ''m1'')"
  let ?st3 = "cached_store
      \<lparr>heap := heap cached_store @ [Dict ?a, Dict ?W],
       mdb := (mdb cached_store)(''live_features'' := [?W]),
       next_oid := Suc (next_oid cached_store)\<rparr>"
  from t [THEN conjunct2, of cached_store 0 "Dict ?a" "PStr ''r1''" crashing_env "Some ''m1''" 3
            "PStr ''r1''" False, rule_format, OF p, unfolded Let_def, THEN conjunct2]
  have T: "\<forall>ob e2. heap_get ?st3 (length (heap cached_store)) = Some ob
                   \<and> model_predict crashing_env 3 ob = Inl e2
             \<longrightarrow> priv_predict crashing_env cached_store 0 (Some ''m1'') (PStr ''r1'') False
                   = (Inl e2, ?st3)"
    by (simp add: cached_store_facts(5) pyval_of_id_def cached_store_logged) blast
  have g: "heap_get ?st3 (length (heap cached_store)) = Some (Dict ?a)"
    by (simp add: heap_get_def cached_store_facts(2))
  from T g crash
  have B: "priv_predict crashing_env cached_store 0 (Some ''m1'') (PStr ''r1'') False
           = (Inl ModelError, ?st3)"
    by simp
  from A show ?thesis
    by (simp add: B w m0 cached_store_facts(3))
qed

subsection \<open>C10: the caller's payload after a prediction call\<close>

text \<open>
  Claim C10: \<^verbatim>\<open>predict\<close> and \<^verbatim>\<open>predict_proba\<close> do not mutate the caller's payload.
  Every object that exists before the call, the features among them, holds the same
  key/value pairs (or columns and rows) after it, whether the call returns or raises:
  the row identifier, the model identifier, the creation time and the deletion of the
  internal identifiers are applied to the copy made by \<^verbatim>\<open>features.copy()\<close> and to the
  copies \<^verbatim>\<open>insert_into_persistent_db\<close> makes. The model's own \<^verbatim>\<open>predict\<close> is taken not to
  write to its argument.
\<close>

theorem predict_keeps_callers_payload:
  assumes "heap_get st r = Some ob"
  shows "heap_get (snd (predict ev st model_id features row_id)) r = Some ob
       \<and> heap_get (snd (predict_proba ev st model_id features row_id)) r = Some ob"
  using assms predict_keeps_objects [of st ev features model_id row_id False]
        predict_keeps_objects [of st ev features model_id row_id True]
  by (simp add: predict_def predict_proba_def keeps_objects_heap_get)

theorem predict_keeps_callers_payload_witness:
  "heap_get (snd (predict demo_env cached_store (Some ''m1'') 0 (PStr ''r1''))) 0
     = Some (Dict [(''age'', PInt 30)])
   \<and> heap_get (snd (predict_proba demo_env cached_store (Some ''m1'') 0 (PStr ''r1''))) 0
     = Some (Dict [(''age'', PInt 30)])
   \<and> fst (predict demo_env cached_store (Some ''m1'') 0 (PStr ''r1'')) = Inr (PInt 3)
   \<and> map (\<lambda>d. (map_of d ''row_id'', map_of d ''model_id'', map_of d ''_concordia_created_at''))
         (mdb (snd (predict demo_env cached_store (Some ''m1'') 0 (PStr ''r1''))) ''live_features'')
       = [(Some (PStr ''r1''), Some (PStr ''m1''), Some (PTime 0))]"
proof -
  have h0: "heap_get cached_store 0 = Some (Dict [(''age'', PInt 30)])"
    by (simp add: cached_store_def empty_store_def heap_get_def)
  from predict_keeps_callers_payload [OF h0, of demo_env "Some ''m1''" 0 "PStr ''r1''"]
       predict_demo_run
  show ?thesis by simp
qed

end
